theory Spec2Isabelle
  imports Complex_Main
begin

section \<open>Conventions\<close>

text \<open>
  The C++ sources compute with \<^verbatim>\<open>double\<close>. The embedding uses \<^typ>\<open>real\<close>: every
  definition below is the exact-arithmetic reading of the C++ statement it translates.
  Where IEEE arithmetic and exact arithmetic part ways on finite inputs (a division by
  zero that yields an infinity in C++), the C++ outcome is written out as a branch of
  the definition. Not-a-number values have no counterpart in \<^typ>\<open>real\<close>, hence
  \<^verbatim>\<open>std::isnan\<close> is constantly false in the embedding.

  A C++ exception is a value of type \<open>exn\<close>; a function that can throw returns
  \<open>exn + 'a\<close> with \<open>Inl\<close> for the exception.
\<close>

datatype exn =
    LogicError              \<comment> \<open>\<^verbatim>\<open>std::logic_error\<close>\<close>
  | NumericalProblem        \<comment> \<open>\<^verbatim>\<open>Opm::NumericalProblem\<close>\<close>
  | TooManyIterations       \<comment> \<open>\<^verbatim>\<open>Opm::TooManyIterations\<close>\<close>
  | LinearSolverProblem     \<comment> \<open>\<^verbatim>\<open>Opm::LinearSolverProblem\<close>\<close>
  | RuntimeError            \<comment> \<open>any other \<^verbatim>\<open>std::runtime_error\<close>\<close>
  | ISTLError               \<comment> \<open>\<^verbatim>\<open>Dune::ISTLError\<close>\<close>
  | MatrixBlockError        \<comment> \<open>\<^verbatim>\<open>Dune::MatrixBlockError\<close>\<close>
  | FMatrixError            \<comment> \<open>\<^verbatim>\<open>Dune::FMatrixError\<close>\<close>
  | OtherException          \<comment> \<open>anything else\<close>

section \<open>Reservoir state and \<^verbatim>\<open>BlackoilModelEbos::updateState\<close>\<close>

text \<open>
  \<^verbatim>\<open>HydroCarbonState\<close> is an enumeration with three enumerators. The switch statements
  of \<^verbatim>\<open>updateState\<close> have a \<^verbatim>\<open>default\<close> branch for any other stored value; the fourth
  constructor stands for such a value.
\<close>

datatype HydroCarbonState = GasOnly | GasAndOil | OilOnly | InvalidHydroCarbonState

text \<open>
  \<^verbatim>\<open>ReservoirState\<close> stores one array per quantity (\<^verbatim>\<open>pressure()\<close>, \<^verbatim>\<open>saturation()\<close> with
  \<^verbatim>\<open>np\<close> entries per cell at \<^verbatim>\<open>cell_idx*np + phase_pos[phase]\<close>, \<^verbatim>\<open>gasoilratio()\<close>, \<^verbatim>\<open>rv()\<close>,
  \<^verbatim>\<open>hydroCarbonState()\<close>, \<^verbatim>\<open>temperature()\<close>, and the cell data \<^verbatim>\<open>SSOL\<close> and \<^verbatim>\<open>POLYMER\<close>).
  \<^verbatim>\<open>updateState\<close> reads and writes, for the cell it visits, only the entries of that
  cell; the embedding therefore keeps the entries of one cell together in a record and
  the state is the list of these records in cell order. The three saturation entries of
  a cell are the fields \<open>sw\<close>, \<open>so\<close> and \<open>sg\<close>.
\<close>

record cell_state =
  pressure :: real
  sw :: real
  so :: real
  sg :: real
  gasoilratio :: real
  rv :: real
  hydroCarbonState :: HydroCarbonState
  ssol :: real
  polymer :: real
  temperature :: real

type_synonym ReservoirState = "cell_state list"

text \<open>
  Index constants that the functions take from \<^verbatim>\<open>FluidSystem\<close> and \<^verbatim>\<open>BlackoilIndices\<close>,
  the canonical phase indices \<^verbatim>\<open>Water\<close>, \<^verbatim>\<open>Oil\<close>, \<^verbatim>\<open>Gas\<close>, and the positions
  \<^verbatim>\<open>XvarWell\<close>, \<^verbatim>\<open>WFrac\<close>, \<^verbatim>\<open>GFrac\<close>, \<^verbatim>\<open>SFrac\<close> of the well variables. Their
  declarations are not part of the sources at hand, so they are parameters.
\<close>

record BlackoilIndices =
  waterCompIdx :: nat
  oilCompIdx :: nat
  gasCompIdx :: nat
  waterPhaseIdx :: nat
  oilPhaseIdx :: nat
  gasPhaseIdx :: nat
  solventSaturationIdx :: nat
  polymerConcentrationIdx :: nat
  contiSolventEqIdx :: nat
  contiPolymerEqIdx :: nat
  numFluidComponents :: nat
  Water :: nat
  Oil :: nat
  Gas :: nat
  XvarWell :: nat
  WFrac :: nat
  GFrac :: nat
  SFrac :: nat

text \<open>
  The members that \<^verbatim>\<open>BlackoilModelEbos\<close> and \<^verbatim>\<open>StandardWellsDense\<close> are both
  constructed with and that the functions below read: the active phases \<^verbatim>\<open>active_\<close>, the
  feature switches, the entries of \<^verbatim>\<open>param_\<close>, and the two saturated-ratio functions of
  the fluid system (arguments: PVT region, temperature, pressure), which are external.
\<close>

record BlackoilModel =
  active_water :: bool
  active_oil :: bool
  active_gas :: bool
  has_disgas :: bool
  has_vapoil :: bool
  has_solvent :: bool
  has_polymer :: bool
  dp_max_rel :: real
  ds_max :: real
  tolerance_mb :: real
  tolerance_cnv :: real
  tolerance_wells :: real
  max_strict_iter :: int
  max_residual_allowed :: real
  dWellFractionMax :: real
  dbhpMaxRel :: real
  solve_welleq_initially :: bool
  pvtRegionIndex :: "nat \<Rightarrow> nat"
  saturatedGasDissolutionFactor :: "nat \<Rightarrow> real \<Rightarrow> real \<Rightarrow> real"
  saturatedOilVaporizationFactor :: "nat \<Rightarrow> real \<Rightarrow> real \<Rightarrow> real"

definition flowPhaseToEbosCompIdx :: "BlackoilIndices \<Rightarrow> nat \<Rightarrow> nat" where
  "flowPhaseToEbosCompIdx ix phaseIdx =
     (if phaseIdx > 2 then phaseIdx
      else [waterCompIdx ix, oilCompIdx ix, gasCompIdx ix] ! phaseIdx)"

text \<open>\<^verbatim>\<open>const double epsilon = 1e-4;\<close>\<close>

definition epsilon :: real where
  "epsilon = 1 / 10000"

text \<open>
  The pressure update:
  \<^verbatim>\<open>sign_dp = dp > 0 ? 1 : -1;  p -= sign_dp * std::min(std::abs(dp), std::abs(p)*dp_rel_max);\<close>
  followed by \<^verbatim>\<open>p = std::max(p, 0.0);\<close>.
\<close>

definition sign_of :: "real \<Rightarrow> real" where
  "sign_of d = (if d > 0 then 1 else - 1)"

definition chopped_pressure :: "real \<Rightarrow> real \<Rightarrow> real \<Rightarrow> real" where
  "chopped_pressure dp_rel_max dp p = p - sign_of dp * min \<bar>dp\<bar> (\<bar>p\<bar> * dp_rel_max)"

definition updated_pressure :: "real \<Rightarrow> real \<Rightarrow> real \<Rightarrow> real" where
  "updated_pressure dp_rel_max dp p = max (chopped_pressure dp_rel_max dp p) 0"

text \<open>
  The raw deltas of a cell. \<open>dsw\<close> and \<open>dxvar\<close> are read from the block of \<open>dx\<close>; the
  first switch on the hydrocarbon state distributes \<open>dxvar\<close> and throws on an
  unknown tag.
\<close>

definition raw_dsw :: "BlackoilIndices \<Rightarrow> BlackoilModel \<Rightarrow> real list \<Rightarrow> real" where
  "raw_dsw ix m dxc = (if active_water m then dxc ! flowPhaseToEbosCompIdx ix 1 else 0)"

definition raw_dxvar :: "BlackoilIndices \<Rightarrow> BlackoilModel \<Rightarrow> real list \<Rightarrow> real" where
  "raw_dxvar ix m dxc =
     (let xvar_ind = (if active_water m then 2 else 1)
      in if active_gas m then dxc ! flowPhaseToEbosCompIdx ix xvar_ind else 0)"

definition raw_dss :: "BlackoilIndices \<Rightarrow> BlackoilModel \<Rightarrow> real list \<Rightarrow> real" where
  "raw_dss ix m dxc = (if has_solvent m then dxc ! solventSaturationIdx ix else 0)"

definition raw_dc :: "BlackoilIndices \<Rightarrow> BlackoilModel \<Rightarrow> real list \<Rightarrow> real" where
  "raw_dc ix m dxc = (if has_polymer m then dxc ! polymerConcentrationIdx ix else 0)"

text \<open>The triple \<open>(dsg, drs, drv)\<close> after the first switch.\<close>

fun gas_deltas :: "HydroCarbonState \<Rightarrow> real \<Rightarrow> real \<Rightarrow> exn + (real \<times> real \<times> real)" where
  "gas_deltas GasAndOil dsw dxvar = Inr (dxvar, 0, 0)"
| "gas_deltas OilOnly dsw dxvar = Inr (0, dxvar, 0)"
| "gas_deltas GasOnly dsw dxvar = Inr (0 - dsw, 0, dxvar)"
| "gas_deltas InvalidHydroCarbonState dsw dxvar = Inl LogicError"

text \<open>
  The Appleyard chop. \<^verbatim>\<open>maxVal\<close> is the running maximum of \<open>|dsw|\<close>, \<open>|dsg|\<close>, \<open>|dss|\<close>
  starting from \<open>0.0\<close>;
  \<^verbatim>\<open>double step = dsMax()/maxVal;  step = std::min(step, 1.0);\<close>
  For \<open>maxVal = 0\<close> and a positive \<open>dsMax()\<close> the quotient is \<open>+inf\<close> in C++ and the
  minimum is \<open>1.0\<close>; this is the first branch below. (For \<open>maxVal = 0\<close> and
  \<open>dsMax() \<le> 0\<close> the C++ value is not a real number; the theorems about the step
  assume a positive \<open>dsMax()\<close>.)
\<close>

definition maxVal :: "real \<Rightarrow> real \<Rightarrow> real \<Rightarrow> real" where
  "maxVal dsw dsg dss = max \<bar>dss\<bar> (max \<bar>dsg\<bar> (max \<bar>dsw\<bar> 0))"

definition appleyard_step :: "real \<Rightarrow> real \<Rightarrow> real \<Rightarrow> real \<Rightarrow> real" where
  "appleyard_step dsMax dsw dsg dss =
     (if maxVal dsw dsg dss = 0 then 1 else min (dsMax / maxVal dsw dsg dss) 1)"

text \<open>
  The second switch: the primary-variable translation, executed only when gas and oil
  are both active. It works on the cell after the chopped saturation update; \<open>rs\<close> and
  \<open>rv\<close> have been updated and floored at zero just before.
\<close>

definition switchGasAndOil :: "BlackoilModel \<Rightarrow> nat \<Rightarrow> cell_state \<Rightarrow> cell_state" where
  "switchGasAndOil m cell_idx c =
     (let rsSat = saturatedGasDissolutionFactor m (pvtRegionIndex m cell_idx) (temperature c) (pressure c);
          rvSat = saturatedOilVaporizationFactor m (pvtRegionIndex m cell_idx) (temperature c) (pressure c);
          c1 = c\<lparr>gasoilratio := rsSat, rv := rvSat\<rparr>
      in if sw c1 > 1 - epsilon then c1
         else if sg c1 \<le> 0 \<and> has_disgas m then
           c1\<lparr>hydroCarbonState := OilOnly,
              sg := 0,
              so := (if has_solvent m then (1 - sw c1) - ssol c1 else 1 - sw c1),
              gasoilratio := rsSat * (1 - epsilon)\<rparr>
         else if so c1 \<le> 0 \<and> has_vapoil m then
           c1\<lparr>hydroCarbonState := GasOnly,
              so := 0,
              sg := (if has_solvent m then (1 - sw c1) - ssol c1 else 1 - sw c1),
              rv := rvSat * (1 - epsilon)\<rparr>
         else c1)"

definition switchOilOnly :: "BlackoilModel \<Rightarrow> nat \<Rightarrow> cell_state \<Rightarrow> cell_state" where
  "switchOilOnly m cell_idx c =
     (if sw c > 1 - epsilon then
        c\<lparr>gasoilratio := 0, rv := 0, hydroCarbonState := GasAndOil\<rparr>
      else
        (let rsSat = saturatedGasDissolutionFactor m (pvtRegionIndex m cell_idx) (temperature c) (pressure c)
         in if gasoilratio c > rsSat * (1 + epsilon) then
              c\<lparr>hydroCarbonState := GasAndOil,
                sg := epsilon,
                so := so c - epsilon,
                gasoilratio := rsSat\<rparr>
            else c))"

definition switchGasOnly :: "BlackoilModel \<Rightarrow> nat \<Rightarrow> cell_state \<Rightarrow> cell_state" where
  "switchGasOnly m cell_idx c =
     (if sw c > 1 - epsilon then
        c\<lparr>gasoilratio := 0, rv := 0, hydroCarbonState := GasAndOil\<rparr>
      else
        (let rvSat = saturatedOilVaporizationFactor m (pvtRegionIndex m cell_idx) (temperature c) (pressure c)
         in if rv c > rvSat * (1 + epsilon) then
              c\<lparr>hydroCarbonState := GasAndOil,
                so := epsilon,
                rv := rvSat,
                sg := sg c - epsilon\<rparr>
            else c))"

fun switchPrimaryVariables :: "BlackoilModel \<Rightarrow> nat \<Rightarrow> HydroCarbonState \<Rightarrow> cell_state \<Rightarrow> exn + cell_state" where
  "switchPrimaryVariables m cell_idx GasAndOil c = Inr (switchGasAndOil m cell_idx c)"
| "switchPrimaryVariables m cell_idx OilOnly c = Inr (switchOilOnly m cell_idx c)"
| "switchPrimaryVariables m cell_idx GasOnly c = Inr (switchGasOnly m cell_idx c)"
| "switchPrimaryVariables m cell_idx InvalidHydroCarbonState c = Inl LogicError"

text \<open>
  The cell after the chopped update of pressure, saturations, solvent and polymer
  (everything before the block guarded by \<^verbatim>\<open>active_[Gas] && active_[Oil]\<close>).
\<close>

definition choppedCell ::
  "BlackoilModel \<Rightarrow> real \<Rightarrow> real \<Rightarrow> real \<Rightarrow> real \<Rightarrow> real \<Rightarrow> cell_state \<Rightarrow> cell_state" where
  "choppedCell m dp dsw dsg dss dc c =
     (let dso = ((0 - dsw) - dsg) - dss;
          step = appleyard_step (ds_max m) dsw dsg dss
      in c\<lparr>pressure := updated_pressure (dp_max_rel m) dp (pressure c),
           sw := (if active_water m then sw c - step * dsw else sw c),
           sg := (if active_gas m then sg c - step * dsg else sg c),
           ssol := (if has_solvent m then ssol c - step * dss else ssol c),
           polymer := (if has_polymer m then max (polymer c - step * dc) 0 else polymer c),
           so := so c - step * dso\<rparr>)"

text \<open>
  \<open>rs -= drs; rs = max(rs, 0)\<close> if dissolved gas is enabled, and the same for \<open>rv\<close>.
\<close>

definition updatedRatios :: "BlackoilModel \<Rightarrow> real \<Rightarrow> real \<Rightarrow> cell_state \<Rightarrow> cell_state" where
  "updatedRatios m drs drv c =
     c\<lparr>gasoilratio := (if has_disgas m then max (gasoilratio c - drs) 0 else gasoilratio c),
       rv := (if has_vapoil m then max (rv c - drv) 0 else rv c)\<rparr>"

text \<open>The body of the loop over the grid cells, for the cell \<open>cell_idx\<close> with update block \<open>dxc\<close>.\<close>

definition updateCell ::
  "BlackoilIndices \<Rightarrow> BlackoilModel \<Rightarrow> nat \<Rightarrow> real list \<Rightarrow> cell_state \<Rightarrow> exn + cell_state" where
  "updateCell ix m cell_idx dxc c =
     (let dp = dxc ! flowPhaseToEbosCompIdx ix 0;
          dsw = raw_dsw ix m dxc;
          dxvar = raw_dxvar ix m dxc
      in case gas_deltas (hydroCarbonState c) dsw dxvar of
           Inl e \<Rightarrow> Inl e
         | Inr (dsg, drs, drv) \<Rightarrow>
             (let c1 = choppedCell m dp dsw dsg (raw_dss ix m dxc) (raw_dc ix m dxc) c
              in if active_gas m \<and> active_oil m
                 then switchPrimaryVariables m cell_idx (hydroCarbonState c1) (updatedRatios m drs drv c1)
                 else Inr c1))"

text \<open>
  \<^verbatim>\<open>updateState\<close> visits the cells in grid order; an exception leaves the loop. (The
  embedding returns the exception alone: the partially updated state is not used by any
  caller after the exception.)
\<close>

fun updateCells ::
  "BlackoilIndices \<Rightarrow> BlackoilModel \<Rightarrow> nat \<Rightarrow> real list list \<Rightarrow> cell_state list \<Rightarrow> exn + cell_state list" where
  "updateCells ix m cell_idx dx [] = Inr []"
| "updateCells ix m cell_idx dx (c # cs) =
     (case updateCell ix m cell_idx (dx ! cell_idx) c of
        Inl e \<Rightarrow> Inl e
      | Inr c' \<Rightarrow>
          (case updateCells ix m (Suc cell_idx) dx cs of
             Inl e \<Rightarrow> Inl e
           | Inr cs' \<Rightarrow> Inr (c' # cs')))"

definition updateState ::
  "BlackoilIndices \<Rightarrow> BlackoilModel \<Rightarrow> real list list \<Rightarrow> ReservoirState \<Rightarrow> exn + ReservoirState" where
  "updateState ix m dx reservoir_state = updateCells ix m 0 dx reservoir_state"

subsection \<open>Names for the intermediate values of one cell update\<close>

text \<open>
  \<open>cell_dsg\<close> is the gas-saturation delta chosen by the first switch, \<open>cell_step\<close> the
  Appleyard step of the cell, and \<open>cell_before_switch\<close> the cell on entry to the second
  switch (after the chopped update and the update of \<open>rs\<close> and \<open>rv\<close>).
\<close>

definition cell_dsg :: "BlackoilIndices \<Rightarrow> BlackoilModel \<Rightarrow> real list \<Rightarrow> cell_state \<Rightarrow> real" where
  "cell_dsg ix m dxc c =
     (case gas_deltas (hydroCarbonState c) (raw_dsw ix m dxc) (raw_dxvar ix m dxc) of
        Inl e \<Rightarrow> 0 | Inr (dsg, drs, drv) \<Rightarrow> dsg)"

definition cell_step :: "BlackoilIndices \<Rightarrow> BlackoilModel \<Rightarrow> real list \<Rightarrow> cell_state \<Rightarrow> real" where
  "cell_step ix m dxc c =
     appleyard_step (ds_max m) (raw_dsw ix m dxc) (cell_dsg ix m dxc c) (raw_dss ix m dxc)"

definition cell_before_switch ::
  "BlackoilIndices \<Rightarrow> BlackoilModel \<Rightarrow> real list \<Rightarrow> cell_state \<Rightarrow> cell_state" where
  "cell_before_switch ix m dxc c =
     (case gas_deltas (hydroCarbonState c) (raw_dsw ix m dxc) (raw_dxvar ix m dxc) of
        Inl e \<Rightarrow> c
      | Inr (dsg, drs, drv) \<Rightarrow>
          updatedRatios m drs drv
            (choppedCell m (dxc ! flowPhaseToEbosCompIdx ix 0) (raw_dsw ix m dxc) dsg
               (raw_dss ix m dxc) (raw_dc ix m dxc) c))"

subsection \<open>A three-phase configuration and two cells\<close>

text \<open>
  Index values (oil, water, gas components at 0, 1, 2; water, oil, gas phases at 0, 1, 2;
  the well variables in the order total rate or pressure, water, gas, solvent fraction) and a
  three-phase model with dissolved gas and vaporised oil, \<open>ds_max = dp_max_rel = 0.2\<close>,
  and constant saturated ratios \<open>RsSat = 1\<close> and \<open>RvSat = 0.1\<close>.
\<close>

definition ebos_indices :: BlackoilIndices where
  "ebos_indices = \<lparr>waterCompIdx = 1, oilCompIdx = 0, gasCompIdx = 2,
     waterPhaseIdx = 0, oilPhaseIdx = 1, gasPhaseIdx = 2,
     solventSaturationIdx = 3, polymerConcentrationIdx = 4,
     contiSolventEqIdx = 3, contiPolymerEqIdx = 4, numFluidComponents = 3,
     Water = 0, Oil = 1, Gas = 2, XvarWell = 0, WFrac = 1, GFrac = 2, SFrac = 3\<rparr>"

definition example_model :: BlackoilModel where
  "example_model = \<lparr>active_water = True, active_oil = True, active_gas = True,
     has_disgas = True, has_vapoil = True, has_solvent = False, has_polymer = False,
     dp_max_rel = 2 / 10, ds_max = 2 / 10,
     tolerance_mb = 1 / 10000000, tolerance_cnv = 1 / 100, tolerance_wells = 1 / 10000,
     max_strict_iter = 8, max_residual_allowed = 10000000,
     dWellFractionMax = 2 / 10, dbhpMaxRel = 1, solve_welleq_initially = True,
     pvtRegionIndex = (\<lambda>cell_idx. 0),
     saturatedGasDissolutionFactor = (\<lambda>region T p. 1),
     saturatedOilVaporizationFactor = (\<lambda>region T p. 1 / 10)\<rparr>"



text \<open>
  An oil-only cell whose \<open>rs = 1.00005\<close> lies above \<open>RsSat = 1\<close> but not above
  \<open>RsSat * (1 + epsilon) = 1.0001\<close>, and one whose \<open>rs = 1.5\<close> does, with the cell
  \<^verbatim>\<open>updateState\<close> makes of the latter for the zero update.
\<close>

definition oil_only_cell :: cell_state where
  "oil_only_cell = \<lparr>pressure = 100, sw = 3 / 10, so = 7 / 10, sg = 0,
     gasoilratio = 100005 / 100000, rv = 0, hydroCarbonState = OilOnly,
     ssol = 0, polymer = 0, temperature = 300\<rparr>"

definition oversaturated_cell :: cell_state where
  "oversaturated_cell = \<lparr>pressure = 100, sw = 3 / 10, so = 7 / 10, sg = 0,
     gasoilratio = 3 / 2, rv = 0, hydroCarbonState = OilOnly,
     ssol = 0, polymer = 0, temperature = 300\<rparr>"

definition oversaturated_cell_updated :: cell_state where
  "oversaturated_cell_updated = \<lparr>pressure = 100, sw = 3 / 10, so = 6999 / 10000, sg = 1 / 10000,
     gasoilratio = 1, rv = 0, hydroCarbonState = GasAndOil,
     ssol = 0, polymer = 0, temperature = 300\<rparr>"

section \<open>The well model: data\<close>

datatype WellType = INJECTOR | PRODUCER

datatype WellControlType = BHP | THP | RESERVOIR_RATE | SURFACE_RATE

text \<open>
  One entry of a \<^verbatim>\<open>WellControls\<close> object as the \<^verbatim>\<open>well_controls_iget_*\<close> accessors show it
  (type, target, phase distribution, lift quantity, VFP table number), and the object
  itself: the entries in index order and the current index, which
  \<^verbatim>\<open>well_controls_set_current\<close> writes.
\<close>

record WellControl =
  wc_type :: WellControlType
  wc_target :: real
  wc_distr :: "real list"
  wc_alq :: real
  wc_vfp :: nat

record WellControls =
  wc_entries :: "WellControl list"
  wc_current :: int

definition well_controls_get_num :: "WellControls \<Rightarrow> nat" where
  "well_controls_get_num wc = length (wc_entries wc)"

definition well_controls_iget :: "WellControls \<Rightarrow> int \<Rightarrow> WellControl" where
  "well_controls_iget wc i = wc_entries wc ! nat i"

definition well_controls_set_current :: "WellControls \<Rightarrow> int \<Rightarrow> WellControls" where
  "well_controls_set_current wc i = wc\<lparr>wc_current := i\<rparr>"

text \<open>The fields of the \<^verbatim>\<open>Wells\<close> structure that the functions read; \<open>wtype\<close> is \<^verbatim>\<open>type\<close>.\<close>

record Wells =
  number_of_wells :: nat
  number_of_phases :: nat
  wtype :: "WellType list"
  comp_frac :: "real list"
  well_connpos :: "nat list"
  well_cells :: "nat list"
  allow_cf :: "bool list"
  WI :: "real list"

text \<open>
  \<^verbatim>\<open>WellState\<close>: the vectors of \<^verbatim>\<open>WellStateFullyImplicitBlackoilDense\<close> that the
  functions read or write.
\<close>

record WellState =
  bhp :: "real list"
  thp :: "real list"
  wellRates :: "real list"
  wellSolutions :: "real list"
  currentControls :: "int list"
  perfPhaseRates :: "real list"
  perfPress :: "real list"
  perfRateSolvent :: "real list"

text \<open>
  Dense blocks are lists of rows. \<^verbatim>\<open>duneD_\<close> and \<^verbatim>\<open>invDuneD_\<close> have entries on the block
  diagonal only (\<^verbatim>\<open>init\<close> inserts \<^verbatim>\<open>row.index()\<close> and nothing else), so they are lists
  of blocks, one per well. A row of \<^verbatim>\<open>duneB_\<close> or \<^verbatim>\<open>duneC_\<close> has one entry per perforation
  of the well: the list of pairs of cell index and block.
\<close>

type_synonym block = "real list list"

type_synonym sparse_rows = "(nat \<times> block) list list"

text \<open>
  The members of \<^verbatim>\<open>StandardWellsDense\<close> that do not change during a Newton iteration
  (\<open>wells_\<close>, \<open>phase_usage_.phase_pos\<close>, \<open>wells_active_\<close>, \<open>gravity_\<close>, \<open>global_nc_\<close>, the block
  size \<^verbatim>\<open>numWellEq\<close>, \<^verbatim>\<open>numComponents()\<close>), and the functions it calls that are defined
  elsewhere: the VFP tables (\<open>bhp\<close> and \<open>thp\<close> lookups and the datum depth of a table, for
  injectors and producers), \<^verbatim>\<open>wellhelpers::computeHydrostaticCorrection\<close>,
  \<^verbatim>\<open>wellhelpers::constraintBroken\<close>, the solvent fraction \<^verbatim>\<open>wsolvent\<close> of an injector and
  \<^verbatim>\<open>WellState::solventWellRate\<close>.
\<close>

record StandardWellsDense =
  wells :: Wells
  phase_pos :: "nat \<Rightarrow> nat"
  wells_active :: bool
  gravity :: real
  global_nc :: nat
  numWellEq :: nat
  numComponents :: nat
  vfp_inj_bhp :: "nat \<Rightarrow> real \<Rightarrow> real \<Rightarrow> real \<Rightarrow> real \<Rightarrow> real"
  vfp_prod_bhp :: "nat \<Rightarrow> real \<Rightarrow> real \<Rightarrow> real \<Rightarrow> real \<Rightarrow> real \<Rightarrow> real"
  vfp_inj_thp :: "nat \<Rightarrow> real \<Rightarrow> real \<Rightarrow> real \<Rightarrow> real \<Rightarrow> real"
  vfp_prod_thp :: "nat \<Rightarrow> real \<Rightarrow> real \<Rightarrow> real \<Rightarrow> real \<Rightarrow> real \<Rightarrow> real"
  vfp_inj_datum :: "nat \<Rightarrow> real"
  vfp_prod_datum :: "nat \<Rightarrow> real"
  computeHydrostaticCorrection :: "nat \<Rightarrow> real \<Rightarrow> real \<Rightarrow> real \<Rightarrow> real"
  constraintBroken ::
    "real list \<Rightarrow> real list \<Rightarrow> real list \<Rightarrow> nat \<Rightarrow> nat \<Rightarrow> WellType \<Rightarrow> WellControls \<Rightarrow> nat \<Rightarrow> bool"
  wsolvent :: "nat \<Rightarrow> real"
  solventWellRate :: "WellState \<Rightarrow> nat \<Rightarrow> real"

text \<open>
  The members of \<^verbatim>\<open>StandardWellsDense\<close> that the functions write: the four block
  matrices, the well residual, the values of \<^verbatim>\<open>wellVariables_\<close>, \<^verbatim>\<open>F0_\<close>, the perforation
  densities and pressure differences, and the \<^verbatim>\<open>WellControls\<close> objects that \<^verbatim>\<open>wells().ctrls\<close>
  points to. \<open>'g\<close> is the state of the well collection (the group-control tree).
\<close>

record 'g WellModelState =
  duneB :: sparse_rows
  duneC :: sparse_rows
  duneD :: "block list"
  invDuneD :: "block list"
  resWell :: "real list list"
  wellVariables :: "real list"
  F0 :: "real list"
  well_perforation_densities :: "real list"
  well_perforation_pressure_diffs :: "real list"
  ctrls :: "WellControls list"
  wellCollection :: 'g

definition localWellsActive :: "StandardWellsDense \<Rightarrow> bool" where
  "localWellsActive swd = (number_of_wells (wells swd) > 0)"

section \<open>\<^verbatim>\<open>StandardWellsDense::updateWellState\<close>\<close>

text \<open>\<^verbatim>\<open>sign * std::min(std::abs(d), limit)\<close> with \<^verbatim>\<open>sign = d > 0 ? 1 : -1\<close>.\<close>

definition limited :: "real \<Rightarrow> real \<Rightarrow> real" where
  "limited d limit = sign_of d * min \<bar>d\<bar> limit"

text \<open>
  The first part of the loop body for well \<open>w\<close>: the three fraction variables move by
  their limited update, starting from the copy \<^verbatim>\<open>xvar_well_old\<close> of the solution vector.
\<close>

definition updateFractionVariables ::
  "BlackoilIndices \<Rightarrow> BlackoilModel \<Rightarrow> nat \<Rightarrow> real list \<Rightarrow> real list \<Rightarrow> nat \<Rightarrow> real list \<Rightarrow> real list" where
  "updateFractionVariables ix m nw xvar_well_old dw w ws =
     (let dFLimit = dWellFractionMax m;
          ws1 = (if active_water m
                 then ws[WFrac ix * nw + w := xvar_well_old ! (WFrac ix * nw + w) - limited (dw ! WFrac ix) dFLimit]
                 else ws);
          ws2 = (if active_gas m
                 then ws1[GFrac ix * nw + w := xvar_well_old ! (GFrac ix * nw + w) - limited (dw ! GFrac ix) dFLimit]
                 else ws1)
      in if has_solvent m
         then ws2[SFrac ix * nw + w := xvar_well_old ! (SFrac ix * nw + w) - limited (dw ! SFrac ix) dFLimit]
         else ws2)"

text \<open>
  The vector \<open>F\<close> (\<^verbatim>\<open>std::vector<double> F(np, 0.0)\<close>, indexed by the canonical phase
  indices) and \<open>F_solvent\<close>, read back from the solution vector.
\<close>

definition initialFractions ::
  "BlackoilIndices \<Rightarrow> BlackoilModel \<Rightarrow> nat \<Rightarrow> nat \<Rightarrow> real list \<Rightarrow> (nat \<Rightarrow> real) \<times> real" where
  "initialFractions ix m nw w ws =
     (let F0 = (\<lambda>p. 0)(Oil ix := 1);
          F1 = (if active_water m
                then (let Fa = F0(Water ix := ws ! (WFrac ix * nw + w))
                      in Fa(Oil ix := Fa (Oil ix) - Fa (Water ix)))
                else F0);
          F2 = (if active_gas m
                then (let Fa = F1(Gas ix := ws ! (GFrac ix * nw + w))
                      in Fa(Oil ix := Fa (Oil ix) - Fa (Gas ix)))
                else F1)
      in if has_solvent m
         then (let F_solvent = ws ! (SFrac ix * nw + w)
               in (F2(Oil ix := F2 (Oil ix) - F_solvent), F_solvent))
         else (F2, 0))"

text \<open>The three renormalisations, in the order of the source: water, gas, oil.\<close>

definition renormalizeWater ::
  "BlackoilIndices \<Rightarrow> BlackoilModel \<Rightarrow> (nat \<Rightarrow> real) \<times> real \<Rightarrow> (nat \<Rightarrow> real) \<times> real" where
  "renormalizeWater ix m FS =
     (case FS of (F, F_solvent) \<Rightarrow>
        if active_water m \<and> F (Water ix) < 0 then
          (let F1 = (if active_gas m then F(Gas ix := F (Gas ix) / (1 - F (Water ix))) else F);
               Fs1 = (if has_solvent m then F_solvent / (1 - F1 (Water ix)) else F_solvent);
               F2 = F1(Oil ix := F1 (Oil ix) / (1 - F1 (Water ix)))
           in (F2(Water ix := 0), Fs1))
        else (F, F_solvent))"

definition renormalizeGas ::
  "BlackoilIndices \<Rightarrow> BlackoilModel \<Rightarrow> (nat \<Rightarrow> real) \<times> real \<Rightarrow> (nat \<Rightarrow> real) \<times> real" where
  "renormalizeGas ix m FS =
     (case FS of (F, F_solvent) \<Rightarrow>
        if active_gas m \<and> F (Gas ix) < 0 then
          (let F1 = (if active_water m then F(Water ix := F (Water ix) / (1 - F (Gas ix))) else F);
               Fs1 = (if has_solvent m then F_solvent / (1 - F1 (Gas ix)) else F_solvent);
               F2 = F1(Oil ix := F1 (Oil ix) / (1 - F1 (Gas ix)))
           in (F2(Gas ix := 0), Fs1))
        else (F, F_solvent))"

definition renormalizeOil ::
  "BlackoilIndices \<Rightarrow> BlackoilModel \<Rightarrow> (nat \<Rightarrow> real) \<times> real \<Rightarrow> (nat \<Rightarrow> real) \<times> real" where
  "renormalizeOil ix m FS =
     (case FS of (F, F_solvent) \<Rightarrow>
        if F (Oil ix) < 0 then
          (let F1 = (if active_water m then F(Water ix := F (Water ix) / (1 - F (Oil ix))) else F);
               F2 = (if active_gas m then F1(Gas ix := F1 (Gas ix) / (1 - F1 (Oil ix))) else F1);
               Fs1 = (if has_solvent m then F_solvent / (1 - F2 (Oil ix)) else F_solvent)
           in (F2(Oil ix := 0), Fs1))
        else (F, F_solvent))"

definition normalizedFractions ::
  "BlackoilIndices \<Rightarrow> BlackoilModel \<Rightarrow> nat \<Rightarrow> nat \<Rightarrow> real list \<Rightarrow> (nat \<Rightarrow> real) \<times> real" where
  "normalizedFractions ix m nw w ws =
     renormalizeOil ix m (renormalizeGas ix m (renormalizeWater ix m (initialFractions ix m nw w ws)))"

text \<open>The renormalised fractions are written back.\<close>

definition storeFractions ::
  "BlackoilIndices \<Rightarrow> BlackoilModel \<Rightarrow> nat \<Rightarrow> nat \<Rightarrow> (nat \<Rightarrow> real) \<times> real \<Rightarrow> real list \<Rightarrow> real list" where
  "storeFractions ix m nw w FS ws =
     (case FS of (F, F_solvent) \<Rightarrow>
        (let ws1 = (if active_water m then ws[WFrac ix * nw + w := F (Water ix)] else ws);
             ws2 = (if active_gas m then ws1[GFrac ix * nw + w := F (Gas ix)] else ws1)
         in if has_solvent m then ws2[SFrac ix * nw + w := F_solvent] else ws2))"

text \<open>
  \<open>F[Gas] += F_solvent\<close> with solvent, then the scaling of \<open>F\<close>: by the distribution of a
  \<^verbatim>\<open>RESERVOIR_RATE\<close> control (zero where the distribution is not positive), else by
  \<^verbatim>\<open>g = {1,1,0.01}\<close>; both loops run over \<open>p < np\<close>.
\<close>

definition g_scaling :: "real list" where
  "g_scaling = [1, 1, 1 / 100]"

definition scaledFractions ::
  "BlackoilIndices \<Rightarrow> BlackoilModel \<Rightarrow> nat \<Rightarrow> WellControl \<Rightarrow> (nat \<Rightarrow> real) \<times> real \<Rightarrow> nat \<Rightarrow> real" where
  "scaledFractions ix m np ctrl FS =
     (case FS of (F, F_solvent) \<Rightarrow>
        (let F1 = (if has_solvent m then F(Gas ix := F (Gas ix) + F_solvent) else F)
         in if wc_type ctrl = RESERVOIR_RATE
            then fold (\<lambda>p Fa. if wc_distr ctrl ! p > 0 then Fa(p := Fa p / (wc_distr ctrl ! p)) else Fa(p := 0))
                   [0..<np] F1
            else fold (\<lambda>p Fa. Fa(p := Fa p / (g_scaling ! p))) [0..<np] F1))"

text \<open>
  The rates of the three phases that the VFP lookups take (\<open>aqua\<close>, \<open>liquid\<close>, \<open>vapour\<close>).
\<close>

definition vfp_rates ::
  "BlackoilModel \<Rightarrow> BlackoilIndices \<Rightarrow> StandardWellsDense \<Rightarrow> nat \<Rightarrow> real list \<Rightarrow> real \<times> real \<times> real" where
  "vfp_rates m ix swd w rates =
     (let np = number_of_phases (wells swd)
      in ((if active_water m then rates ! (w * np + phase_pos swd (Water ix)) else 0),
          (if active_oil m then rates ! (w * np + phase_pos swd (Oil ix)) else 0),
          (if active_gas m then rates ! (w * np + phase_pos swd (Gas ix)) else 0)))"

text \<open>
  The bottom-hole pressure that a \<^verbatim>\<open>THP\<close> control with entry \<open>ctrl\<close> implies for well \<open>w\<close>:
  the VFP lookup minus the hydrostatic correction for the density at the first
  perforation.
\<close>

definition bhp_from_thp ::
  "BlackoilModel \<Rightarrow> BlackoilIndices \<Rightarrow> StandardWellsDense \<Rightarrow> real list \<Rightarrow> nat \<Rightarrow> WellControl
     \<Rightarrow> real list \<Rightarrow> real" where
  "bhp_from_thp m ix swd densities w ctrl rates =
     (case vfp_rates m ix swd w rates of (aqua, liquid, vapour) \<Rightarrow>
        (let table = wc_vfp ctrl; thp_target = wc_target ctrl; alq = wc_alq ctrl;
             perf = well_connpos (wells swd) ! w;
             rho = densities ! perf
         in case wtype (wells swd) ! w of
              INJECTOR \<Rightarrow>
                vfp_inj_bhp swd table aqua liquid vapour thp_target
                  - computeHydrostaticCorrection swd w (vfp_inj_datum swd table) rho (gravity swd)
            | PRODUCER \<Rightarrow>
                vfp_prod_bhp swd table aqua liquid vapour thp_target alq
                  - computeHydrostaticCorrection swd w (vfp_prod_datum swd table) rho (gravity swd)))"

text \<open>Writing the \<open>np\<close> rates of well \<open>w\<close>: \<^verbatim>\<open>wellRates()[w*np + p] = r(p)\<close> for \<open>p < np\<close>.\<close>

definition setWellRates :: "nat \<Rightarrow> nat \<Rightarrow> (nat \<Rightarrow> real) \<Rightarrow> real list \<Rightarrow> real list" where
  "setWellRates np w r rates = fold (\<lambda>p rs. rs[w * np + p := r p]) [0..<np] rates"

text \<open>
  The second part of the loop body: the first well variable and the rates, by the type
  of the current control of the well state. In the \<^verbatim>\<open>SURFACE_RATE\<close> producer case the
  rates are divided by \<open>F_target\<close>.
\<close>

definition updateFirstVariable ::
  "BlackoilIndices \<Rightarrow> BlackoilModel \<Rightarrow> StandardWellsDense \<Rightarrow> real list \<Rightarrow> real list \<Rightarrow> real list
     \<Rightarrow> nat \<Rightarrow> WellControl \<Rightarrow> (nat \<Rightarrow> real) \<Rightarrow> WellState \<Rightarrow> WellState" where
  "updateFirstVariable ix m swd densities xvar_well_old dw w ctrl F well_state =
     (let np = number_of_phases (wells swd);
          nw = number_of_wells (wells swd);
          target_rate = wc_target ctrl;
          k = nw * XvarWell ix + w
      in if wc_type ctrl = THP \<or> wc_type ctrl = BHP then
           (let xs = (wellSolutions well_state)[k := xvar_well_old ! k - dw ! XvarWell ix];
                rates = (case wtype (wells swd) ! w of
                           INJECTOR \<Rightarrow>
                             setWellRates np w (\<lambda>p. comp_frac (wells swd) ! (np * w + p) * xs ! k)
                               (wellRates well_state)
                         | PRODUCER \<Rightarrow>
                             setWellRates np w (\<lambda>p. xs ! k * F p) (wellRates well_state));
                st = well_state\<lparr>wellSolutions := xs, wellRates := rates\<rparr>
            in if wc_type ctrl = THP
               then st\<lparr>bhp := (bhp st)[w := bhp_from_thp m ix swd densities w ctrl rates]\<rparr>
               else st)
         else
           (let dx1_limited = limited (dw ! XvarWell ix) (\<bar>xvar_well_old ! k\<bar> * dbhpMaxRel m);
                xs = (wellSolutions well_state)[k := max (xvar_well_old ! k - dx1_limited) 100000];
                bhps = (bhp well_state)[w := xs ! k];
                rates =
                  (if wc_type ctrl = SURFACE_RATE then
                     (if wtype (wells swd) ! w = PRODUCER then
                        (let F_target = fold (\<lambda>p acc. acc + wc_distr ctrl ! p * F p) [0..<np] 0
                         in setWellRates np w (\<lambda>p. F p * target_rate / F_target) (wellRates well_state))
                      else
                        setWellRates np w (\<lambda>p. comp_frac (wells swd) ! (np * w + p) * target_rate)
                          (wellRates well_state))
                   else setWellRates np w (\<lambda>p. F p * target_rate) (wellRates well_state))
            in well_state\<lparr>wellSolutions := xs, bhp := bhps, wellRates := rates\<rparr>))"

text \<open>
  The body of the first loop over the wells. \<open>cs\<close> are the \<^verbatim>\<open>WellControls\<close> objects of
  \<^verbatim>\<open>wells().ctrls\<close>; the control entry is the one with the index that the well state
  records as current.
\<close>

definition updateWell ::
  "BlackoilIndices \<Rightarrow> BlackoilModel \<Rightarrow> StandardWellsDense \<Rightarrow> real list \<Rightarrow> WellControls list
     \<Rightarrow> real list \<Rightarrow> real list list \<Rightarrow> nat \<Rightarrow> WellState \<Rightarrow> WellState" where
  "updateWell ix m swd densities cs xvar_well_old dwells w well_state =
     (let np = number_of_phases (wells swd);
          nw = number_of_wells (wells swd);
          ws1 = updateFractionVariables ix m nw xvar_well_old (dwells ! w) w (wellSolutions well_state);
          FS = normalizedFractions ix m nw w ws1;
          ws2 = storeFractions ix m nw w FS ws1;
          current = currentControls well_state ! w;
          ctrl = well_controls_iget (cs ! w) current
      in updateFirstVariable ix m swd densities xvar_well_old (dwells ! w) w ctrl
           (scaledFractions ix m np ctrl FS) (well_state\<lparr>wellSolutions := ws2\<rparr>))"

text \<open>
  The body of the second loop: the tubing-head pressure of well \<open>w\<close>. The first \<^verbatim>\<open>THP\<close>
  entry of the well decides; without one the value is \<open>0.0\<close>.
\<close>

definition updateThp ::
  "BlackoilIndices \<Rightarrow> BlackoilModel \<Rightarrow> StandardWellsDense \<Rightarrow> real list \<Rightarrow> WellControls list
     \<Rightarrow> nat \<Rightarrow> WellState \<Rightarrow> WellState" where
  "updateThp ix m swd densities cs w well_state =
     (let wc = cs ! w;
          nwc = well_controls_get_num wc
      in case find (\<lambda>ctrl_index. wc_type (well_controls_iget wc (int ctrl_index)) = THP) [0..<nwc] of
           None \<Rightarrow> well_state\<lparr>thp := (thp well_state)[w := 0]\<rparr>
         | Some ctrl_index \<Rightarrow>
             (let current = currentControls well_state ! w
              in if current = int ctrl_index
                 then well_state\<lparr>thp := (thp well_state)[w := wc_target (well_controls_iget wc current)]\<rparr>
                 else
                   (case vfp_rates m ix swd w (wellRates well_state) of (aqua, liquid, vapour) \<Rightarrow>
                      (let ctrl = well_controls_iget wc (int ctrl_index);
                           alq = wc_alq ctrl;
                           table_id = wc_vfp ctrl;
                           perf = well_connpos (wells swd) ! w;
                           rho = densities ! perf;
                           b = bhp well_state ! w
                       in case wtype (wells swd) ! w of
                            INJECTOR \<Rightarrow>
                              (let dp = computeHydrostaticCorrection swd w (vfp_inj_datum swd table_id) rho (gravity swd)
                               in well_state\<lparr>thp := (thp well_state)
                                     [w := vfp_inj_thp swd table_id aqua liquid vapour (b + dp)]\<rparr>)
                          | PRODUCER \<Rightarrow>
                              (let dp = computeHydrostaticCorrection swd w (vfp_prod_datum swd table_id) rho (gravity swd)
                               in well_state\<lparr>thp := (thp well_state)
                                     [w := vfp_prod_thp swd table_id aqua liquid vapour (b + dp) alq]\<rparr>)))))"

text \<open>
  \<^verbatim>\<open>updateWellState(dwells, well_state)\<close>: nothing without local wells; otherwise the two
  loops over \<open>w < nw\<close>, the first with the copy \<^verbatim>\<open>xvar_well_old\<close> taken on entry.
\<close>

definition updateWellState ::
  "BlackoilIndices \<Rightarrow> BlackoilModel \<Rightarrow> StandardWellsDense \<Rightarrow> real list \<Rightarrow> WellControls list
     \<Rightarrow> real list list \<Rightarrow> WellState \<Rightarrow> WellState" where
  "updateWellState ix m swd densities cs dwells well_state =
     (if \<not> localWellsActive swd then well_state
      else
        (let nw = number_of_wells (wells swd);
             xvar_well_old = wellSolutions well_state;
             st1 = fold (updateWell ix m swd densities cs xvar_well_old dwells) [0..<nw] well_state
         in fold (updateThp ix m swd densities cs) [0..<nw] st1))"

section \<open>Well variables and the quantities derived from them\<close>

text \<open>
  The functions of this section return \<^verbatim>\<open>EvalWell\<close> objects in the source, a value with
  its derivatives. The embedding follows the values (every branch in these
  functions tests values only).

  \<^verbatim>\<open>setWellVariables\<close> copies the first \<open>numComp * nw\<close> entries of the solution vector of
  the well state into \<^verbatim>\<open>wellVariables_\<close>; the other entries stay as they are.
\<close>

definition setWellVariables :: "StandardWellsDense \<Rightarrow> WellState \<Rightarrow> real list \<Rightarrow> real list" where
  "setWellVariables swd xw wellVars =
     fold (\<lambda>idx vs. vs[idx := wellSolutions xw ! idx])
       [0..<numComponents swd * number_of_wells (wells swd)] wellVars"

text \<open>\<^verbatim>\<open>wellVolumeFraction(wellIdx, compIdx)\<close>; the last case is the oil fraction.\<close>

definition wellVolumeFraction ::
  "BlackoilIndices \<Rightarrow> BlackoilModel \<Rightarrow> StandardWellsDense \<Rightarrow> real list \<Rightarrow> nat \<Rightarrow> nat \<Rightarrow> real" where
  "wellVolumeFraction ix m swd wellVars wellIdx compIdx =
     (let nw = number_of_wells (wells swd)
      in if compIdx = Water ix then wellVars ! (WFrac ix * nw + wellIdx)
         else if compIdx = Gas ix then wellVars ! (GFrac ix * nw + wellIdx)
         else if has_solvent m \<and> compIdx = solventSaturationIdx ix then wellVars ! (SFrac ix * nw + wellIdx)
         else
           (let f0 = 1;
                f1 = (if active_water m then f0 - wellVars ! (WFrac ix * nw + wellIdx) else f0);
                f2 = (if active_gas m then f1 - wellVars ! (GFrac ix * nw + wellIdx) else f1)
            in if has_solvent m then f2 - wellVars ! (SFrac ix * nw + wellIdx) else f2))"

text \<open>
  The renormalised fractions \<open>(F, F_solvent)\<close> that the loop body of \<^verbatim>\<open>updateWellState\<close>
  computes for well \<open>w\<close> from the solution vector \<open>xvar_well_old\<close> on entry and the update
  block \<open>dw\<close> of the well.
\<close>

definition updatedFractions ::
  "BlackoilIndices \<Rightarrow> BlackoilModel \<Rightarrow> nat \<Rightarrow> real list \<Rightarrow> real list \<Rightarrow> nat \<Rightarrow> (nat \<Rightarrow> real) \<times> real" where
  "updatedFractions ix m nw xvar_well_old dw w =
     normalizedFractions ix m nw w (updateFractionVariables ix m nw xvar_well_old dw w xvar_well_old)"

text \<open>
  The invariant of the renormalisation: water, gas, solvent and oil fraction add up to
  one, and the fraction of an inactive phase or of absent solvent is zero.
\<close>

definition fractions_ok :: "BlackoilIndices \<Rightarrow> BlackoilModel \<Rightarrow> (nat \<Rightarrow> real) \<times> real \<Rightarrow> bool" where
  "fractions_ok ix m FS =
     (case FS of (F, F_solvent) \<Rightarrow>
        F (Water ix) + F (Gas ix) + F_solvent + F (Oil ix) = 1
      \<and> (\<not> active_water m \<longrightarrow> F (Water ix) = 0)
      \<and> (\<not> active_gas m \<longrightarrow> F (Gas ix) = 0)
      \<and> (\<not> has_solvent m \<longrightarrow> F_solvent = 0))"


text \<open>
  The solution vector has room for the fraction variables in use: \<open>nw\<close> entries from
  \<open>WFrac * nw\<close> on with water, from \<open>GFrac * nw\<close> on with gas, from \<open>SFrac * nw\<close> on with
  solvent.
\<close>

definition fraction_variables_fit :: "BlackoilIndices \<Rightarrow> BlackoilModel \<Rightarrow> nat \<Rightarrow> nat \<Rightarrow> bool" where
  "fraction_variables_fit ix m nw len =
     ((active_water m \<longrightarrow> Suc (WFrac ix) * nw \<le> len)
    \<and> (active_gas m \<longrightarrow> Suc (GFrac ix) * nw \<le> len)
    \<and> (has_solvent m \<longrightarrow> Suc (SFrac ix) * nw \<le> len))"

section \<open>\<^verbatim>\<open>updateWellStateWithTarget\<close> and \<^verbatim>\<open>updateWellControls\<close>\<close>

text \<open>\<open>\<Sum>p < np. f p\<close>, accumulated from \<open>0.0\<close> in the order of the loop.\<close>

definition sum_phases :: "nat \<Rightarrow> (nat \<Rightarrow> real) \<Rightarrow> real" where
  "sum_phases np f = fold (\<lambda>p acc. acc + f p) [0..<np] 0"

text \<open>
  The first switch of \<^verbatim>\<open>updateWellStateWithTarget\<close>: pressure, tubing-head pressure and
  rates from the target of the control entry \<open>ctrl\<close>.
\<close>

definition initFromTarget ::
  "BlackoilIndices \<Rightarrow> BlackoilModel \<Rightarrow> StandardWellsDense \<Rightarrow> real list \<Rightarrow> WellControl \<Rightarrow> nat
     \<Rightarrow> WellState \<Rightarrow> WellState" where
  "initFromTarget ix m swd densities ctrl well_index xw =
     (let np = number_of_phases (wells swd);
          target = wc_target ctrl;
          distr = wc_distr ctrl
      in case wc_type ctrl of
           BHP \<Rightarrow> xw\<lparr>bhp := (bhp xw)[well_index := target]\<rparr>
         | THP \<Rightarrow>
             (let xw1 = xw\<lparr>thp := (thp xw)[well_index := target]\<rparr>
              in xw1\<lparr>bhp := (bhp xw1)
                    [well_index := bhp_from_thp m ix swd densities well_index ctrl (wellRates xw1)]\<rparr>)
         | _ \<Rightarrow>
             (let numPhasesWithTargetsUnderThisControl = length (filter (\<lambda>phase. distr ! phase > 0) [0..<np])
              in case wtype (wells swd) ! well_index of
                   INJECTOR \<Rightarrow>
                     xw\<lparr>wellRates := setWellRates np well_index
                          (\<lambda>phase. if distr ! phase > 0 then target / (distr ! phase) else 0) (wellRates xw)\<rparr>
                 | PRODUCER \<Rightarrow>
                     (let original_rates_under_phase_control =
                            sum_phases np (\<lambda>phase. if distr ! phase > 0
                                                    then wellRates xw ! (np * well_index + phase) * distr ! phase
                                                    else 0)
                      in if original_rates_under_phase_control \<noteq> 0 then
                           (let scaling_factor = target / original_rates_under_phase_control
                            in xw\<lparr>wellRates := setWellRates np well_index
                                 (\<lambda>phase. wellRates xw ! (np * well_index + phase) * scaling_factor)
                                 (wellRates xw)\<rparr>)
                         else
                           (let target_rate_divided = target / real numPhasesWithTargetsUnderThisControl
                            in xw\<lparr>wellRates := setWellRates np well_index
                                 (\<lambda>phase. if distr ! phase > 0 then target_rate_divided / (distr ! phase)
                                           else target_rate_divided)
                                 (wellRates xw)\<rparr>))))"

text \<open>
  \<^verbatim>\<open>g = {1.0, 1.0, 0.01}\<close>, overwritten by the distribution for a \<^verbatim>\<open>RESERVOIR_RATE\<close> control.
\<close>

definition g_of_control :: "nat \<Rightarrow> WellControl \<Rightarrow> nat \<Rightarrow> real" where
  "g_of_control np ctrl p =
     (if wc_type ctrl = RESERVOIR_RATE \<and> p < np then wc_distr ctrl ! p else g_scaling ! p)"

text \<open>The second switch: the first well variable.\<close>

definition initFirstVariable ::
  "BlackoilIndices \<Rightarrow> StandardWellsDense \<Rightarrow> WellControl \<Rightarrow> nat \<Rightarrow> WellState \<Rightarrow> WellState" where
  "initFirstVariable ix swd ctrl well_index xw =
     (let np = number_of_phases (wells swd);
          nw = number_of_wells (wells swd);
          k = nw * XvarWell ix + well_index
      in if wc_type ctrl = THP \<or> wc_type ctrl = BHP then
           (case wtype (wells swd) ! well_index of
              INJECTOR \<Rightarrow>
                xw\<lparr>wellSolutions := (wellSolutions xw)
                     [k := sum_phases np (\<lambda>p. wellRates xw ! (np * well_index + p)
                                              * comp_frac (wells swd) ! (np * well_index + p))]\<rparr>
            | PRODUCER \<Rightarrow>
                xw\<lparr>wellSolutions := (wellSolutions xw)
                     [k := sum_phases np (\<lambda>p. g_of_control np ctrl p * wellRates xw ! (np * well_index + p))]\<rparr>)
         else xw\<lparr>wellSolutions := (wellSolutions xw)[k := bhp xw ! well_index]\<rparr>)"

text \<open>The fraction variables from the rates, or their defaults when the total rate is zero.\<close>

definition initFractions ::
  "BlackoilIndices \<Rightarrow> BlackoilModel \<Rightarrow> StandardWellsDense \<Rightarrow> WellControl \<Rightarrow> nat \<Rightarrow> WellState \<Rightarrow> WellState" where
  "initFractions ix m swd ctrl well_index xw =
     (let np = number_of_phases (wells swd);
          nw = number_of_wells (wells swd);
          g = g_of_control np ctrl;
          distr = wc_distr ctrl;
          rate = (\<lambda>p. wellRates xw ! (np * well_index + p));
          tot_well_rate = sum_phases np (\<lambda>p. g p * rate p);
          ws = wellSolutions xw
      in if \<bar>tot_well_rate\<bar> > 0 then
           (let ws1 = (if active_water m
                       then ws[WFrac ix * nw + well_index := g (Water ix) * rate (Water ix) / tot_well_rate]
                       else ws);
                ws2 = (if active_gas m
                       then ws1[GFrac ix * nw + well_index :=
                              g (Gas ix) * (rate (Gas ix) - solventWellRate swd xw well_index) / tot_well_rate]
                       else ws1);
                ws3 = (if has_solvent m
                       then ws2[SFrac ix * nw + well_index :=
                              g (Gas ix) * solventWellRate swd xw well_index / tot_well_rate]
                       else ws2)
            in xw\<lparr>wellSolutions := ws3\<rparr>)
         else
           (case wtype (wells swd) ! well_index of
              INJECTOR \<Rightarrow>
                (let ws1 = (if active_water m
                            then ws[WFrac ix * nw + well_index := (if distr ! Water ix > 0 then 1 else 0)]
                            else ws);
                     ws2 = (if active_gas m then
                              (if distr ! Gas ix > 0 then
                                 (let wsa = ws1[GFrac ix * nw + well_index := 1 - wsolvent swd well_index]
                                  in if has_solvent m
                                     then wsa[SFrac ix * nw + well_index := wsolvent swd well_index]
                                     else wsa)
                               else ws1[GFrac ix * nw + well_index := 0])
                            else ws1)
                 in xw\<lparr>wellSolutions := ws2\<rparr>)
            | PRODUCER \<Rightarrow>
                (let ws1 = (if active_water m then ws[WFrac ix * nw + well_index := 1 / real np] else ws);
                     ws2 = (if active_gas m then ws1[GFrac ix * nw + well_index := 1 / real np] else ws1)
                 in xw\<lparr>wellSolutions := ws2\<rparr>)))"

text \<open>
  \<^verbatim>\<open>updateWellStateWithTarget(wc, current, well_index, xw)\<close>. (Both well types are covered
  by the datatype, so the \<^verbatim>\<open>std::logic_error\<close> branches for any other type have no
  counterpart.)
\<close>

definition updateWellStateWithTarget ::
  "BlackoilIndices \<Rightarrow> BlackoilModel \<Rightarrow> StandardWellsDense \<Rightarrow> real list \<Rightarrow> WellControls \<Rightarrow> int \<Rightarrow> nat
     \<Rightarrow> WellState \<Rightarrow> WellState" where
  "updateWellStateWithTarget ix m swd densities wc current well_index xw =
     (let ctrl = well_controls_iget wc current
      in initFractions ix m swd ctrl well_index
           (initFirstVariable ix swd ctrl well_index
              (initFromTarget ix m swd densities ctrl well_index xw)))"

text \<open>
  The well collection (the tree of groups and wells) is defined elsewhere. These are the
  calls that the well model makes on it; \<open>'g\<close> is its state. A leaf node shows whether it
  is an injector, whether it is under individual control, its well index and its group
  control index. \<open>applyVREPGroupControls\<close> stands for the computation of the voidage rates
  of the wells from the well state followed by the call of that name.
\<close>

record WellNode =
  isInjector :: bool
  individualControl :: bool
  selfIndex :: nat
  node_groupControlIndex :: int

record 'g WellCollection =
  groupControlActive :: "'g \<Rightarrow> bool"
  havingVREPGroups :: "'g \<Rightarrow> bool"
  groupControlIndex :: "'g \<Rightarrow> nat \<Rightarrow> int"
  setIndividualControl :: "'g \<Rightarrow> nat \<Rightarrow> bool \<Rightarrow> 'g"
  applyVREPGroupControls :: "'g \<Rightarrow> WellState \<Rightarrow> 'g"
  getLeafNodes :: "'g \<Rightarrow> WellNode list"
  updateWellTargets :: "'g \<Rightarrow> real list \<Rightarrow> WellControls list \<Rightarrow> 'g \<times> WellControls list"
  groupTargetConverged :: "'g \<Rightarrow> real list \<Rightarrow> bool"

text \<open>
  The scan of the constraints of one well: the indices in increasing order, the current
  one skipped, stopping at the first broken one. \<open>None\<close> stands for the loop running to
  its end (\<^verbatim>\<open>ctrl_index == nwc\<close>).
\<close>

fun firstBrokenConstraint :: "int \<Rightarrow> (nat \<Rightarrow> bool) \<Rightarrow> nat list \<Rightarrow> nat option" where
  "firstBrokenConstraint current broken [] = None"
| "firstBrokenConstraint current broken (ctrl_index # rest) =
     (if int ctrl_index = current then firstBrokenConstraint current broken rest
      else if broken ctrl_index then Some ctrl_index
      else firstBrokenConstraint current broken rest)"

definition brokenConstraintOf :: "StandardWellsDense \<Rightarrow> WellControls list \<Rightarrow> WellState \<Rightarrow> nat \<Rightarrow> nat option" where
  "brokenConstraintOf swd cs xw w =
     (let wc = cs ! w
      in firstBrokenConstraint (currentControls xw ! w)
           (constraintBroken swd (bhp xw) (thp xw) (wellRates xw) w (number_of_phases (wells swd))
              (wtype (wells swd) ! w) wc)
           [0..<well_controls_get_num wc])"

text \<open>
  The body of the first loop over the wells: the switch, and with group control the
  note whether the well is under group or individual control. The state threaded
  through the loops is the well state, the controls and the well collection.
\<close>

definition switchWellControl ::
  "'g WellCollection \<Rightarrow> StandardWellsDense \<Rightarrow> nat
     \<Rightarrow> WellState \<times> WellControls list \<times> 'g \<Rightarrow> WellState \<times> WellControls list \<times> 'g" where
  "switchWellControl coll swd w s =
     (case s of (xw, cs, g) \<Rightarrow>
        (let (xw1, cs1) =
               (case brokenConstraintOf swd cs xw w of
                  None \<Rightarrow> (xw, cs)
                | Some ctrl_index \<Rightarrow>
                    (xw\<lparr>currentControls := (currentControls xw)[w := int ctrl_index]\<rparr>,
                     cs[w := well_controls_set_current (cs ! w) (int ctrl_index)]));
             current = currentControls xw1 ! w;
             g1 = (if groupControlActive coll g
                   then (if groupControlIndex coll g w \<ge> 0 \<and> current = groupControlIndex coll g w
                         then setIndividualControl coll g w False
                         else setIndividualControl coll g w True)
                   else g)
         in (xw1, cs1, g1)))"

text \<open>\<^verbatim>\<open>applyVREPGroupControl\<close>.\<close>

definition applyVREPGroupControl ::
  "'g WellCollection \<Rightarrow> WellState \<times> WellControls list \<times> 'g \<Rightarrow> WellState \<times> WellControls list \<times> 'g" where
  "applyVREPGroupControl coll s =
     (case s of (xw, cs, g) \<Rightarrow>
        if havingVREPGroups coll g then
          (let g1 = applyVREPGroupControls coll g xw;
               (xw1, cs1) =
                 fold (\<lambda>well_node (xwa, csa).
                         if isInjector well_node \<and> \<not> individualControl well_node then
                           (xwa\<lparr>currentControls := (currentControls xwa)
                                  [selfIndex well_node := node_groupControlIndex well_node]\<rparr>,
                            csa[selfIndex well_node :=
                                  well_controls_set_current (csa ! selfIndex well_node)
                                    (node_groupControlIndex well_node)])
                         else (xwa, csa))
                   (getLeafNodes coll g1) (xw, cs)
           in (xw1, cs1, g1))
        else (xw, cs, g))"

text \<open>\<^verbatim>\<open>updateWellControls(xw)\<close>.\<close>

definition updateWellControls ::
  "BlackoilIndices \<Rightarrow> BlackoilModel \<Rightarrow> 'g WellCollection \<Rightarrow> StandardWellsDense \<Rightarrow> real list
     \<Rightarrow> WellState \<times> WellControls list \<times> 'g \<Rightarrow> WellState \<times> WellControls list \<times> 'g" where
  "updateWellControls ix m coll swd densities s =
     (if \<not> wells_active swd then s
      else
        (let nw = number_of_wells (wells swd);
             old_control_index = map (\<lambda>w. currentControls (fst s) ! w) [0..<nw];
             s1 = fold (switchWellControl coll swd) [0..<nw] s;
             updated_control_index = map (\<lambda>w. currentControls (fst s1) ! w) [0..<nw];
             s2 = fold (\<lambda>w (xw, cs, g).
                          if updated_control_index ! w \<noteq> old_control_index ! w \<or> groupControlActive coll g
                          then (updateWellStateWithTarget ix m swd densities (cs ! w)
                                  (updated_control_index ! w) w xw, cs, g)
                          else (xw, cs, g))
                    [0..<nw] s1
         in if groupControlActive coll (snd (snd s2)) then
              (case applyVREPGroupControl coll s2 of (xw3, cs3, g3) \<Rightarrow>
                 (case updateWellTargets coll g3 (wellRates xw3) cs3 of (g4, cs4) \<Rightarrow>
                    (fold (\<lambda>w xw. updateWellStateWithTarget ix m swd densities (cs4 ! w)
                                    (updated_control_index ! w) w xw)
                       [0..<nw] xw3, cs4, g4)))
            else s2))"

section \<open>Auxiliary form of the second loop of \<^verbatim>\<open>updateWellControls\<close>\<close>

text \<open>
  The body of the second loop of \<^verbatim>\<open>updateWellControls\<close> on the well state alone: well
  \<open>w\<close> is set up from the target of control \<open>idx w\<close> when \<open>changed w\<close> holds. The
  controls and the well collection are only read there.
\<close>

definition retarget :: "BlackoilIndices \<Rightarrow> BlackoilModel \<Rightarrow> StandardWellsDense \<Rightarrow> real list
   \<Rightarrow> WellControls list \<Rightarrow> (nat \<Rightarrow> int) \<Rightarrow> (nat \<Rightarrow> bool) \<Rightarrow> nat \<Rightarrow> WellState \<Rightarrow> WellState" where
  "retarget ix m swd densities cs idx changed w xw =
     (if changed w then updateWellStateWithTarget ix m swd densities (cs ! w) (idx w) w xw else xw)"


section \<open>Well rates, bottom-hole pressure and perforation fluxes\<close>

text \<open>
  The entry that \<^verbatim>\<open>well_controls_get_current_type\<close>, \<^verbatim>\<open>_target\<close> and \<^verbatim>\<open>_distr\<close> read: the
  one at the current index of the \<^verbatim>\<open>WellControls\<close> object.
\<close>

definition well_controls_get_current :: "WellControls \<Rightarrow> WellControl" where
  "well_controls_get_current wc = well_controls_iget wc (wc_current wc)"

text \<open>
  \<^verbatim>\<open>flowPhaseToEbosPhaseIdx\<close>:
  \<^verbatim>\<open>flowToEbos[3] = { waterPhaseIdx, oilPhaseIdx, gasPhaseIdx }\<close>.
\<close>

definition flowPhaseToEbosPhaseIdx :: "BlackoilIndices \<Rightarrow> nat \<Rightarrow> nat" where
  "flowPhaseToEbosPhaseIdx ix phaseIdx = [waterPhaseIdx ix, oilPhaseIdx ix, gasPhaseIdx ix] ! phaseIdx"

text \<open>
  What the well model and the convergence test read from the cached intensive
  quantities of a cell: the phase pressures, \<open>Rs\<close>, \<open>Rv\<close> and the inverse formation volume
  factors of the fluid state (by phase index of the fluid system), the inverse formation
  volume factor of the solvent, and the porosity. The values only; the derivatives
  that the source carries along in \<^verbatim>\<open>Evaluation\<close> objects decide no branch.
\<close>

record IntensiveQuantities =
  fs_pressure :: "nat \<Rightarrow> real"
  fs_Rs :: real
  fs_Rv :: real
  fs_invB :: "nat \<Rightarrow> real"
  solventInverseFormationVolumeFactor :: real
  porosity :: real

text \<open>
  \<^verbatim>\<open>wellVolumeFractionScaled(wellIdx, compIdx)\<close> with \<^verbatim>\<open>g = {1, 1, 0.01, 0.01}\<close>. Quotients
  are those of the reals; the divisors are target distributions and scalings, which the
  callers take to be positive.
\<close>

definition wellVolumeFractionScaled ::
  "BlackoilIndices \<Rightarrow> BlackoilModel \<Rightarrow> StandardWellsDense \<Rightarrow> 'g WellModelState \<Rightarrow> nat \<Rightarrow> nat \<Rightarrow> real" where
  "wellVolumeFractionScaled ix m swd ms wellIdx compIdx =
     (let wc = well_controls_get_current (ctrls ms ! wellIdx);
          fraction = wellVolumeFraction ix m swd (wellVariables ms) wellIdx compIdx
      in if wc_type wc = RESERVOIR_RATE then
           (if has_solvent m \<and> compIdx = solventSaturationIdx ix then fraction
            else if wc_distr wc ! compIdx > 0 then fraction / (wc_distr wc ! compIdx)
            else fraction)
         else fraction / ([1, 1, 1 / 100, 1 / 100] ! compIdx))"

text \<open>\<^verbatim>\<open>wellSurfaceVolumeFraction\<close> (the source asserts that the sum is not zero).\<close>

definition wellSurfaceVolumeFraction ::
  "BlackoilIndices \<Rightarrow> BlackoilModel \<Rightarrow> StandardWellsDense \<Rightarrow> 'g WellModelState \<Rightarrow> nat \<Rightarrow> nat \<Rightarrow> real" where
  "wellSurfaceVolumeFraction ix m swd ms well_index compIdx =
     (let sum_volume_fraction_scaled =
            fold (\<lambda>idx acc. acc + wellVolumeFractionScaled ix m swd ms well_index idx)
              [0..<numComponents swd] 0
      in wellVolumeFractionScaled ix m swd ms well_index compIdx / sum_volume_fraction_scaled)"

text \<open>
  \<^verbatim>\<open>getQs(wellIdx, compIdx)\<close>, the rate of a component of a well. The control types are
  the four of the datatype, so the \<^verbatim>\<open>std::logic_error\<close> branch for any other has no
  counterpart. The last \<open>0\<close> of the \<^verbatim>\<open>SURFACE_RATE\<close> case is the \<^verbatim>\<open>return qs\<close> at the end of the
  function, reached when no phase is under rate control.
\<close>

definition getQs ::
  "BlackoilIndices \<Rightarrow> BlackoilModel \<Rightarrow> StandardWellsDense \<Rightarrow> 'g WellModelState \<Rightarrow> nat \<Rightarrow> nat \<Rightarrow> real" where
  "getQs ix m swd ms wellIdx compIdx =
     (let wc = well_controls_get_current (ctrls ms ! wellIdx);
          np = number_of_phases (wells swd);
          nw = number_of_wells (wells swd);
          target_rate = wc_target wc;
          xvar = wellVariables ms ! (nw * XvarWell ix + wellIdx);
          scaled = wellVolumeFractionScaled ix m swd ms wellIdx
      in case wtype (wells swd) ! wellIdx of
           INJECTOR \<Rightarrow>
             (if has_solvent m then
                (let comp_frac =
                       (if compIdx = solventSaturationIdx ix
                        then comp_frac (wells swd) ! (np * wellIdx + phase_pos swd (Gas ix)) * wsolvent swd wellIdx
                        else if compIdx = phase_pos swd (Gas ix)
                        then comp_frac (wells swd) ! (np * wellIdx + compIdx) * (1 - wsolvent swd wellIdx)
                        else comp_frac (wells swd) ! (np * wellIdx + compIdx))
                 in if comp_frac = 0 then 0
                    else if wc_type wc = BHP \<or> wc_type wc = THP then comp_frac * xvar
                    else comp_frac * target_rate)
              else
                (let comp_frac = comp_frac (wells swd) ! (np * wellIdx + compIdx)
                 in if comp_frac = 0 then 0
                    else if wc_type wc = BHP \<or> wc_type wc = THP then xvar
                    else target_rate))
         | PRODUCER \<Rightarrow>
             (if wc_type wc = BHP \<or> wc_type wc = THP then xvar * scaled compIdx
              else if wc_type wc = SURFACE_RATE then
                (let distr = wc_distr wc;
                     under_rate_control = filter (\<lambda>phase. distr ! phase > 0) [0..<np];
                     num_phases_under_rate_control = length under_rate_control
                 in if num_phases_under_rate_control = 1 then
                      (let phase_under_control = hd under_rate_control;
                           with_solvent = (has_solvent m \<and> phase_under_control = Gas ix);
                           wellVolumeFractionScaledPhaseUnderControl =
                             (if with_solvent
                              then scaled phase_under_control + scaled (solventSaturationIdx ix)
                              else scaled phase_under_control)
                       in if compIdx = phase_under_control then
                            (if with_solvent
                             then target_rate * scaled (Gas ix) / wellVolumeFractionScaledPhaseUnderControl
                             else target_rate)
                          else if wellVolumeFractionScaledPhaseUnderControl < 1 / 1000000 then 0
                          else target_rate * scaled compIdx / wellVolumeFractionScaledPhaseUnderControl)
                    else if num_phases_under_rate_control = 2 then
                      (let combined_volume_fraction =
                             fold (\<lambda>p acc. if distr ! p = 1 then acc + scaled p else acc) [0..<np] 0
                       in target_rate * scaled compIdx / combined_volume_fraction)
                    else if num_phases_under_rate_control = 3 then
                      target_rate * wellSurfaceVolumeFraction ix m swd ms wellIdx compIdx
                    else 0)
              else target_rate * scaled compIdx))"

text \<open>
  \<^verbatim>\<open>getBhp(wellIdx)\<close>: the target under \<^verbatim>\<open>BHP\<close> control, the VFP lookup with the hydrostatic
  correction under \<^verbatim>\<open>THP\<close> control, the first well variable otherwise.
\<close>

definition getBhp ::
  "BlackoilIndices \<Rightarrow> BlackoilModel \<Rightarrow> StandardWellsDense \<Rightarrow> 'g WellModelState \<Rightarrow> nat \<Rightarrow> real" where
  "getBhp ix m swd ms wellIdx =
     (let wc = well_controls_get_current (ctrls ms ! wellIdx)
      in if wc_type wc = BHP then wc_target wc
         else if wc_type wc = THP then
           (let thp_target = wc_target wc;
                alq = wc_alq wc;
                table_id = wc_vfp wc;
                aqua = (if active_water m then getQs ix m swd ms wellIdx (phase_pos swd (Water ix)) else 0);
                liquid = (if active_oil m then getQs ix m swd ms wellIdx (phase_pos swd (Oil ix)) else 0);
                vapour = (if active_gas m then getQs ix m swd ms wellIdx (phase_pos swd (Gas ix)) else 0);
                perf = well_connpos (wells swd) ! wellIdx;
                rho = well_perforation_densities ms ! perf
            in case wtype (wells swd) ! wellIdx of
                 INJECTOR \<Rightarrow>
                   vfp_inj_bhp swd table_id aqua liquid vapour thp_target
                     - computeHydrostaticCorrection swd wellIdx (vfp_inj_datum swd table_id) rho (gravity swd)
               | PRODUCER \<Rightarrow>
                   vfp_prod_bhp swd table_id aqua liquid vapour thp_target alq
                     - computeHydrostaticCorrection swd wellIdx (vfp_prod_datum swd table_id) rho (gravity swd))
         else wellVariables ms ! (number_of_wells (wells swd) * XvarWell ix + wellIdx))"

text \<open>
  The pressure drawdown of a perforation as \<^verbatim>\<open>allow_cross_flow\<close> computes it: the oil
  pressure of the cell minus the bottom-hole pressure of the well and the pressure
  difference of the perforation. \<open>sim\<close> gives the cached intensive quantities of a cell.
\<close>

definition perforation_drawdown ::
  "BlackoilIndices \<Rightarrow> BlackoilModel \<Rightarrow> StandardWellsDense \<Rightarrow> 'g WellModelState
     \<Rightarrow> (nat \<Rightarrow> IntensiveQuantities) \<Rightarrow> nat \<Rightarrow> nat \<Rightarrow> real" where
  "perforation_drawdown ix m swd ms sim w perf =
     (let cell_idx = well_cells (wells swd) ! perf;
          pressure = fs_pressure (sim cell_idx) (oilPhaseIdx ix);
          well_pressure = getBhp ix m swd ms w + well_perforation_pressure_diffs ms ! perf
      in pressure - well_pressure)"

text \<open>
  The loop of \<^verbatim>\<open>allow_cross_flow\<close> over the perforations of a well: \<^verbatim>\<open>return false\<close> at the
  first perforation that flows in the direction of the well type, \<^verbatim>\<open>return true\<close> after
  the last one.
\<close>

fun all_perforations_cross_flow :: "(nat \<Rightarrow> real) \<Rightarrow> WellType \<Rightarrow> nat list \<Rightarrow> bool" where
  "all_perforations_cross_flow drawdown wt [] = True"
| "all_perforations_cross_flow drawdown wt (perf # perfs) =
     (if drawdown perf < 0 \<and> wt = INJECTOR then False
      else if drawdown perf > 0 \<and> wt = PRODUCER then False
      else all_perforations_cross_flow drawdown wt perfs)"

definition allow_cross_flow ::
  "BlackoilIndices \<Rightarrow> BlackoilModel \<Rightarrow> StandardWellsDense \<Rightarrow> 'g WellModelState
     \<Rightarrow> (nat \<Rightarrow> IntensiveQuantities) \<Rightarrow> nat \<Rightarrow> bool" where
  "allow_cross_flow ix m swd ms sim w =
     (if allow_cf (wells swd) ! w then True
      else all_perforations_cross_flow (perforation_drawdown ix m swd ms sim w) (wtype (wells swd) ! w)
             [well_connpos (wells swd) ! w ..< well_connpos (wells swd) ! (w + 1)])"

text \<open>
  \<^verbatim>\<open>computeWellFlux\<close>. The inverse formation volume factors of the components at the
  perforated cell:
\<close>

definition b_perfcells_dense :: "BlackoilIndices \<Rightarrow> BlackoilModel \<Rightarrow> StandardWellsDense \<Rightarrow> IntensiveQuantities \<Rightarrow> real list" where
  "b_perfcells_dense ix m swd intQuants =
     (let b = fold (\<lambda>phase b. b[phase := fs_invB intQuants (flowPhaseToEbosPhaseIdx ix phase)])
                [0..<number_of_phases (wells swd)] (replicate (numComponents swd) 0)
      in if has_solvent m
         then b[solventSaturationIdx ix := solventInverseFormationVolumeFactor intQuants]
         else b)"

text \<open>
  The branch of a producing perforation (\<^verbatim>\<open>drawdown.value() > 0\<close>) behind the cross-flow
  guard: component rates at standard conditions, with the dissolved gas and the
  vaporised oil when both phases are active.
\<close>

definition producing_flux ::
  "BlackoilIndices \<Rightarrow> BlackoilModel \<Rightarrow> StandardWellsDense \<Rightarrow> real \<Rightarrow> IntensiveQuantities \<Rightarrow> real list
     \<Rightarrow> real \<Rightarrow> real list \<Rightarrow> real list" where
  "producing_flux ix m swd Tw intQuants mob drawdown cq_s =
     (let b = b_perfcells_dense ix m swd intQuants;
          cq1 = fold (\<lambda>componentIdx cq.
                        cq[componentIdx := b ! componentIdx * (- Tw * (mob ! componentIdx * drawdown))])
                  [0..<numComponents swd] cq_s
      in if active_oil m \<and> active_gas m then
           (let oilpos = phase_pos swd (Oil ix);
                gaspos = phase_pos swd (Gas ix);
                cq_sOil = cq1 ! oilpos;
                cq_sGas = cq1 ! gaspos;
                cq2 = cq1[gaspos := cq1 ! gaspos + fs_Rs intQuants * cq_sOil]
            in cq2[oilpos := cq2 ! oilpos + fs_Rv intQuants * cq_sGas])
         else cq1)"

text \<open>
  The branch of an injecting perforation behind the guard: the total rate is split by
  the surface volume fractions of the well. A \<^verbatim>\<open>NumericalProblem\<close> is thrown when
  \<open>1 - rv * rs\<close> is zero.
\<close>

definition injecting_flux ::
  "BlackoilIndices \<Rightarrow> BlackoilModel \<Rightarrow> StandardWellsDense \<Rightarrow> 'g WellModelState \<Rightarrow> nat \<Rightarrow> real
     \<Rightarrow> IntensiveQuantities \<Rightarrow> real list \<Rightarrow> real \<Rightarrow> real list \<Rightarrow> exn + real list" where
  "injecting_flux ix m swd ms w Tw intQuants mob drawdown cq_s =
     (let numComp = numComponents swd;
          cmix_s = map (wellSurfaceVolumeFraction ix m swd ms w) [0..<numComp];
          b = b_perfcells_dense ix m swd intQuants;
          rs = fs_Rs intQuants;
          rv = fs_Rv intQuants;
          total_mob_dense = fold (\<lambda>componentIdx t. t + mob ! componentIdx) [1..<numComp] (mob ! 0);
          cqt_i = - Tw * (total_mob_dense * drawdown);
          vr1 = (if active_water m
                 then cmix_s ! phase_pos swd (Water ix) / b ! phase_pos swd (Water ix) else 0);
          vr2 = (if has_solvent m
                 then vr1 + cmix_s ! solventSaturationIdx ix / b ! solventSaturationIdx ix else vr1);
          oilpos = phase_pos swd (Oil ix);
          gaspos = phase_pos swd (Gas ix);
          store = (\<lambda>volumeRatio.
                     fold (\<lambda>componentIdx cq. cq[componentIdx := cmix_s ! componentIdx * (cqt_i / volumeRatio)])
                       [0..<numComp] cq_s)
      in if active_oil m \<and> active_gas m then
           (let d = 1 - rv * rs
            in if d = 0 then Inl NumericalProblem
               else
                 (let tmp_oil = (cmix_s ! oilpos - rv * cmix_s ! gaspos) / d;
                      vr3 = vr2 + tmp_oil / b ! oilpos;
                      tmp_gas = (cmix_s ! gaspos - rs * cmix_s ! oilpos) / d;
                      vr4 = vr3 + tmp_gas / b ! gaspos
                  in Inr (store vr4)))
         else
           (let vr3 = (if active_oil m then vr2 + cmix_s ! oilpos / b ! oilpos else vr2);
                vr4 = (if active_gas m then vr3 + cmix_s ! gaspos / b ! gaspos else vr3)
            in Inr (store vr4)))"

text \<open>
  \<^verbatim>\<open>computeWellFlux(w, Tw, intQuants, mob, bhp, cdp, allow_cf, cq_s)\<close> (\<open>bhp_w\<close> and
  \<open>allow_cf_w\<close> are the arguments \<^verbatim>\<open>bhp\<close> and \<^verbatim>\<open>allow_cf\<close>): the two early returns leave \<open>cq_s\<close> as the caller passed it (all zero in \<^verbatim>\<open>assembleWellEq\<close>).
\<close>

definition computeWellFlux ::
  "BlackoilIndices \<Rightarrow> BlackoilModel \<Rightarrow> StandardWellsDense \<Rightarrow> 'g WellModelState \<Rightarrow> nat \<Rightarrow> real
     \<Rightarrow> IntensiveQuantities \<Rightarrow> real list \<Rightarrow> real \<Rightarrow> real \<Rightarrow> bool \<Rightarrow> real list \<Rightarrow> exn + real list" where
  "computeWellFlux ix m swd ms w Tw intQuants mob bhp_w cdp allow_cf_w cq_s =
     (let pressure = fs_pressure intQuants (oilPhaseIdx ix);
          well_pressure = bhp_w + cdp;
          drawdown = pressure - well_pressure
      in if drawdown > 0 then
           (if \<not> allow_cf_w \<and> wtype (wells swd) ! w = INJECTOR then Inr cq_s
            else Inr (producing_flux ix m swd Tw intQuants mob drawdown cq_s))
         else
           (if \<not> allow_cf_w \<and> wtype (wells swd) ! w = PRODUCER then Inr cq_s
            else injecting_flux ix m swd ms w Tw intQuants mob drawdown cq_s))"

text \<open>
  The call of \<^verbatim>\<open>computeWellFlux\<close> in \<^verbatim>\<open>assembleWellEq\<close> for perforation \<open>perf\<close> of well \<open>w\<close>:
  on the zero vector, with the connection factor \<^verbatim>\<open>WI[perf]\<close>, the bottom-hole pressure
  \<^verbatim>\<open>getBhp(w)\<close>, the pressure difference of the perforation and the result of
  \<^verbatim>\<open>allow_cross_flow(w)\<close>. \<open>mob\<close> is the mobility vector that \<^verbatim>\<open>getMobility\<close> filled.
\<close>

definition perforation_flux ::
  "BlackoilIndices \<Rightarrow> BlackoilModel \<Rightarrow> StandardWellsDense \<Rightarrow> 'g WellModelState
     \<Rightarrow> (nat \<Rightarrow> IntensiveQuantities) \<Rightarrow> real list \<Rightarrow> nat \<Rightarrow> nat \<Rightarrow> exn + real list" where
  "perforation_flux ix m swd ms sim mob w perf =
     computeWellFlux ix m swd ms w (WI (wells swd) ! perf) (sim (well_cells (wells swd) ! perf)) mob
       (getBhp ix m swd ms w) (well_perforation_pressure_diffs ms ! perf)
       (allow_cross_flow ix m swd ms sim w) (replicate (numComponents swd) 0)"

section \<open>The well blocks of the linear system\<close>

text \<open>
  The operations of the matrix library on the well matrices, on lists. For a dense
  block \<open>A\<close> (\<^verbatim>\<open>FieldMatrix\<close>): \<^verbatim>\<open>A.mv(x, y)\<close> is \<open>y = A x\<close> and \<^verbatim>\<open>A.mmv(x, y)\<close> is \<open>y -= A x\<close>,
  row by row.
\<close>

definition dot :: "real list \<Rightarrow> real list \<Rightarrow> real" where
  "dot row v = sum_list (map (\<lambda>j. row ! j * v ! j) [0..<length row])"

definition block_mv :: "block \<Rightarrow> real list \<Rightarrow> real list" where
  "block_mv A v = map (\<lambda>row. dot row v) A"

definition block_mmv :: "block \<Rightarrow> real list \<Rightarrow> real list \<Rightarrow> real list" where
  "block_mmv A v y = fold (\<lambda>i y. y[i := y ! i - dot (A ! i) v]) [0..<length A] y"

text \<open>
  For the block matrices (\<^verbatim>\<open>BCRSMatrix\<close>): \<^verbatim>\<open>duneC_.mmv(x, y)\<close> subtracts from the block \<open>y[w]\<close>
  the products of the blocks of row \<open>w\<close> with the blocks of \<open>x\<close> at their column (cell)
  indices; \<^verbatim>\<open>invDuneD_.mv(r, y)\<close> overwrites \<open>y[w]\<close> with the product of the diagonal block and
  \<open>r[w]\<close>.
\<close>

definition sparse_mmv :: "sparse_rows \<Rightarrow> real list list \<Rightarrow> real list list \<Rightarrow> real list list" where
  "sparse_mmv C x y =
     fold (\<lambda>w y. y[w := fold (\<lambda>(cell_idx, blk) yw. block_mmv blk (x ! cell_idx) yw) (C ! w) (y ! w)])
       [0..<length C] y"

definition diag_mv :: "block list \<Rightarrow> real list list \<Rightarrow> real list list \<Rightarrow> real list list" where
  "diag_mv A r y = fold (\<lambda>w y. y[w := block_mv (A ! w) (r ! w)]) [0..<length A] y"

text \<open>
  \<^verbatim>\<open>localInvert\<close> calls \<^verbatim>\<open>invert()\<close> on every block in turn. The inversion of a dense block
  belongs to the matrix library; \<open>invert\<close> stands for it, with the exception it throws
  for a singular block.
\<close>

fun localInvert :: "(block \<Rightarrow> exn + block) \<Rightarrow> block list \<Rightarrow> exn + block list" where
  "localInvert invert [] = Inr []"
| "localInvert invert (col # cols) =
     (case invert col of
        Inl e \<Rightarrow> Inl e
      | Inr inv_col \<Rightarrow>
          (case localInvert invert cols of
             Inl e \<Rightarrow> Inl e
           | Inr inv_cols \<Rightarrow> Inr (inv_col # inv_cols)))"

text \<open>
  \<^verbatim>\<open>recoverVariable(x, xw)\<close>: a copy of \<^verbatim>\<open>resWell_\<close>, \<^verbatim>\<open>duneC_.mmv(x, resWell)\<close>, then
  \<^verbatim>\<open>invDuneD_.mv(resWell, xw)\<close>; nothing without local wells.
\<close>

definition recoverVariable ::
  "StandardWellsDense \<Rightarrow> 'g WellModelState \<Rightarrow> real list list \<Rightarrow> real list list \<Rightarrow> real list list" where
  "recoverVariable swd ms x xw =
     (if \<not> localWellsActive swd then xw
      else
        (let resWell1 = sparse_mmv (duneC ms) x (resWell ms)
         in diag_mv (invDuneD ms) resWell1 xw))"

text \<open>The product of two blocks and the unit block, to say that one block inverts another.\<close>

definition block_mm :: "block \<Rightarrow> block \<Rightarrow> block" where
  "block_mm A B =
     map (\<lambda>row. map (\<lambda>k. sum_list (map (\<lambda>l. row ! l * B ! l ! k) [0..<length row])) [0..<length A]) A"

definition unit_block :: "nat \<Rightarrow> block" where
  "unit_block n = map (\<lambda>i. map (\<lambda>k. if i = k then 1 else 0) [0..<n]) [0..<n]"

text \<open>A block is square of size \<open>n\<close>.\<close>

definition square_block :: "nat \<Rightarrow> block \<Rightarrow> bool" where
  "square_block n A = (length A = n \<and> list_all (\<lambda>row. length row = n) A)"

section \<open>\<^verbatim>\<open>assembleWellEq\<close>, \<^verbatim>\<open>getWellConvergence\<close> and \<^verbatim>\<open>solveWellEq\<close>\<close>

text \<open>
  What the assembly of the well equations takes from outside this class, for a given
  simulator: the number \<^verbatim>\<open>numEq\<close> of reservoir equations and the three primary-variable
  indices behind \<^verbatim>\<open>flowToEbosPvIdx\<close>; the mobilities that \<^verbatim>\<open>getMobility\<close> works out from
  the material laws for a well, a perforation and its cell (it can throw); the
  efficiency factors of the perforations; the polymer factor of the water rate
  (\<^verbatim>\<open>wpolymer(w)\<close> for an injector, concentration times viscosity correction of the cell
  for a producer); and the inversion of a dense block. The rates are \<^verbatim>\<open>EvalWell\<close> objects
  in the source, values with their derivatives; the values are computed here, and the
  derivatives, which automatic differentiation delivers, are given by three functions
  of the members of the well model: for the perforation rate of a component, for
  \<^verbatim>\<open>resWell_loc\<close> and for the polymer rate, by the index of the derivative.
\<close>

record 'g WellAssembly =
  numEq :: nat
  pressureSwitchIdx :: nat
  waterSaturationIdx :: nat
  compositionSwitchIdx :: nat
  getMobility :: "nat \<Rightarrow> nat \<Rightarrow> nat \<Rightarrow> exn + real list"
  well_perforation_efficiency_factors :: "real list"
  polymer_factor :: "nat \<Rightarrow> nat \<Rightarrow> real"
  block_invert :: "block \<Rightarrow> exn + block"
  cq_s_derivative :: "'g WellModelState \<Rightarrow> nat \<Rightarrow> nat \<Rightarrow> nat \<Rightarrow> nat \<Rightarrow> real"
  resWell_loc_derivative :: "'g WellModelState \<Rightarrow> real \<Rightarrow> nat \<Rightarrow> nat \<Rightarrow> nat \<Rightarrow> real"
  cq_s_poly_derivative :: "'g WellModelState \<Rightarrow> nat \<Rightarrow> nat \<Rightarrow> nat \<Rightarrow> real"

text \<open>
  The linearisation of the reservoir equations that the simulator holds: the diagonal
  blocks of the Jacobian (the well terms go to \<^verbatim>\<open>ebosJac[cell_idx][cell_idx]\<close> only) and
  the residual, one block per cell.
\<close>

record Linearization =
  ebosJac :: "block list"
  ebosResid :: "real list list"

definition flowToEbosPvIdx :: "'g WellAssembly \<Rightarrow> nat \<Rightarrow> nat" where
  "flowToEbosPvIdx env flowPv =
     (if flowPv > 2 then flowPv
      else [pressureSwitchIdx env, waterSaturationIdx env, compositionSwitchIdx env] ! flowPv)"

text \<open>Updates in place: \<open>xs[i] = f(xs[i])\<close>, \<open>A[i][j] = f(A[i][j])\<close>, and the same in the block
  of a sparse row at the column of a cell.\<close>

definition upd :: "'a list \<Rightarrow> nat \<Rightarrow> ('a \<Rightarrow> 'a) \<Rightarrow> 'a list" where
  "upd xs i f = xs[i := f (xs ! i)]"

definition upd2 :: "'a list list \<Rightarrow> nat \<Rightarrow> nat \<Rightarrow> ('a \<Rightarrow> 'a) \<Rightarrow> 'a list list" where
  "upd2 A i j f = upd A i (\<lambda>row. upd row j f)"

definition sparse_upd :: "(nat \<times> block) list \<Rightarrow> nat \<Rightarrow> nat \<Rightarrow> nat \<Rightarrow> (real \<Rightarrow> real) \<Rightarrow> (nat \<times> block) list" where
  "sparse_upd row cell_idx i j f =
     map (\<lambda>(c, blk). if c = cell_idx then (c, upd2 blk i j f) else (c, blk)) row"

definition zero_block :: "block \<Rightarrow> block" where
  "zero_block A = map (map (\<lambda>a. 0)) A"

text \<open>A loop whose body can throw: the first exception ends it.\<close>

fun fold_exn :: "('a \<Rightarrow> 's \<Rightarrow> exn + 's) \<Rightarrow> 'a list \<Rightarrow> 's \<Rightarrow> exn + 's" where
  "fold_exn f [] s = Inr s"
| "fold_exn f (x # xs) s = (case f x s of Inl e \<Rightarrow> Inl e | Inr s' \<Rightarrow> fold_exn f xs s')"

text \<open>
  The body of the loop over the components for one perforation. \<open>cq_s\<close> are the rates that
  \<^verbatim>\<open>computeWellFlux\<close> returned and \<open>d componentIdx i\<close> is \<^verbatim>\<open>cq_s[componentIdx].derivative(i)\<close>.
  The state is the well state, the members of the well model and the linearisation of
  the simulator.
\<close>

definition assembleComponent ::
  "'g WellAssembly \<Rightarrow> BlackoilIndices \<Rightarrow> BlackoilModel \<Rightarrow> StandardWellsDense \<Rightarrow> bool \<Rightarrow> nat \<Rightarrow> nat \<Rightarrow> nat
     \<Rightarrow> real list \<Rightarrow> (nat \<Rightarrow> nat \<Rightarrow> real) \<Rightarrow> nat
     \<Rightarrow> WellState \<times> 'g WellModelState \<times> Linearization \<Rightarrow> WellState \<times> 'g WellModelState \<times> Linearization" where
  "assembleComponent env ix m swd only_wells w perf cell_idx cq_s d componentIdx s =
     (case s of (well_state, ms, lin) \<Rightarrow>
        (let np = number_of_phases (wells swd);
             efficiency = well_perforation_efficiency_factors env ! perf;
             cq_s_effective = cq_s ! componentIdx * efficiency;
             ebosComp = flowPhaseToEbosCompIdx ix componentIdx;
             lin1 = (if \<not> only_wells
                     then lin\<lparr>ebosResid := upd2 (ebosResid lin) cell_idx ebosComp (\<lambda>r. r - cq_s_effective)\<rparr>
                     else lin);
             ms1 = ms\<lparr>resWell := upd2 (resWell ms) w componentIdx (\<lambda>r. r - cq_s ! componentIdx)\<rparr>;
             ms2 = fold (\<lambda>pvIdx ms.
                           (let msB = (if \<not> only_wells
                                       then ms\<lparr>duneB := upd (duneB ms) w
                                              (\<lambda>row. sparse_upd row cell_idx pvIdx ebosComp
                                                 (\<lambda>b. b - d componentIdx (pvIdx + numEq env) * efficiency))\<rparr>
                                       else ms)
                            in msB\<lparr>invDuneD := upd (invDuneD msB) w
                                   (\<lambda>blk. upd2 blk componentIdx pvIdx
                                      (\<lambda>a. a - d componentIdx (pvIdx + numEq env)))\<rparr>))
                     [0..<numWellEq swd] ms1;
             (ms3, lin2) =
               fold (\<lambda>pvIdx (ms, lin).
                       if \<not> only_wells then
                         (ms\<lparr>duneC := upd (duneC ms) w
                                (\<lambda>row. sparse_upd row cell_idx componentIdx (flowToEbosPvIdx env pvIdx)
                                   (\<lambda>c. c - d componentIdx pvIdx * efficiency))\<rparr>,
                          lin\<lparr>ebosJac := upd (ebosJac lin) cell_idx
                                (\<lambda>blk. upd2 blk ebosComp (flowToEbosPvIdx env pvIdx)
                                   (\<lambda>a. a - d componentIdx pvIdx * efficiency))\<rparr>)
                       else (ms, lin))
                 [0..<numEq env] (ms2, lin1);
             ms4 = (if numComponents swd < numEq env
                    then ms3\<lparr>invDuneD := upd (invDuneD ms3) w (\<lambda>blk. upd2 blk (Gas ix) (Gas ix) (\<lambda>a. 1))\<rparr>
                    else ms3);
             well_state1 =
               (if has_solvent m \<and> componentIdx = solventSaturationIdx ix
                then well_state\<lparr>perfRateSolvent := (perfRateSolvent well_state)[perf := cq_s ! componentIdx]\<rparr>
                else well_state\<lparr>perfPhaseRates := (perfPhaseRates well_state)
                                 [perf * np + componentIdx := cq_s ! componentIdx]\<rparr>)
         in (well_state1, ms4, lin2)))"

text \<open>
  The body of the loop over the perforations of well \<open>w\<close>; \<open>allow_cf_w\<close> and \<open>bhp_w\<close> are the
  results of \<^verbatim>\<open>allow_cross_flow(w)\<close> and \<^verbatim>\<open>getBhp(w)\<close> from the head of the loop over the
  wells. \<^verbatim>\<open>getMobility\<close> and \<^verbatim>\<open>computeWellFlux\<close> can throw.
\<close>

definition assemblePerforation ::
  "'g WellAssembly \<Rightarrow> BlackoilIndices \<Rightarrow> BlackoilModel \<Rightarrow> StandardWellsDense \<Rightarrow> (nat \<Rightarrow> IntensiveQuantities)
     \<Rightarrow> bool \<Rightarrow> nat \<Rightarrow> bool \<Rightarrow> real \<Rightarrow> nat
     \<Rightarrow> WellState \<times> 'g WellModelState \<times> Linearization
     \<Rightarrow> exn + WellState \<times> 'g WellModelState \<times> Linearization" where
  "assemblePerforation env ix m swd sim only_wells w allow_cf_w bhp_w perf s =
     (case s of (well_state, ms, lin) \<Rightarrow>
        (let cell_idx = well_cells (wells swd) ! perf;
             numComp = numComponents swd
         in case getMobility env w perf cell_idx of
              Inl e \<Rightarrow> Inl e
            | Inr mob \<Rightarrow>
                (case computeWellFlux ix m swd ms w (WI (wells swd) ! perf) (sim cell_idx) mob bhp_w
                        (well_perforation_pressure_diffs ms ! perf) allow_cf_w (replicate numComp 0) of
                   Inl e \<Rightarrow> Inl e
                 | Inr cq_s \<Rightarrow>
                     (case fold (assembleComponent env ix m swd only_wells w perf cell_idx cq_s
                                   (cq_s_derivative env ms w perf))
                             [0..<numComp] (well_state, ms, lin) of
                        (well_state1, ms1, lin1) \<Rightarrow>
                          (let lin2 =
                                 (if has_polymer m \<and> \<not> only_wells then
                                    (let cq_s_poly = cq_s ! Water ix * polymer_factor env w cell_idx;
                                         jac = fold (\<lambda>pvIdx J. upd J cell_idx
                                                       (\<lambda>blk. upd2 blk (contiPolymerEqIdx ix) (flowToEbosPvIdx env pvIdx)
                                                          (\<lambda>a. a - cq_s_poly_derivative env ms w perf pvIdx)))
                                                 [0..<numEq env] (ebosJac lin1)
                                     in lin1\<lparr>ebosJac := jac,
                                             ebosResid := upd2 (ebosResid lin1) cell_idx (contiPolymerEqIdx ix)
                                                            (\<lambda>r. r - cq_s_poly)\<rparr>)
                                  else lin1);
                               well_state2 = well_state1\<lparr>perfPress := (perfPress well_state1)
                                   [perf := bhp well_state1 ! w + well_perforation_pressure_diffs ms1 ! perf]\<rparr>
                           in Inr (well_state2, ms1, lin2))))))"

text \<open>
  The body of the loop over the wells: the perforations, then \<open>vol * dF/dt + Q\<close> for every
  component, then the trivial equation for polymer. \<^verbatim>\<open>volume = 0.002831684659200\<close>.
\<close>

definition assembleWell ::
  "'g WellAssembly \<Rightarrow> BlackoilIndices \<Rightarrow> BlackoilModel \<Rightarrow> StandardWellsDense \<Rightarrow> (nat \<Rightarrow> IntensiveQuantities)
     \<Rightarrow> real \<Rightarrow> bool \<Rightarrow> nat
     \<Rightarrow> WellState \<times> 'g WellModelState \<times> Linearization
     \<Rightarrow> exn + WellState \<times> 'g WellModelState \<times> Linearization" where
  "assembleWell env ix m swd sim dt only_wells w s =
     (case s of (well_state, ms, lin) \<Rightarrow>
        (let nw = number_of_wells (wells swd);
             volume = 2831684659200 / 1000000000000000;
             allow_cf_w = allow_cross_flow ix m swd ms sim w;
             bhp_w = getBhp ix m swd ms w
         in case fold_exn (assemblePerforation env ix m swd sim only_wells w allow_cf_w bhp_w)
                   [well_connpos (wells swd) ! w ..< well_connpos (wells swd) ! (w + 1)] (well_state, ms, lin) of
              Inl e \<Rightarrow> Inl e
            | Inr (well_state1, ms1, lin1) \<Rightarrow>
                (let ms2 = fold (\<lambda>componentIdx ms.
                                   (let resWell_loc =
                                          (wellSurfaceVolumeFraction ix m swd ms w componentIdx
                                             - F0 ms ! (w + nw * componentIdx)) * volume / dt
                                          + getQs ix m swd ms w componentIdx;
                                        msD = fold (\<lambda>pvIdx ms'. ms'\<lparr>invDuneD := upd (invDuneD ms') w
                                                      (\<lambda>blk. upd2 blk componentIdx pvIdx
                                                         (\<lambda>a. a + resWell_loc_derivative env ms dt w componentIdx
                                                                     (pvIdx + numEq env)))\<rparr>)
                                                [0..<numWellEq swd] ms
                                    in msD\<lparr>resWell := upd2 (resWell msD) w componentIdx (\<lambda>r. r + resWell_loc)\<rparr>))
                             [0..<numComponents swd] ms1;
                     ms3 = (if has_polymer m
                            then ms2\<lparr>invDuneD := upd (invDuneD ms2) w
                                   (\<lambda>blk. upd2 blk (contiPolymerEqIdx ix) (polymerConcentrationIdx ix) (\<lambda>a. 1))\<rparr>
                            else ms2)
                 in Inr (well_state1, ms3, lin1))))"

text \<open>
  The copy of the nine entries \<open>[0..2][0..2]\<close> of every block of \<^verbatim>\<open>invDuneD_\<close> into \<^verbatim>\<open>duneD_\<close>
  (both have the blocks of the diagonal only).
\<close>

definition copy_to_duneD :: "block list \<Rightarrow> block list \<Rightarrow> block list" where
  "copy_to_duneD invD D =
     fold (\<lambda>row_block D.
             upd D row_block
               (\<lambda>blk. fold (\<lambda>i blk. fold (\<lambda>j blk. upd2 blk i j (\<lambda>a. invD ! row_block ! i ! j)) [0..<3] blk)
                        [0..<3] blk))
       [0..<length D] D"

text \<open>
  \<^verbatim>\<open>assembleWellEq(ebosSimulator, dt, well_state, only_wells)\<close>: the four matrices and the
  residual are cleared, the wells are assembled, \<^verbatim>\<open>duneD_\<close> gets its copy and
  \<^verbatim>\<open>localInvert\<close> turns \<^verbatim>\<open>invDuneD_\<close> into the inverse.
\<close>

definition assembleWellEq ::
  "'g WellAssembly \<Rightarrow> BlackoilIndices \<Rightarrow> BlackoilModel \<Rightarrow> StandardWellsDense \<Rightarrow> (nat \<Rightarrow> IntensiveQuantities)
     \<Rightarrow> real \<Rightarrow> bool
     \<Rightarrow> WellState \<times> 'g WellModelState \<times> Linearization
     \<Rightarrow> exn + WellState \<times> 'g WellModelState \<times> Linearization" where
  "assembleWellEq env ix m swd sim dt only_wells s =
     (case s of (well_state, ms, lin) \<Rightarrow>
        (let ms0 = ms\<lparr>duneB := map (map (\<lambda>(c, blk). (c, zero_block blk))) (duneB ms),
                       duneC := map (map (\<lambda>(c, blk). (c, zero_block blk))) (duneC ms),
                       invDuneD := map zero_block (invDuneD ms),
                       resWell := map (map (\<lambda>r. 0)) (resWell ms)\<rparr>
         in case fold_exn (assembleWell env ix m swd sim dt only_wells)
                   [0..<number_of_wells (wells swd)] (well_state, ms0, lin) of
              Inl e \<Rightarrow> Inl e
            | Inr (well_state1, ms1, lin1) \<Rightarrow>
                (let ms2 = ms1\<lparr>duneD := copy_to_duneD (invDuneD ms1) (duneD ms1)\<rparr>
                 in case localInvert (block_invert env) (invDuneD ms2) of
                      Inl e \<Rightarrow> Inl e
                    | Inr invD \<Rightarrow> Inr (well_state1, ms2\<lparr>invDuneD := invD\<rparr>, lin1))))"

section \<open>A field with two wells\<close>

text \<open>
  Three phases, nine cells, two wells with one perforation each: well 0 is a producer
  with the controls \<open>[BHP 1e7, SURFACE_RATE -50 on oil]\<close>, well 1 a water injector with
  the controls \<open>[BHP 3e7, SURFACE_RATE 80 on water]\<close>; both run on their rate control.
  The constraint test is of the usual form: an injector breaks a pressure or rate
  limit from above, a producer from below, and a \<^verbatim>\<open>RESERVOIR_RATE\<close> entry is never
  reported broken. There are no VFP tables and no solvent.
\<close>

definition example_constraintBroken ::
  "real list \<Rightarrow> real list \<Rightarrow> real list \<Rightarrow> nat \<Rightarrow> nat \<Rightarrow> WellType \<Rightarrow> WellControls \<Rightarrow> nat \<Rightarrow> bool" where
  "example_constraintBroken bhps thps rates w np wt wc ctrl_index =
     (let ctrl = wc_entries wc ! ctrl_index;
          rate = sum_list (map (\<lambda>p. rates ! (w * np + p) * wc_distr ctrl ! p) [0..<np])
      in case wt of
           INJECTOR \<Rightarrow>
             (case wc_type ctrl of
                BHP \<Rightarrow> bhps ! w > wc_target ctrl
              | THP \<Rightarrow> thps ! w > wc_target ctrl
              | RESERVOIR_RATE \<Rightarrow> False
              | SURFACE_RATE \<Rightarrow> rate > wc_target ctrl)
         | PRODUCER \<Rightarrow>
             (case wc_type ctrl of
                BHP \<Rightarrow> bhps ! w < wc_target ctrl
              | THP \<Rightarrow> thps ! w < wc_target ctrl
              | RESERVOIR_RATE \<Rightarrow> False
              | SURFACE_RATE \<Rightarrow> rate < wc_target ctrl))"

definition example_wells :: Wells where
  "example_wells = \<lparr>number_of_wells = 2, number_of_phases = 3,
     wtype = [PRODUCER, INJECTOR], comp_frac = [0, 0, 0, 1, 0, 0],
     well_connpos = [0, 1, 2], well_cells = [0, 8], allow_cf = [False, False], WI = [1, 1]\<rparr>"

definition example_swd :: StandardWellsDense where
  "example_swd = \<lparr>wells = example_wells, phase_pos = (\<lambda>p. p), wells_active = True,
     gravity = 981 / 100, global_nc = 9, numWellEq = 3, numComponents = 3,
     vfp_inj_bhp = (\<lambda>t a l v p. 0), vfp_prod_bhp = (\<lambda>t a l v p alq. 0),
     vfp_inj_thp = (\<lambda>t a l v p. 0), vfp_prod_thp = (\<lambda>t a l v p alq. 0),
     vfp_inj_datum = (\<lambda>t. 0), vfp_prod_datum = (\<lambda>t. 0),
     computeHydrostaticCorrection = (\<lambda>w depth rho g. 0),
     constraintBroken = example_constraintBroken,
     wsolvent = (\<lambda>w. 0), solventWellRate = (\<lambda>xw w. 0)\<rparr>"

definition example_controls :: "WellControls list" where
  "example_controls =
     [\<lparr>wc_entries = [\<lparr>wc_type = BHP, wc_target = 10000000, wc_distr = [0, 0, 0], wc_alq = 0, wc_vfp = 0\<rparr>,
                     \<lparr>wc_type = SURFACE_RATE, wc_target = - 50, wc_distr = [0, 1, 0], wc_alq = 0, wc_vfp = 0\<rparr>],
       wc_current = 1\<rparr>,
      \<lparr>wc_entries = [\<lparr>wc_type = BHP, wc_target = 30000000, wc_distr = [0, 0, 0], wc_alq = 0, wc_vfp = 0\<rparr>,
                     \<lparr>wc_type = SURFACE_RATE, wc_target = 80, wc_distr = [1, 0, 0], wc_alq = 0, wc_vfp = 0\<rparr>],
       wc_current = 1\<rparr>]"

text \<open>
  A well state for the two wells. The solution vector holds, for the wells 0 and 1 in
  turn, the first variable (the bottom-hole pressure under rate control), the water
  fraction and the gas fraction.
\<close>

definition example_well_state :: WellState where
  "example_well_state = \<lparr>bhp = [15000000, 25000000], thp = [0, 0],
     wellRates = [- 10, - 50, - 5, 80, 0, 0],
     wellSolutions = [15000000, 25000000, 1 / 10, 1, 1 / 1000, 0],
     currentControls = [1, 1],
     perfPhaseRates = [- 10, - 50, - 5, 80, 0, 0], perfPress = [15000000, 25000000], perfRateSolvent = [0, 0]\<rparr>"

definition example_densities :: "real list" where
  "example_densities = [800, 1000]"



text \<open>
  The members of the well model for the two wells, with the well variables of the well
  state above and no pressure difference along the wells, and a reservoir of pressure
  \<open>2e7\<close> whose cell 8, the one the injector perforates, is at \<open>2.6e7\<close>: above the
  bottom-hole pressure \<open>2.5e7\<close> of the injector.
\<close>

definition example_model_state :: "unit WellModelState" where
  "example_model_state = \<lparr>duneB = [], duneC = [], duneD = [], invDuneD = [], resWell = [],
     wellVariables = wellSolutions example_well_state, F0 = [0, 0, 0, 0, 0, 0],
     well_perforation_densities = example_densities,
     well_perforation_pressure_diffs = [0, 0],
     ctrls = example_controls, wellCollection = ()\<rparr>"

definition example_sim :: "nat \<Rightarrow> IntensiveQuantities" where
  "example_sim cell_idx = \<lparr>fs_pressure = (\<lambda>phaseIdx. if cell_idx = 8 then 26000000 else 20000000),
     fs_Rs = 1 / 2, fs_Rv = 0, fs_invB = (\<lambda>phaseIdx. 1),
     solventInverseFormationVolumeFactor = 1, porosity = 3 / 10\<rparr>"

text \<open>
  An inversion of \<open>3 \<times> 3\<close> blocks by the adjugate, for the examples, and a well system for
  the two wells: diagonal blocks \<open>D\<close> with their inverses, one block of \<open>C\<close> per well at the
  perforated cell, a well residual, and a reservoir solution for the nine cells.
\<close>

definition adjugate_invert :: "block \<Rightarrow> exn + block" where
  "adjugate_invert A =
     (let a = (\<lambda>i j. A ! i ! j);
          det = a 0 0 * (a 1 1 * a 2 2 - a 1 2 * a 2 1)
              - a 0 1 * (a 1 0 * a 2 2 - a 1 2 * a 2 0)
              + a 0 2 * (a 1 0 * a 2 1 - a 1 1 * a 2 0)
      in if det = 0 then Inl FMatrixError
         else Inr [[(a 1 1 * a 2 2 - a 1 2 * a 2 1) / det, (a 0 2 * a 2 1 - a 0 1 * a 2 2) / det,
                    (a 0 1 * a 1 2 - a 0 2 * a 1 1) / det],
                   [(a 1 2 * a 2 0 - a 1 0 * a 2 2) / det, (a 0 0 * a 2 2 - a 0 2 * a 2 0) / det,
                    (a 0 2 * a 1 0 - a 0 0 * a 1 2) / det],
                   [(a 1 0 * a 2 1 - a 1 1 * a 2 0) / det, (a 0 1 * a 2 0 - a 0 0 * a 2 1) / det,
                    (a 0 0 * a 1 1 - a 0 1 * a 1 0) / det]])"

definition example_system :: "unit WellModelState" where
  "example_system = example_model_state\<lparr>
     duneC := [[(0, [[1, 0, 0], [0, 2, 0], [1, 1, 1]])], [(8, [[0, 1, 0], [3, 0, 0], [0, 0, 1]])]],
     duneD := [[[2, 0, 0], [0, 4, 0], [1, 0, 1]], [[1, 1, 0], [0, 1, 0], [0, 0, 2]]],
     invDuneD := [[[1 / 2, 0, 0], [0, 1 / 4, 0], [- 1 / 2, 0, 1]], [[1, - 1, 0], [0, 1, 0], [0, 0, 1 / 2]]],
     resWell := [[1, 2, 3], [4, 5, 6]]\<rparr>"

definition example_x :: "real list list" where
  "example_x = map (\<lambda>cell_idx. [real cell_idx + 1, 2, 3]) [0..<9]"

section \<open>Adaptive time stepping: \<^verbatim>\<open>AdaptiveTimeStepping::stepImpl\<close>\<close>

text \<open>
  \<^verbatim>\<open>SimulatorReport\<close> with the counters and the flag that the sources at hand read or write.
  The timing fields hold wall-clock measurements and are left out. \<open>SimulatorReport()\<close>
  is the default-constructed report.
\<close>

record SimulatorReport =
  converged :: bool
  total_linearizations :: nat
  total_newton_iterations :: nat
  total_linear_iterations :: nat
  total_well_iterations :: nat

definition default_report :: SimulatorReport where
  "default_report = \<lparr>converged = False, total_linearizations = 0, total_newton_iterations = 0,
     total_linear_iterations = 0, total_well_iterations = 0\<rparr>"

text \<open>
  The catch clauses that follow the \<^verbatim>\<open>try\<close> block around \<^verbatim>\<open>solver.step\<close>, in their order:
  \<^verbatim>\<open>Opm::TooManyIterations\<close>, \<^verbatim>\<open>Opm::LinearSolverProblem\<close>, \<^verbatim>\<open>Opm::NumericalProblem\<close>,
  \<^verbatim>\<open>std::runtime_error\<close>, \<^verbatim>\<open>Dune::ISTLError\<close>, \<^verbatim>\<open>Dune::MatrixBlockError\<close>. Every other
  exception passes through.
\<close>

fun caught_in_substep :: "exn \<Rightarrow> bool" where
  "caught_in_substep TooManyIterations = True"
| "caught_in_substep LinearSolverProblem = True"
| "caught_in_substep NumericalProblem = True"
| "caught_in_substep RuntimeError = True"
| "caught_in_substep ISTLError = True"
| "caught_in_substep MatrixBlockError = True"
| "caught_in_substep LogicError = False"
| "caught_in_substep FMatrixError = False"
| "caught_in_substep OtherException = False"

text \<open>
  The collaborators of \<^verbatim>\<open>stepImpl\<close>, none of which is defined in the sources at hand:
  the solver (\<^verbatim>\<open>solver.step\<close>, which may throw and in either case may have changed the
  solver and the two states it received by reference; \<^verbatim>\<open>solver.failureReport()\<close>;
  \<^verbatim>\<open>solver.model().relativeChange\<close>; \<^verbatim>\<open>solver.computeFluidInPlace\<close>), the
  \<^verbatim>\<open>AdaptiveSimulatorTimer\<close> (constructor, \<^verbatim>\<open>done\<close>, \<^verbatim>\<open>currentStepLength\<close>, \<^verbatim>\<open>operator++\<close>,
  \<^verbatim>\<open>provideTimeStepEstimate\<close>, \<^verbatim>\<open>setLastStepFailed\<close>, \<^verbatim>\<open>simulationTimeElapsed\<close>), the
  time-step control (\<^verbatim>\<open>computeTimeStepSize\<close>), \<^verbatim>\<open>SimulatorReport::operator+=\<close>, and the
  output writer (\<^verbatim>\<open>writeTimeStep\<close>, acting on an output of type \<open>'out\<close>).
\<close>

record ('st, 'ws, 'sv, 'tm, 'out) stepper_env =
  solver_step :: "'sv \<Rightarrow> 'tm \<Rightarrow> 'st \<Rightarrow> 'ws \<Rightarrow> (exn + SimulatorReport) \<times> 'sv \<times> 'st \<times> 'ws"
  solver_failureReport :: "'sv \<Rightarrow> SimulatorReport"
  relativeChange :: "'sv \<Rightarrow> 'st \<Rightarrow> 'st \<Rightarrow> real"
  computeFluidInPlace :: "'sv \<Rightarrow> 'st \<Rightarrow> 'sv"
  new_substepTimer :: "real \<Rightarrow> real \<Rightarrow> real \<Rightarrow> 'tm"
  timer_done :: "'tm \<Rightarrow> bool"
  currentStepLength :: "'tm \<Rightarrow> real"
  timer_advance :: "'tm \<Rightarrow> 'tm"
  provideTimeStepEstimate :: "'tm \<Rightarrow> real \<Rightarrow> 'tm"
  setLastStepFailed :: "'tm \<Rightarrow> bool \<Rightarrow> 'tm"
  simulationTimeElapsed :: "'tm \<Rightarrow> real"
  computeTimeStepSize :: "real \<Rightarrow> nat \<Rightarrow> real \<Rightarrow> real \<Rightarrow> real"
  report_add :: "SimulatorReport \<Rightarrow> SimulatorReport \<Rightarrow> SimulatorReport"
  writeTimeStep :: "'out \<Rightarrow> 'tm \<Rightarrow> 'st \<Rightarrow> 'ws \<Rightarrow> 'out"

text \<open>The data members of \<^verbatim>\<open>AdaptiveTimeStepping\<close> that \<^verbatim>\<open>stepImpl\<close> reads.\<close>

record AdaptiveTimeStepping =
  restart_factor :: real
  growth_factor :: real
  max_growth :: real
  max_time_step :: real
  solver_restart_max :: int
  suggested_next_timestep :: real
  full_timestep_initially :: bool
  timestep_after_event :: real
  use_newton_iteration :: bool

text \<open>
  The variables that live across the iterations of the sub-step loop: the two states
  passed by reference, the solver, the sub-step timer, the two checkpoints, the restart
  counter, the accumulated report, the member \<^verbatim>\<open>failureReport_\<close> and what the output
  writer has written.
\<close>

record ('st, 'ws, 'sv, 'tm, 'out) substep_vars =
  cur_state :: 'st
  cur_well_state :: 'ws
  cur_solver :: 'sv
  substepTimer :: 'tm
  last_state :: 'st
  last_well_state :: 'ws
  restarts :: int
  step_report :: SimulatorReport
  failureReport :: SimulatorReport
  written :: 'out

text \<open>
  The \<^verbatim>\<open>try\<close> block with its catch clauses: the sub-step report, or the exception that
  no clause catches, together with the solver and the states as \<^verbatim>\<open>solver.step\<close> left
  them and the accumulated report. After a normal return \<^verbatim>\<open>report += substepReport\<close>;
  in a catch clause \<^verbatim>\<open>substepReport += solver.failureReport()\<close> on the default report.
\<close>

definition attempt_substep ::
  "('st, 'ws, 'sv, 'tm, 'out) stepper_env \<Rightarrow> ('st, 'ws, 'sv, 'tm, 'out) substep_vars
     \<Rightarrow> exn + (SimulatorReport \<times> ('st, 'ws, 'sv, 'tm, 'out) substep_vars)" where
  "attempt_substep env v =
     (case solver_step env (cur_solver v) (substepTimer v) (cur_state v) (cur_well_state v) of
        (Inr substepReport, sv, st, ws) \<Rightarrow>
          Inr (substepReport,
               v\<lparr>cur_solver := sv, cur_state := st, cur_well_state := ws,
                 step_report := report_add env (step_report v) substepReport\<rparr>)
      | (Inl e, sv, st, ws) \<Rightarrow>
          if caught_in_substep e
          then Inr (report_add env default_report (solver_failureReport env sv),
                    v\<lparr>cur_solver := sv, cur_state := st, cur_well_state := ws\<rparr>)
          else Inl e)"

text \<open>The branch \<^verbatim>\<open>if( substepReport.converged )\<close>.\<close>

definition accept_substep ::
  "('st, 'ws, 'sv, 'tm, 'out) stepper_env \<Rightarrow> AdaptiveTimeStepping \<Rightarrow> bool \<Rightarrow> bool \<Rightarrow> real
     \<Rightarrow> SimulatorReport \<Rightarrow> ('st, 'ws, 'sv, 'tm, 'out) substep_vars
     \<Rightarrow> ('st, 'ws, 'sv, 'tm, 'out) substep_vars" where
  "accept_substep env ats has_writer has_fipnum dt substepReport v =
     (let timer1 = timer_advance env (substepTimer v);
          iterations = (if use_newton_iteration ats then total_newton_iterations substepReport
                        else total_linear_iterations substepReport);
          dtEstimate0 = computeTimeStepSize env dt iterations
                          (relativeChange env (cur_solver v) (last_state v) (cur_state v))
                          (simulationTimeElapsed env timer1);
          dtEstimate1 = min dtEstimate0 (max_growth ats * dt);
          dtEstimate = (if restarts v > 0 then min (growth_factor ats * dt) dtEstimate1 else dtEstimate1);
          restarts' = (if restarts v > 0 then 0 else restarts v);
          writes = (has_writer \<and> \<not> timer_done env timer1);
          cur_solver' = (if writes \<and> has_fipnum then computeFluidInPlace env (cur_solver v) (cur_state v) else cur_solver v);
          written' = (if writes then writeTimeStep env (written v) timer1 (cur_state v) (cur_well_state v) else written v);
          timer2 = provideTimeStepEstimate env timer1 dtEstimate
      in v\<lparr>cur_solver := cur_solver', written := written',
           last_state := cur_state v, last_well_state := cur_well_state v,
           restarts := restarts',
           step_report := (step_report v)\<lparr>converged := timer_done env timer2\<rparr>,
           substepTimer := setLastStepFailed env timer2 False\<rparr>)"

text \<open>
  The \<^verbatim>\<open>else\<close> branch, taken when the sub-step report is not converged. The throw is
  \<^verbatim>\<open>OPM_THROW_NOLOG(Opm::NumericalProblem, msg)\<close>, outside of the \<^verbatim>\<open>try\<close> block.
\<close>

definition reject_substep ::
  "('st, 'ws, 'sv, 'tm, 'out) stepper_env \<Rightarrow> AdaptiveTimeStepping \<Rightarrow> real
     \<Rightarrow> SimulatorReport \<Rightarrow> ('st, 'ws, 'sv, 'tm, 'out) substep_vars
     \<Rightarrow> exn + ('st, 'ws, 'sv, 'tm, 'out) substep_vars" where
  "reject_substep env ats dt substepReport v =
     (let timer1 = setLastStepFailed env (substepTimer v) True;
          failureReport' = report_add env (failureReport v) substepReport
      in if restarts v \<ge> solver_restart_max ats then Inl NumericalProblem
         else
           (let newTimeStep = restart_factor ats * dt;
                timer2 = provideTimeStepEstimate env timer1 newTimeStep
            in Inr (v\<lparr>substepTimer := timer2, failureReport := failureReport',
                      cur_state := last_state v, cur_well_state := last_well_state v,
                      restarts := restarts v + 1\<rparr>)))"

text \<open>One iteration of \<^verbatim>\<open>while( ! substepTimer.done() )\<close>.\<close>

definition substep ::
  "('st, 'ws, 'sv, 'tm, 'out) stepper_env \<Rightarrow> AdaptiveTimeStepping \<Rightarrow> bool \<Rightarrow> bool
     \<Rightarrow> ('st, 'ws, 'sv, 'tm, 'out) substep_vars
     \<Rightarrow> exn + ('st, 'ws, 'sv, 'tm, 'out) substep_vars" where
  "substep env ats has_writer has_fipnum v =
     (let dt = currentStepLength env (substepTimer v)
      in case attempt_substep env v of
           Inl e \<Rightarrow> Inl e
         | Inr (substepReport, v1) \<Rightarrow>
             if converged substepReport
             then Inr (accept_substep env ats has_writer has_fipnum dt substepReport v1)
             else reject_substep env ats dt substepReport v1)"

text \<open>
  The loop. Nothing in \<^verbatim>\<open>stepImpl\<close> bounds the number of converged sub-steps, so the
  embedding counts iterations down from a given bound and returns \<open>None\<close> when the bound
  is used up before the timer is done.
\<close>

fun substep_loop ::
  "nat \<Rightarrow> ('st, 'ws, 'sv, 'tm, 'out) stepper_env \<Rightarrow> AdaptiveTimeStepping \<Rightarrow> bool \<Rightarrow> bool
     \<Rightarrow> ('st, 'ws, 'sv, 'tm, 'out) substep_vars
     \<Rightarrow> (exn + ('st, 'ws, 'sv, 'tm, 'out) substep_vars) option" where
  "substep_loop 0 env ats has_writer has_fipnum v = None"
| "substep_loop (Suc n) env ats has_writer has_fipnum v =
     (if timer_done env (substepTimer v) then Some (Inr v)
      else case substep env ats has_writer has_fipnum v of
             Inl e \<Rightarrow> Some (Inl e)
           | Inr v' \<Rightarrow> substep_loop n env ats has_writer has_fipnum v')"

text \<open>
  The choice of the first sub-step length, the loop, and the value stored for the next
  report step. (\<^verbatim>\<open>std::isfinite\<close> holds of every real number, so the final guard of the
  C++ function never fires in the embedding.) The result holds the report, the two
  states, the solver, the output, the member \<^verbatim>\<open>failureReport_\<close> and the new
  \<^verbatim>\<open>suggested_next_timestep_\<close>.
\<close>

definition initial_suggestion :: "AdaptiveTimeStepping \<Rightarrow> real \<Rightarrow> bool \<Rightarrow> real" where
  "initial_suggestion ats timestep event =
     (let s0 = (if suggested_next_timestep ats < 0 then restart_factor ats * timestep
                else suggested_next_timestep ats);
          s1 = (if full_timestep_initially ats then timestep else s0)
      in if event \<and> timestep_after_event ats > 0 then timestep_after_event ats else s1)"

definition stepImpl ::
  "nat \<Rightarrow> ('st, 'ws, 'sv, 'tm, 'out) stepper_env \<Rightarrow> AdaptiveTimeStepping \<Rightarrow> real \<Rightarrow> 'sv \<Rightarrow> 'st \<Rightarrow> 'ws
     \<Rightarrow> bool \<Rightarrow> bool \<Rightarrow> bool \<Rightarrow> 'out
     \<Rightarrow> (exn + (('st, 'ws, 'sv, 'tm, 'out) substep_vars \<times> real)) option" where
  "stepImpl bound env ats timestep sv st ws event has_writer has_fipnum out =
     (let suggested = initial_suggestion ats timestep event;
          v0 = \<lparr>cur_state = st, cur_well_state = ws, cur_solver = sv,
                substepTimer = new_substepTimer env timestep suggested (max_time_step ats),
                last_state = st, last_well_state = ws, restarts = 0,
                step_report = default_report, failureReport = default_report, written = out\<rparr>
      in case substep_loop bound env ats has_writer has_fipnum v0 of
           None \<Rightarrow> None
         | Some (Inl e) \<Rightarrow> Some (Inl e)
         | Some (Inr v) \<Rightarrow> Some (Inr (v, currentStepLength env (substepTimer v))))"


subsection \<open>A solver that never converges\<close>




section \<open>\<^verbatim>\<open>StandardWellsDense::solveWellEq\<close>\<close>

text \<open>
  \<^verbatim>\<open>residual()\<close>: the well residual as one vector of \<open>numEq * nw\<close> entries, component by
  component; empty without active wells.
\<close>

definition residual :: "'g WellAssembly \<Rightarrow> StandardWellsDense \<Rightarrow> 'g WellModelState \<Rightarrow> real list" where
  "residual env swd ms =
     (if \<not> wells_active swd then []
      else
        (let nw = number_of_wells (wells swd)
         in fold (\<lambda>compIdx res.
                    fold (\<lambda>wellIdx res. res[wellIdx + nw * compIdx := resWell ms ! wellIdx ! compIdx])
                      [0..<nw] res)
              [0..<numComponents swd] (replicate (numEq env * nw) 0)))"

text \<open>
  The averages \<^verbatim>\<open>B_avg\<close> of \<^verbatim>\<open>getWellConvergence\<close>: the sum over the cells of \<open>1 / invB\<close> for
  every phase (and for the solvent), divided by \<^verbatim>\<open>global_nc_\<close>. The simulation runs on one
  process, so the interior cells of the grid are the cells \<open>0 .. global_nc_ - 1\<close> and the
  sum and the maximum over the processes change nothing.
\<close>

definition well_B_avg ::
  "BlackoilIndices \<Rightarrow> BlackoilModel \<Rightarrow> StandardWellsDense \<Rightarrow> (nat \<Rightarrow> IntensiveQuantities) \<Rightarrow> real list" where
  "well_B_avg ix m swd sim =
     (let np = number_of_phases (wells swd);
          B_sum =
            fold (\<lambda>cell_idx B.
                    (let B1 = fold (\<lambda>phaseIdx B.
                                      B[phaseIdx := B ! phaseIdx
                                          + 1 / fs_invB (sim cell_idx) (flowPhaseToEbosPhaseIdx ix phaseIdx)])
                                [0..<np] B
                     in if has_solvent m
                        then B1[solventSaturationIdx ix := B1 ! solventSaturationIdx ix
                                  + 1 / solventInverseFormationVolumeFactor (sim cell_idx)]
                        else B1))
              [0..<global_nc swd] (replicate (numComponents swd) 0)
      in map (\<lambda>bval. bval / real (global_nc swd)) B_sum)"

text \<open>
  \<^verbatim>\<open>getWellConvergence\<close>: the scaled maximum norms of the well residual against
  \<^verbatim>\<open>tolerance_wells_\<close>. \<open>nw\<close> is \<^verbatim>\<open>res.size() / numComp\<close> as in the source. A
  \<^verbatim>\<open>NumericalProblem\<close> is thrown for a phase whose residual exceeds
  \<^verbatim>\<open>max_residual_allowed_\<close> (the test for NaN before it never fires on reals). The
  iteration number only goes to the log.
\<close>

definition well_flux_residual ::
  "'g WellAssembly \<Rightarrow> BlackoilIndices \<Rightarrow> BlackoilModel \<Rightarrow> StandardWellsDense \<Rightarrow> (nat \<Rightarrow> IntensiveQuantities)
     \<Rightarrow> 'g WellModelState \<Rightarrow> real list" where
  "well_flux_residual env ix m swd sim ms =
     (let numComp = numComponents swd;
          B_avg = well_B_avg ix m swd sim;
          res = residual env swd ms;
          nw = length res div numComp;
          maxNormWell = map (\<lambda>compIdx. fold (\<lambda>w mx. max mx \<bar>res ! (nw * compIdx + w)\<bar>) [0..<nw] 0)
                          [0..<numComp]
      in map (\<lambda>compIdx. B_avg ! compIdx * maxNormWell ! compIdx) [0..<numComp])"

definition getWellConvergence ::
  "'g WellAssembly \<Rightarrow> BlackoilIndices \<Rightarrow> BlackoilModel \<Rightarrow> StandardWellsDense \<Rightarrow> (nat \<Rightarrow> IntensiveQuantities)
     \<Rightarrow> 'g WellModelState \<Rightarrow> nat \<Rightarrow> exn + bool" where
  "getWellConvergence env ix m swd sim ms iteration =
     (let residuals = well_flux_residual env ix m swd sim ms;
          converged_Well = fold (\<lambda>compIdx c. c \<and> residuals ! compIdx < tolerance_wells m)
                             [0..<numComponents swd] True
      in if list_ex (\<lambda>phaseIdx. residuals ! phaseIdx > max_residual_allowed m)
              [0..<number_of_phases (wells swd)]
         then Inl NumericalProblem
         else Inr converged_Well)"

text \<open>
  One pass through the body of the \<^verbatim>\<open>do\<close> loop of \<^verbatim>\<open>solveWellEq\<close>, without the counter:
  assembly with \<^verbatim>\<open>only_wells = true\<close> and the convergence test, and when that fails the
  update of the well state by \<open>invD * resWell\<close>, of the controls and of the well variables.
  The result says whether the pass ended in the \<^verbatim>\<open>break\<close>.
\<close>

definition well_iteration ::
  "'g WellAssembly \<Rightarrow> BlackoilIndices \<Rightarrow> BlackoilModel \<Rightarrow> 'g WellCollection \<Rightarrow> StandardWellsDense
     \<Rightarrow> (nat \<Rightarrow> IntensiveQuantities) \<Rightarrow> real \<Rightarrow> nat
     \<Rightarrow> WellState \<times> 'g WellModelState \<times> Linearization
     \<Rightarrow> exn + bool \<times> WellState \<times> 'g WellModelState \<times> Linearization" where
  "well_iteration env ix m coll swd sim dt it s =
     (case assembleWellEq env ix m swd sim dt True s of
        Inl e \<Rightarrow> Inl e
      | Inr (well_state1, ms1, lin1) \<Rightarrow>
          (case getWellConvergence env ix m swd sim ms1 it of
             Inl e \<Rightarrow> Inl e
           | Inr converged_wells \<Rightarrow>
               (let converged =
                      (if groupControlActive coll (wellCollection ms1)
                       then converged_wells
                            \<and> groupTargetConverged coll (wellCollection ms1) (wellRates well_state1)
                       else converged_wells)
                in if converged then Inr (True, well_state1, ms1, lin1)
                   else
                     (let nw = number_of_wells (wells swd);
                          well_state2 =
                            (if localWellsActive swd then
                               (let dx_well = diag_mv (invDuneD ms1) (resWell ms1)
                                                (replicate nw (replicate (numWellEq swd) 0))
                                in updateWellState ix m swd (well_perforation_densities ms1) (ctrls ms1)
                                     dx_well well_state1)
                             else well_state1)
                      in if wells_active swd then
                           (case updateWellControls ix m coll swd (well_perforation_densities ms1)
                                   (well_state2, ctrls ms1, wellCollection ms1) of
                              (well_state3, cs, g) \<Rightarrow>
                                Inr (False, well_state3,
                                     ms1\<lparr>ctrls := cs, wellCollection := g,
                                         wellVariables := setWellVariables swd well_state3 (wellVariables ms1)\<rparr>,
                                     lin1))
                         else Inr (False, well_state2, ms1, lin1)))))"

text \<open>
  The loop \<^verbatim>\<open>do { ... ++it; ... } while (it < 15)\<close> from the value \<open>it\<close> of the counter on. The
  result is \<^verbatim>\<open>converged\<close>, the final counter and the state.
\<close>

function solveWellEq_loop ::
  "'g WellAssembly \<Rightarrow> BlackoilIndices \<Rightarrow> BlackoilModel \<Rightarrow> 'g WellCollection \<Rightarrow> StandardWellsDense
     \<Rightarrow> (nat \<Rightarrow> IntensiveQuantities) \<Rightarrow> real \<Rightarrow> nat
     \<Rightarrow> WellState \<times> 'g WellModelState \<times> Linearization
     \<Rightarrow> exn + bool \<times> nat \<times> WellState \<times> 'g WellModelState \<times> Linearization" where
  "solveWellEq_loop env ix m coll swd sim dt it s =
     (case well_iteration env ix m coll swd sim dt it s of
        Inl e \<Rightarrow> Inl e
      | Inr (is_converged, s') \<Rightarrow>
          if is_converged then Inr (True, it, s')
          else if it + 1 < 15 then solveWellEq_loop env ix m coll swd sim dt (it + 1) s'
          else Inr (False, it + 1, s'))"
  by pat_completeness auto
termination
  by (relation "measure (\<lambda>(env, ix, m, coll, swd, sim, dt, it, s). 15 - it)") auto

text \<open>
  \<^verbatim>\<open>solveWellEq(ebosSimulator, dt, well_state)\<close>: the loop from \<open>it = 0\<close>; without convergence
  the copy \<^verbatim>\<open>well_state0\<close> is put back and the current control of every well is set from it.
  The report carries \<^verbatim>\<open>converged\<close> and the counter.
\<close>

definition solveWellEq ::
  "'g WellAssembly \<Rightarrow> BlackoilIndices \<Rightarrow> BlackoilModel \<Rightarrow> 'g WellCollection \<Rightarrow> StandardWellsDense
     \<Rightarrow> (nat \<Rightarrow> IntensiveQuantities) \<Rightarrow> real
     \<Rightarrow> WellState \<times> 'g WellModelState \<times> Linearization
     \<Rightarrow> exn + SimulatorReport \<times> WellState \<times> 'g WellModelState \<times> Linearization" where
  "solveWellEq env ix m coll swd sim dt s =
     (case s of (well_state, ms, lin) \<Rightarrow>
        (let nw = number_of_wells (wells swd);
             well_state0 = well_state
         in case solveWellEq_loop env ix m coll swd sim dt 0 (well_state, ms, lin) of
              Inl e \<Rightarrow> Inl e
            | Inr (is_converged, it, well_state1, ms1, lin1) \<Rightarrow>
                (let (well_state2, ms2) =
                       (if \<not> is_converged then
                          (well_state0,
                           ms1\<lparr>ctrls := fold (\<lambda>w cs. cs[w := well_controls_set_current (cs ! w)
                                                                 (currentControls well_state0 ! w)])
                                           [0..<nw] (ctrls ms1)\<rparr>)
                        else (well_state1, ms1))
                 in Inr (default_report\<lparr>converged := is_converged, total_well_iterations := it\<rparr>,
                         well_state2, ms2, lin1))))"

section \<open>A well system to iterate on\<close>

text \<open>
  The surroundings of the two wells for the assembly: three reservoir equations, unit
  mobilities and efficiency factors, no polymer, the inversion by the adjugate, and
  derivatives that make every diagonal block the unit block (\<open>-1\<close> from the perforation
  rate and \<open>2\<close> from \<^verbatim>\<open>resWell_loc\<close> on the diagonal). The linearisation of the nine cells is
  zero.
\<close>

definition example_assembly :: "unit WellAssembly" where
  "example_assembly = \<lparr>numEq = 3, pressureSwitchIdx = 1, waterSaturationIdx = 0, compositionSwitchIdx = 2,
     getMobility = (\<lambda>w perf cell_idx. Inr [1, 1, 1]),
     well_perforation_efficiency_factors = [1, 1],
     polymer_factor = (\<lambda>w cell_idx. 0),
     block_invert = adjugate_invert,
     cq_s_derivative = (\<lambda>ms w perf componentIdx i. if i = 3 + componentIdx then 1 else 0),
     resWell_loc_derivative = (\<lambda>ms dt w componentIdx i. if i = 3 + componentIdx then 2 else 0),
     cq_s_poly_derivative = (\<lambda>ms w perf i. 0)\<rparr>"

definition example_lin :: Linearization where
  "example_lin = \<lparr>ebosJac = replicate 9 [[0, 0, 0], [0, 0, 0], [0, 0, 0]],
                   ebosResid = replicate 9 [0, 0, 0]\<rparr>"

section \<open>Properties of \<^verbatim>\<open>updateState\<close>\<close>

subsection \<open>Auxiliary facts\<close>




lemma updateCell_before_switch:
  "updateCell ix m cell_idx dxc c =
     (if hydroCarbonState c = InvalidHydroCarbonState then Inl LogicError
      else if active_gas m \<and> active_oil m
        then switchPrimaryVariables m cell_idx (hydroCarbonState c) (cell_before_switch ix m dxc c)
        else Inr (choppedCell m (dxc ! flowPhaseToEbosCompIdx ix 0) (raw_dsw ix m dxc) (cell_dsg ix m dxc c)
               (raw_dss ix m dxc) (raw_dc ix m dxc) c))"
  by (cases "hydroCarbonState c")
     (simp_all add: updateCell_def cell_before_switch_def cell_dsg_def Let_def choppedCell_def updatedRatios_def)

lemma before_switch_fields:
  assumes "hydroCarbonState c \<noteq> InvalidHydroCarbonState"
  shows "sw (cell_before_switch ix m dxc c) =
           (if active_water m then sw c - cell_step ix m dxc c * raw_dsw ix m dxc else sw c)"
    and "sg (cell_before_switch ix m dxc c) =
           (if active_gas m then sg c - cell_step ix m dxc c * cell_dsg ix m dxc c else sg c)"
    and "ssol (cell_before_switch ix m dxc c) =
           (if has_solvent m then ssol c - cell_step ix m dxc c * raw_dss ix m dxc else ssol c)"
    and "so (cell_before_switch ix m dxc c) =
           so c - cell_step ix m dxc c * (((0 - raw_dsw ix m dxc) - cell_dsg ix m dxc c) - raw_dss ix m dxc)"
    and "pressure (cell_before_switch ix m dxc c) =
           updated_pressure (dp_max_rel m) (dxc ! flowPhaseToEbosCompIdx ix 0) (pressure c)"
    and "hydroCarbonState (cell_before_switch ix m dxc c) = hydroCarbonState c"
    and "temperature (cell_before_switch ix m dxc c) = temperature c"
  using assms
  by (cases "hydroCarbonState c";
      simp add: cell_before_switch_def cell_dsg_def cell_step_def Let_def choppedCell_def updatedRatios_def)+

lemma switch_keeps:
  assumes "switchPrimaryVariables m cell_idx (hydroCarbonState b) b = Inr c'"
  shows "sw c' = sw b" and "ssol c' = ssol b" and "pressure c' = pressure b"
    and "hydroCarbonState c' = hydroCarbonState b \<Longrightarrow> sg c' = sg b \<and> so c' = so b"
  using assms
  by (cases "hydroCarbonState b";
      auto simp: switchGasAndOil_def switchOilOnly_def switchGasOnly_def Let_def split: if_splits)+


lemma updateCells_nth:
  "updateCells ix m k dx cs = Inr cs' \<Longrightarrow>
     length cs' = length cs \<and>
     (\<forall>i < length cs. updateCell ix m (k + i) (dx ! (k + i)) (cs ! i) = Inr (cs' ! i))"
proof (induction cs arbitrary: k cs')
  case Nil
  then show ?case by simp
next
  case (Cons c cs)
  from Cons.prems obtain c1 cs1 where
    c1: "updateCell ix m k (dx ! k) c = Inr c1" and
    cs1: "updateCells ix m (Suc k) dx cs = Inr cs1" and
    eq: "cs' = c1 # cs1"
    by (auto split: sum.splits)
  from Cons.IH[OF cs1] have len: "length cs1 = length cs"
    and nth: "\<And>i. i < length cs \<Longrightarrow> updateCell ix m (Suc k + i) (dx ! (Suc k + i)) (cs ! i) = Inr (cs1 ! i)"
    by auto
  show ?case
  proof (intro conjI allI impI)
    show "length cs' = length (c # cs)" using eq len by simp
  next
    fix i assume "i < length (c # cs)"
    then show "updateCell ix m (k + i) (dx ! (k + i)) ((c # cs) ! i) = Inr (cs' ! i)"
      using c1 nth eq by (cases i) auto
  qed
qed

lemma updateState_nth:
  assumes "updateState ix m dx reservoir_state = Inr reservoir_state'" and "i < length reservoir_state"
  shows "updateCell ix m i (dx ! i) (reservoir_state ! i) = Inr (reservoir_state' ! i)"
  using updateCells_nth[of ix m 0 dx reservoir_state reservoir_state'] assms
  by (simp add: updateState_def)


lemma oil_only_before_switch:
  assumes "hydroCarbonState c = OilOnly"
  shows "gasoilratio (cell_before_switch ix m dxc c) =
           (if has_disgas m then max (gasoilratio c - raw_dxvar ix m dxc) 0 else gasoilratio c)"
    and "sg (cell_before_switch ix m dxc c) = sg c"
    and "so (cell_before_switch ix m dxc c) =
           so c + cell_step ix m dxc c * (raw_dsw ix m dxc + raw_dss ix m dxc)"
    and "temperature (cell_before_switch ix m dxc c) = temperature c"
    and "hydroCarbonState (cell_before_switch ix m dxc c) = OilOnly"
proof -
  have v: "hydroCarbonState c \<noteq> InvalidHydroCarbonState" using assms by simp
  note bf = before_switch_fields[OF v, of ix m dxc]
  have dsg0: "cell_dsg ix m dxc c = 0" using assms by (simp add: cell_dsg_def)
  show "gasoilratio (cell_before_switch ix m dxc c) =
           (if has_disgas m then max (gasoilratio c - raw_dxvar ix m dxc) 0 else gasoilratio c)"
    using assms by (simp add: cell_before_switch_def updatedRatios_def choppedCell_def Let_def)
  show "sg (cell_before_switch ix m dxc c) = sg c" by (simp add: bf(2) dsg0)
  show "so (cell_before_switch ix m dxc c) =
          so c + cell_step ix m dxc c * (raw_dsw ix m dxc + raw_dss ix m dxc)"
    by (simp add: bf(4) dsg0 algebra_simps)
  show "temperature (cell_before_switch ix m dxc c) = temperature c" by (rule bf(7))
  show "hydroCarbonState (cell_before_switch ix m dxc c) = OilOnly" using assms by (simp add: bf(6))
qed

lemma oil_only_after_switch:
  assumes "updateCell ix m cell_idx dxc c = Inr c'"
    and "active_gas m" "active_oil m" "hydroCarbonState c = OilOnly"
  shows "c' = switchOilOnly m cell_idx (cell_before_switch ix m dxc c)"
    and "sw (cell_before_switch ix m dxc c) = sw c'"
    and "pressure (cell_before_switch ix m dxc c) = pressure c'"
proof -
  have v: "hydroCarbonState c \<noteq> InvalidHydroCarbonState" using assms(4) by simp
  note bf = before_switch_fields[OF v, of ix m dxc]
  have sp: "switchPrimaryVariables m cell_idx (hydroCarbonState (cell_before_switch ix m dxc c))
              (cell_before_switch ix m dxc c) = Inr c'"
    using assms by (simp add: updateCell_before_switch bf(6))
  show "c' = switchOilOnly m cell_idx (cell_before_switch ix m dxc c)"
    using assms by (simp add: updateCell_before_switch)
  show "sw (cell_before_switch ix m dxc c) = sw c'"
    by (rule switch_keeps(1)[OF sp, symmetric])
  show "pressure (cell_before_switch ix m dxc c) = pressure c'"
    by (rule switch_keeps(3)[OF sp, symmetric])
qed



subsection \<open>The Appleyard chop\<close>





subsection \<open>The transition from oil-only to gas-and-oil\<close>

text \<open>
  C9 (amended). Let gas and oil be active and let a cell be in state \<open>OilOnly\<close> with a
  water saturation, after the update, not above \<open>1 - epsilon\<close>. With \<open>rs_updated\<close> the
  dissolved-gas ratio after the Newton update (floored at zero) and \<open>rsSat\<close> its saturated
  value at the updated pressure: if \<open>rs_updated > rsSat * (1 + epsilon)\<close> the call leaves
  the cell in state \<open>GasAndOil\<close> with \<open>sg = epsilon\<close>, the oil saturation reduced by
  \<open>epsilon\<close> and \<open>rs = rsSat\<close>; otherwise the cell stays \<open>OilOnly\<close> and keeps \<open>rs_updated\<close>.
\<close>

theorem updateState_oil_only_oversaturation:
  assumes "updateState ix m dx reservoir_state = Inr reservoir_state'"
    and "i < length reservoir_state"
    and "active_gas m" and "active_oil m"
    and "hydroCarbonState (reservoir_state ! i) = OilOnly"
    and "\<not> sw (reservoir_state' ! i) > 1 - epsilon"
  shows
    "(let c = reservoir_state ! i; c' = reservoir_state' ! i; dxc = dx ! i;
          rs_updated = (if has_disgas m then max (gasoilratio c - raw_dxvar ix m dxc) 0 else gasoilratio c);
          rsSat = saturatedGasDissolutionFactor m (pvtRegionIndex m i) (temperature c) (pressure c');
          so_chopped = so c + cell_step ix m dxc c * (raw_dsw ix m dxc + raw_dss ix m dxc)
      in (rs_updated > rsSat * (1 + epsilon) \<longrightarrow>
            hydroCarbonState c' = GasAndOil \<and> sg c' = epsilon \<and> so c' = so_chopped - epsilon
          \<and> gasoilratio c' = rsSat)
       \<and> (\<not> rs_updated > rsSat * (1 + epsilon) \<longrightarrow>
            hydroCarbonState c' = OilOnly \<and> sg c' = sg c \<and> so c' = so_chopped
          \<and> gasoilratio c' = rs_updated))"
proof -
  define c where "c = reservoir_state ! i"
  define c' where "c' = reservoir_state' ! i"
  define dxc where "dxc = dx ! i"
  define b where "b = cell_before_switch ix m dxc c"
  have upd: "updateCell ix m i dxc c = Inr c'"
    using updateState_nth[OF assms(1,2)] by (simp add: c_def c'_def dxc_def)
  have tag: "hydroCarbonState c = OilOnly" using assms(5) by (simp add: c_def)
  note s = oil_only_before_switch[OF tag, of ix m dxc, folded b_def]
  note a = oil_only_after_switch[OF upd assms(3,4) tag, folded b_def]
  have nw: "\<not> sw b > 1 - epsilon" using assms(6) by (simp add: a(2) c'_def)
  have c'_eq: "c' = (if gasoilratio b >
                     saturatedGasDissolutionFactor m (pvtRegionIndex m i) (temperature b) (pressure b) * (1 + epsilon)
                   then b\<lparr>hydroCarbonState := GasAndOil, sg := epsilon, so := so b - epsilon,
                      gasoilratio := saturatedGasDissolutionFactor m (pvtRegionIndex m i) (temperature b) (pressure b)\<rparr>
                   else b)"
    using nw by (simp add: a(1) switchOilOnly_def Let_def)
  show ?thesis
  proof (cases "gasoilratio b >
      saturatedGasDissolutionFactor m (pvtRegionIndex m i) (temperature b) (pressure b) * (1 + epsilon)")
    case True
    then have "c' = b\<lparr>hydroCarbonState := GasAndOil, sg := epsilon, so := so b - epsilon,
        gasoilratio := saturatedGasDissolutionFactor m (pvtRegionIndex m i) (temperature b) (pressure b)\<rparr>"
      using c'_eq by simp
    then have "hydroCarbonState c' = GasAndOil" "sg c' = epsilon" "so c' = so b - epsilon"
      "gasoilratio c' = saturatedGasDissolutionFactor m (pvtRegionIndex m i) (temperature b) (pressure b)"
      by simp_all
    then show ?thesis
      unfolding Let_def c_def[symmetric] c'_def[symmetric] dxc_def[symmetric]
      using True s(1,3,4) a(3) by simp
  next
    case False
    then have "c' = b" using c'_eq by simp
    then have "hydroCarbonState c' = hydroCarbonState b" "sg c' = sg b" "so c' = so b"
      "gasoilratio c' = gasoilratio b"
      by simp_all
    then show ?thesis
      unfolding Let_def c_def[symmetric] c'_def[symmetric] dxc_def[symmetric]
      using False s a(3) by simp
  qed
qed



theorem updateState_oil_only_oversaturation_witness:
  "updateState ebos_indices example_model [[0, 0, 0]] [oversaturated_cell] = Inr [oversaturated_cell_updated]
   \<and> (0::nat) < length [oversaturated_cell]
   \<and> active_gas example_model \<and> active_oil example_model
   \<and> hydroCarbonState oversaturated_cell = OilOnly
   \<and> \<not> sw oversaturated_cell_updated > 1 - epsilon
   \<and> hydroCarbonState oversaturated_cell_updated = GasAndOil
   \<and> sg oversaturated_cell_updated = epsilon
   \<and> gasoilratio oversaturated_cell_updated = 1"
proof -
  have h1: "updateState ebos_indices example_model [[0, 0, 0]] [oversaturated_cell] = Inr [oversaturated_cell_updated]"
    by code_simp
  have h2: "(0::nat) < length [oversaturated_cell]" by simp
  have h3: "active_gas example_model" and h4: "active_oil example_model"
    by (simp_all add: example_model_def)
  have h5: "hydroCarbonState ([oversaturated_cell] ! 0) = OilOnly"
    by (simp add: oversaturated_cell_def)
  have h6: "\<not> sw ([oversaturated_cell_updated] ! 0) > 1 - epsilon"
    by (simp add: oversaturated_cell_updated_def epsilon_def)
  have over: "(if has_disgas example_model
                then max (gasoilratio oversaturated_cell - raw_dxvar ebos_indices example_model [0, 0, 0]) 0
                else gasoilratio oversaturated_cell)
              > saturatedGasDissolutionFactor example_model (pvtRegionIndex example_model 0)
                  (temperature oversaturated_cell) (pressure oversaturated_cell_updated) * (1 + epsilon)"
    by code_simp
  from updateState_oil_only_oversaturation[OF h1 h2 h3 h4 h5 h6] over
  have "hydroCarbonState oversaturated_cell_updated = GasAndOil \<and> sg oversaturated_cell_updated = epsilon
      \<and> gasoilratio oversaturated_cell_updated =
          saturatedGasDissolutionFactor example_model (pvtRegionIndex example_model 0)
                  (temperature oversaturated_cell) (pressure oversaturated_cell_updated)"
    by (simp add: Let_def)
  moreover have "saturatedGasDissolutionFactor example_model (pvtRegionIndex example_model 0)
                  (temperature oversaturated_cell) (pressure oversaturated_cell_updated) = 1"
    by (simp add: example_model_def)
  ultimately show ?thesis using h1 h3 h4 h5 h6 by simp
qed

text \<open>
  C9 as stated does not hold: the oil-only cell below has \<open>rs = 1.00005\<close>, above the
  saturated value \<open>1\<close>, and water saturation \<open>0.3\<close>; the zero update leaves the cell as
  it is, in state \<open>OilOnly\<close>, because \<open>rs\<close> does not exceed \<open>rsSat * (1 + epsilon)\<close>.
\<close>

theorem updateState_oil_only_counterexample:
  "updateState ebos_indices example_model [[0, 0, 0]] [oil_only_cell] = Inr [oil_only_cell]
   \<and> active_gas example_model \<and> active_oil example_model \<and> has_disgas example_model
   \<and> hydroCarbonState oil_only_cell = OilOnly
   \<and> \<not> sw oil_only_cell > 1 - epsilon
   \<and> gasoilratio oil_only_cell >
        saturatedGasDissolutionFactor example_model (pvtRegionIndex example_model 0)
          (temperature oil_only_cell) (pressure oil_only_cell)"
  by code_simp

section \<open>Properties of \<^verbatim>\<open>updateWellState\<close>\<close>

subsection \<open>Auxiliary facts\<close>

lemma initialFractions_ok:
  assumes "distinct [Water ix, Oil ix, Gas ix]"
  shows "fractions_ok ix m (initialFractions ix m nw w ws)"
  using assms by (auto simp: fractions_ok_def initialFractions_def Let_def)

lemma div_sum_one:
  fixes a b c d :: real
  assumes "a + b + c + d = 1" and "d < 0"
  shows "a / (1 - d) + b / (1 - d) + c / (1 - d) = 1"
proof -
  have "1 - d \<noteq> 0" using assms(2) by simp
  moreover have "a + b + c = 1 - d" using assms(1) by simp
  ultimately show ?thesis by (simp add: add_divide_distrib[symmetric])
qed

lemma renormalizeWater_ok:
  assumes d: "distinct [Water ix, Oil ix, Gas ix]" and ok: "fractions_ok ix m FS"
  shows "fractions_ok ix m (renormalizeWater ix m FS)"
proof -
  obtain F Fs where FS: "FS = (F, Fs)" by (cases FS)
  show ?thesis
  proof (cases "active_water m \<and> F (Water ix) < 0")
    case False
    then show ?thesis using ok by (auto simp: renormalizeWater_def FS)
  next
    case True
    from ok have s: "F (Gas ix) + Fs + F (Oil ix) + F (Water ix) = 1"
      and ig: "\<not> active_gas m \<longrightarrow> F (Gas ix) = 0" and isv: "\<not> has_solvent m \<longrightarrow> Fs = 0"
      by (auto simp: fractions_ok_def FS)
    from div_sum_one[OF s] True
    have e: "F (Gas ix) / (1 - F (Water ix)) + Fs / (1 - F (Water ix)) + F (Oil ix) / (1 - F (Water ix)) = 1"
      by simp
    show ?thesis
      using True d e ig isv
      by (auto simp: renormalizeWater_def FS fractions_ok_def Let_def)
  qed
qed

lemma renormalizeGas_ok:
  assumes d: "distinct [Water ix, Oil ix, Gas ix]" and ok: "fractions_ok ix m FS"
  shows "fractions_ok ix m (renormalizeGas ix m FS)"
proof -
  obtain F Fs where FS: "FS = (F, Fs)" by (cases FS)
  show ?thesis
  proof (cases "active_gas m \<and> F (Gas ix) < 0")
    case False
    then show ?thesis using ok by (auto simp: renormalizeGas_def FS)
  next
    case True
    from ok have s: "F (Water ix) + Fs + F (Oil ix) + F (Gas ix) = 1"
      and iw: "\<not> active_water m \<longrightarrow> F (Water ix) = 0" and isv: "\<not> has_solvent m \<longrightarrow> Fs = 0"
      by (auto simp: fractions_ok_def FS)
    from div_sum_one[OF s] True
    have e: "F (Water ix) / (1 - F (Gas ix)) + Fs / (1 - F (Gas ix)) + F (Oil ix) / (1 - F (Gas ix)) = 1"
      by simp
    show ?thesis
      using True d e iw isv
      by (auto simp: renormalizeGas_def FS fractions_ok_def Let_def)
  qed
qed

lemma renormalizeOil_ok:
  assumes d: "distinct [Water ix, Oil ix, Gas ix]" and ok: "fractions_ok ix m FS"
  shows "fractions_ok ix m (renormalizeOil ix m FS)"
proof -
  obtain F Fs where FS: "FS = (F, Fs)" by (cases FS)
  show ?thesis
  proof (cases "F (Oil ix) < 0")
    case False
    then show ?thesis using ok by (auto simp: renormalizeOil_def FS)
  next
    case True
    from ok have s: "F (Water ix) + F (Gas ix) + Fs + F (Oil ix) = 1"
      and iw: "\<not> active_water m \<longrightarrow> F (Water ix) = 0" and ig: "\<not> active_gas m \<longrightarrow> F (Gas ix) = 0"
      and isv: "\<not> has_solvent m \<longrightarrow> Fs = 0"
      by (auto simp: fractions_ok_def FS)
    from div_sum_one[OF s] True
    have e: "F (Water ix) / (1 - F (Oil ix)) + F (Gas ix) / (1 - F (Oil ix)) + Fs / (1 - F (Oil ix)) = 1"
      by simp
    show ?thesis
      using True d e iw ig isv
      by (auto simp: renormalizeOil_def FS fractions_ok_def Let_def)
  qed
qed

lemma normalizedFractions_ok:
  assumes "distinct [Water ix, Oil ix, Gas ix]"
  shows "fractions_ok ix m (normalizedFractions ix m nw w ws)"
  unfolding normalizedFractions_def
  by (intro renormalizeOil_ok renormalizeGas_ok renormalizeWater_ok initialFractions_ok assms)


lemma well_index_eq:
  assumes "w < nw" and "w' < nw"
  shows "(K * nw + w = K' * nw + w') = (K = K' \<and> w = (w'::nat))"
proof
  assume e: "K * nw + w = K' * nw + w'"
  have "(K * nw + w) div nw = K" "(K * nw + w) mod nw = w" using assms by auto
  moreover have "(K' * nw + w') div nw = K'" "(K' * nw + w') mod nw = w'" using assms by auto
  ultimately show "K = K' \<and> w = w'" using e by metis
qed auto

lemma updateFirstVariable_solutions:
  "\<exists>v. wellSolutions (updateFirstVariable ix m swd densities old dw w ctrl F st) =
         (wellSolutions st)[number_of_wells (wells swd) * XvarWell ix + w := v]"
  by (auto simp: updateFirstVariable_def Let_def split: WellType.splits)

lemma updateFractionVariables_length:
  "length (updateFractionVariables ix m nw old dw w ws) = length ws"
  by (simp add: updateFractionVariables_def Let_def)

lemma storeFractions_length:
  "length (storeFractions ix m nw w FS ws) = length ws"
  by (cases FS) (simp add: storeFractions_def Let_def)

lemma updateWell_solutions:
  "\<exists>v. wellSolutions (updateWell ix m swd densities cs old dwells w st) =
     (storeFractions ix m (number_of_wells (wells swd)) w
        (normalizedFractions ix m (number_of_wells (wells swd)) w
           (updateFractionVariables ix m (number_of_wells (wells swd)) old (dwells ! w) w (wellSolutions st)))
        (updateFractionVariables ix m (number_of_wells (wells swd)) old (dwells ! w) w (wellSolutions st)))
     [number_of_wells (wells swd) * XvarWell ix + w := v]"
proof -
  define ws1 where "ws1 = updateFractionVariables ix m (number_of_wells (wells swd)) old (dwells ! w) w (wellSolutions st)"
  define FS where "FS = normalizedFractions ix m (number_of_wells (wells swd)) w ws1"
  define ws2 where "ws2 = storeFractions ix m (number_of_wells (wells swd)) w FS ws1"
  define ctrl where "ctrl = well_controls_iget (cs ! w) (currentControls st ! w)"
  have u: "updateWell ix m swd densities cs old dwells w st =
        updateFirstVariable ix m swd densities old (dwells ! w) w ctrl
          (scaledFractions ix m (number_of_phases (wells swd)) ctrl FS) (st\<lparr>wellSolutions := ws2\<rparr>)"
    by (simp add: updateWell_def Let_def ws1_def FS_def ws2_def ctrl_def)
  from updateFirstVariable_solutions[of ix m swd densities old "dwells ! w" w ctrl
         "scaledFractions ix m (number_of_phases (wells swd)) ctrl FS" "st\<lparr>wellSolutions := ws2\<rparr>"]
  obtain v where "wellSolutions (updateWell ix m swd densities cs old dwells w st) =
      ws2[number_of_wells (wells swd) * XvarWell ix + w := v]"
    unfolding u by auto
  then show ?thesis unfolding ws2_def FS_def ws1_def by blast
qed

lemma updateWell_length:
  "length (wellSolutions (updateWell ix m swd densities cs old dwells w st)) = length (wellSolutions st)"
  using updateWell_solutions[of ix m swd densities cs old dwells w st]
  by (auto simp: storeFractions_length updateFractionVariables_length)

lemma updateThp_solutions:
  "wellSolutions (updateThp ix m swd densities cs w st) = wellSolutions st"
  by (auto simp: updateThp_def Let_def split: option.splits prod.splits WellType.splits)

lemma fold_updateThp_solutions:
  "wellSolutions (fold (updateThp ix m swd densities cs) xs st) = wellSolutions st"
  by (induction xs arbitrary: st) (simp_all add: updateThp_solutions)

lemma updateFractionVariables_other:
  assumes "w < nw" "w' < nw" "w \<noteq> w'"
  shows "updateFractionVariables ix m nw old dw w' ws ! (K * nw + w) = ws ! (K * nw + w)"
  using assms by (simp add: updateFractionVariables_def Let_def well_index_eq)

lemma storeFractions_other:
  assumes "w < nw" "w' < nw" "w \<noteq> w'"
  shows "storeFractions ix m nw w' FS ws ! (K * nw + w) = ws ! (K * nw + w)"
  using assms by (cases FS) (simp add: storeFractions_def Let_def well_index_eq)

lemma updateWell_other:
  assumes "w < number_of_wells (wells swd)" "w' < number_of_wells (wells swd)" "w \<noteq> w'"
  shows "wellSolutions (updateWell ix m swd densities cs old dwells w' st) ! (K * number_of_wells (wells swd) + w)
           = wellSolutions st ! (K * number_of_wells (wells swd) + w)"
proof -
  have ne: "K * number_of_wells (wells swd) + w \<noteq> number_of_wells (wells swd) * XvarWell ix + w'"
    using well_index_eq[OF assms(1,2), of K "XvarWell ix"] assms(3) by (simp add: mult.commute)
  from updateWell_solutions[of ix m swd densities cs old dwells w' st] ne
  show ?thesis
    by (auto simp: storeFractions_other[OF assms] updateFractionVariables_other[OF assms])
qed

lemma fold_updateWell_other:
  assumes "w < number_of_wells (wells swd)" and "\<forall>w' \<in> set xs. w' < number_of_wells (wells swd) \<and> w' \<noteq> w"
  shows "wellSolutions (fold (updateWell ix m swd densities cs old dwells) xs st) ! (K * number_of_wells (wells swd) + w)
           = wellSolutions st ! (K * number_of_wells (wells swd) + w)"
  using assms(2)
proof (induction xs arbitrary: st)
  case Nil
  then show ?case by simp
next
  case (Cons x xs)
  then have "x < number_of_wells (wells swd)" "w \<noteq> x" by auto
  from updateWell_other[OF assms(1) this] Cons show ?case by simp
qed

lemma fold_updateWell_length:
  "length (wellSolutions (fold (updateWell ix m swd densities cs old dwells) xs st)) = length (wellSolutions st)"
  by (induction xs arbitrary: st) (simp_all add: updateWell_length)


lemma well_index_less:
  assumes "w < nw" and "Suc K * nw \<le> L"
  shows "K * nw + w < (L::nat)"
proof -
  have "K * nw + w < K * nw + nw" using assms(1) by simp
  also have "\<dots> = Suc K * nw" by simp
  finally show ?thesis using assms(2) by simp
qed

lemma updateFractionVariables_own:
  assumes w: "w < nw"
    and d: "distinct [WFrac ix, GFrac ix, SFrac ix]"
    and r: "fraction_variables_fit ix m nw (length ws)"
  shows "active_water m \<Longrightarrow> updateFractionVariables ix m nw old dw w ws ! (WFrac ix * nw + w)
           = old ! (WFrac ix * nw + w) - limited (dw ! WFrac ix) (dWellFractionMax m)"
    and "active_gas m \<Longrightarrow> updateFractionVariables ix m nw old dw w ws ! (GFrac ix * nw + w)
           = old ! (GFrac ix * nw + w) - limited (dw ! GFrac ix) (dWellFractionMax m)"
    and "has_solvent m \<Longrightarrow> updateFractionVariables ix m nw old dw w ws ! (SFrac ix * nw + w)
           = old ! (SFrac ix * nw + w) - limited (dw ! SFrac ix) (dWellFractionMax m)"
proof -
  have lt: "active_water m \<Longrightarrow> WFrac ix * nw + w < length ws"
    "active_gas m \<Longrightarrow> GFrac ix * nw + w < length ws"
    "has_solvent m \<Longrightarrow> SFrac ix * nw + w < length ws"
    using r well_index_less[OF w] by (auto simp: fraction_variables_fit_def)
  have ne: "WFrac ix * nw + w \<noteq> GFrac ix * nw + w" "WFrac ix * nw + w \<noteq> SFrac ix * nw + w"
    "GFrac ix * nw + w \<noteq> SFrac ix * nw + w"
    using d well_index_eq[OF w w] by auto
  show "active_water m \<Longrightarrow> updateFractionVariables ix m nw old dw w ws ! (WFrac ix * nw + w)
           = old ! (WFrac ix * nw + w) - limited (dw ! WFrac ix) (dWellFractionMax m)"
    using lt ne by (simp add: updateFractionVariables_def Let_def)
  show "active_gas m \<Longrightarrow> updateFractionVariables ix m nw old dw w ws ! (GFrac ix * nw + w)
           = old ! (GFrac ix * nw + w) - limited (dw ! GFrac ix) (dWellFractionMax m)"
    using lt ne by (simp add: updateFractionVariables_def Let_def)
  show "has_solvent m \<Longrightarrow> updateFractionVariables ix m nw old dw w ws ! (SFrac ix * nw + w)
           = old ! (SFrac ix * nw + w) - limited (dw ! SFrac ix) (dWellFractionMax m)"
    using lt ne by (simp add: updateFractionVariables_def Let_def)
qed

lemma initialFractions_cong:
  assumes "active_water m \<Longrightarrow> ws ! (WFrac ix * nw + w) = ws' ! (WFrac ix * nw + w)"
    and "active_gas m \<Longrightarrow> ws ! (GFrac ix * nw + w) = ws' ! (GFrac ix * nw + w)"
    and "has_solvent m \<Longrightarrow> ws ! (SFrac ix * nw + w) = ws' ! (SFrac ix * nw + w)"
  shows "initialFractions ix m nw w ws = initialFractions ix m nw w ws'"
  using assms by (simp add: initialFractions_def Let_def)

lemma normalizedFractions_independent:
  assumes w: "w < nw"
    and d: "distinct [WFrac ix, GFrac ix, SFrac ix]"
    and r: "fraction_variables_fit ix m nw (length old)"
    and l: "length ws = length old"
  shows "normalizedFractions ix m nw w (updateFractionVariables ix m nw old dw w ws)
           = updatedFractions ix m nw old dw w"
proof -
  have r': "fraction_variables_fit ix m nw (length ws)" using r l by simp
  note a = updateFractionVariables_own[OF w d r', of old dw]
  note b = updateFractionVariables_own[OF w d r, of old dw]
  have "initialFractions ix m nw w (updateFractionVariables ix m nw old dw w ws)
      = initialFractions ix m nw w (updateFractionVariables ix m nw old dw w old)"
    by (rule initialFractions_cong) (simp_all add: a b)
  then show ?thesis by (simp add: normalizedFractions_def updatedFractions_def)
qed

lemma storeFractions_own:
  assumes w: "w < nw"
    and d: "distinct [WFrac ix, GFrac ix, SFrac ix]"
    and r: "fraction_variables_fit ix m nw (length ws)"
  shows "active_water m \<Longrightarrow> storeFractions ix m nw w (F, Fs) ws ! (WFrac ix * nw + w) = F (Water ix)"
    and "active_gas m \<Longrightarrow> storeFractions ix m nw w (F, Fs) ws ! (GFrac ix * nw + w) = F (Gas ix)"
    and "has_solvent m \<Longrightarrow> storeFractions ix m nw w (F, Fs) ws ! (SFrac ix * nw + w) = Fs"
proof -
  have lt: "active_water m \<Longrightarrow> WFrac ix * nw + w < length ws"
    "active_gas m \<Longrightarrow> GFrac ix * nw + w < length ws"
    "has_solvent m \<Longrightarrow> SFrac ix * nw + w < length ws"
    using r well_index_less[OF w] by (auto simp: fraction_variables_fit_def)
  have ne: "WFrac ix * nw + w \<noteq> GFrac ix * nw + w" "WFrac ix * nw + w \<noteq> SFrac ix * nw + w"
    "GFrac ix * nw + w \<noteq> SFrac ix * nw + w"
    using d well_index_eq[OF w w] by auto
  show "active_water m \<Longrightarrow> storeFractions ix m nw w (F, Fs) ws ! (WFrac ix * nw + w) = F (Water ix)"
    using lt ne by (simp add: storeFractions_def Let_def)
  show "active_gas m \<Longrightarrow> storeFractions ix m nw w (F, Fs) ws ! (GFrac ix * nw + w) = F (Gas ix)"
    using lt ne by (simp add: storeFractions_def Let_def)
  show "has_solvent m \<Longrightarrow> storeFractions ix m nw w (F, Fs) ws ! (SFrac ix * nw + w) = Fs"
    using lt ne by (simp add: storeFractions_def Let_def)
qed

lemma updateWell_own:
  assumes w: "w < number_of_wells (wells swd)"
    and d: "distinct [XvarWell ix, WFrac ix, GFrac ix, SFrac ix]"
    and r: "fraction_variables_fit ix m (number_of_wells (wells swd)) (length old)"
    and l: "length (wellSolutions st) = length old"
    and FS: "updatedFractions ix m (number_of_wells (wells swd)) old (dwells ! w) w = (F, Fs)"
  shows "active_water m \<Longrightarrow>
           wellSolutions (updateWell ix m swd densities cs old dwells w st) ! (WFrac ix * number_of_wells (wells swd) + w) = F (Water ix)"
    and "active_gas m \<Longrightarrow>
           wellSolutions (updateWell ix m swd densities cs old dwells w st) ! (GFrac ix * number_of_wells (wells swd) + w) = F (Gas ix)"
    and "has_solvent m \<Longrightarrow>
           wellSolutions (updateWell ix m swd densities cs old dwells w st) ! (SFrac ix * number_of_wells (wells swd) + w) = Fs"
proof -
  define nw where "nw = number_of_wells (wells swd)"
  define ws1 where "ws1 = updateFractionVariables ix m nw old (dwells ! w) w (wellSolutions st)"
  have d3: "distinct [WFrac ix, GFrac ix, SFrac ix]" using d by simp
  have w': "w < nw" using w by (simp add: nw_def)
  have r': "fraction_variables_fit ix m nw (length old)" using r by (simp add: nw_def)
  have n: "normalizedFractions ix m nw w ws1 = (F, Fs)"
    unfolding ws1_def using normalizedFractions_independent[OF w' d3 r' l] FS by (simp add: nw_def)
  have r1: "fraction_variables_fit ix m nw (length ws1)"
    using r' l by (simp add: ws1_def updateFractionVariables_length)
  from updateWell_solutions[of ix m swd densities cs old dwells w st]
  obtain v where v: "wellSolutions (updateWell ix m swd densities cs old dwells w st) =
      (storeFractions ix m nw w (F, Fs) ws1)[nw * XvarWell ix + w := v]"
    unfolding nw_def[symmetric] ws1_def[symmetric] n by blast
  have ne: "WFrac ix * nw + w \<noteq> nw * XvarWell ix + w" "GFrac ix * nw + w \<noteq> nw * XvarWell ix + w"
    "SFrac ix * nw + w \<noteq> nw * XvarWell ix + w"
  proof -
    have k: "K * nw + w \<noteq> XvarWell ix * nw + w" if "K \<noteq> XvarWell ix" for K
      using well_index_eq[OF w' w', of K "XvarWell ix"] that by simp
    show "WFrac ix * nw + w \<noteq> nw * XvarWell ix + w" "GFrac ix * nw + w \<noteq> nw * XvarWell ix + w"
      "SFrac ix * nw + w \<noteq> nw * XvarWell ix + w"
      unfolding mult.commute[of nw "XvarWell ix"] using d w' by (auto intro!: k)
  qed
  note s = storeFractions_own[OF w' d3 r1, of F Fs]
  show "active_water m \<Longrightarrow>
           wellSolutions (updateWell ix m swd densities cs old dwells w st) ! (WFrac ix * number_of_wells (wells swd) + w) = F (Water ix)"
    using ne s(1) by (simp add: v nw_def[symmetric])
  show "active_gas m \<Longrightarrow>
           wellSolutions (updateWell ix m swd densities cs old dwells w st) ! (GFrac ix * number_of_wells (wells swd) + w) = F (Gas ix)"
    using ne s(2) by (simp add: v nw_def[symmetric])
  show "has_solvent m \<Longrightarrow>
           wellSolutions (updateWell ix m swd densities cs old dwells w st) ! (SFrac ix * number_of_wells (wells swd) + w) = Fs"
    using ne s(3) by (simp add: v nw_def[symmetric])
qed

lemma updateWellState_fraction_entries:
  assumes w: "w < number_of_wells (wells swd)"
    and d: "distinct [XvarWell ix, WFrac ix, GFrac ix, SFrac ix]"
    and r: "fraction_variables_fit ix m (number_of_wells (wells swd)) (length (wellSolutions well_state))"
    and FS: "updatedFractions ix m (number_of_wells (wells swd)) (wellSolutions well_state) (dwells ! w) w = (F, Fs)"
  shows "active_water m \<Longrightarrow>
           wellSolutions (updateWellState ix m swd densities cs dwells well_state)
             ! (WFrac ix * number_of_wells (wells swd) + w) = F (Water ix)"
    and "active_gas m \<Longrightarrow>
           wellSolutions (updateWellState ix m swd densities cs dwells well_state)
             ! (GFrac ix * number_of_wells (wells swd) + w) = F (Gas ix)"
    and "has_solvent m \<Longrightarrow>
           wellSolutions (updateWellState ix m swd densities cs dwells well_state)
             ! (SFrac ix * number_of_wells (wells swd) + w) = Fs"
proof -
  define nw where "nw = number_of_wells (wells swd)"
  define old where "old = wellSolutions well_state"
  define upd where "upd = updateWell ix m swd densities cs old dwells"
  define st1 where "st1 = fold upd [0..<w] well_state"
  have act: "localWellsActive swd" using w by (simp add: localWellsActive_def)
  have split: "[0..<nw] = [0..<w] @ w # [Suc w..<nw]"
    using w unfolding nw_def by (metis le_add1 less_imp_add_positive upt_add_eq_append upt_conv_Cons plus_nat.add_0)
  have "wellSolutions (updateWellState ix m swd densities cs dwells well_state)
       = wellSolutions (fold upd [0..<nw] well_state)"
    using act by (simp add: updateWellState_def Let_def fold_updateThp_solutions nw_def old_def upd_def)
  also have "fold upd [0..<nw] well_state = fold upd [Suc w..<nw] (upd w st1)"
    by (subst split) (simp add: st1_def)
  finally have sols: "wellSolutions (updateWellState ix m swd densities cs dwells well_state)
       = wellSolutions (fold upd [Suc w..<nw] (upd w st1))" .
  have l1: "length (wellSolutions st1) = length old"
    unfolding st1_def upd_def old_def by (rule fold_updateWell_length)
  have later: "\<forall>w' \<in> set [Suc w..<nw]. w' < number_of_wells (wells swd) \<and> w' \<noteq> w"
    by (auto simp: nw_def)
  have keep: "wellSolutions (fold upd [Suc w..<nw] (upd w st1)) ! (K * nw + w)
      = wellSolutions (upd w st1) ! (K * nw + w)" for K
    unfolding upd_def nw_def by (rule fold_updateWell_other[OF w later[unfolded nw_def]])
  note own = updateWell_own[OF w d r[folded old_def] l1 FS[folded old_def], of densities cs, folded upd_def nw_def]
  show "active_water m \<Longrightarrow>
           wellSolutions (updateWellState ix m swd densities cs dwells well_state)
             ! (WFrac ix * number_of_wells (wells swd) + w) = F (Water ix)"
    using own(1) by (simp add: sols keep nw_def[symmetric])
  show "active_gas m \<Longrightarrow>
           wellSolutions (updateWellState ix m swd densities cs dwells well_state)
             ! (GFrac ix * number_of_wells (wells swd) + w) = F (Gas ix)"
    using own(2) by (simp add: sols keep nw_def[symmetric])
  show "has_solvent m \<Longrightarrow>
           wellSolutions (updateWellState ix m swd densities cs dwells well_state)
             ! (SFrac ix * number_of_wells (wells swd) + w) = Fs"
    using own(3) by (simp add: sols keep nw_def[symmetric])
qed


subsection \<open>The fractions of a well add up to one\<close>

text \<open>
  C8. After \<^verbatim>\<open>updateWellState\<close>, for every well \<open>w\<close>: the stored water, gas and solvent
  fractions (of the phases in use) are the renormalised \<open>F[Water]\<close>, \<open>F[Gas]\<close> and
  \<open>F_solvent\<close> computed in the loop body, the oil fraction that \<^verbatim>\<open>wellVolumeFraction\<close>
  derives from the stored variables is the renormalised \<open>F[Oil]\<close>, and the four add up to
  one (in exact arithmetic). The phase indices and the positions of the well variables
  are assumed pairwise distinct and the solution vector long enough for the fraction
  variables in use.
\<close>

theorem updateWellState_fractions_sum_to_one:
  assumes "w < number_of_wells (wells swd)"
    and "distinct [Water ix, Oil ix, Gas ix]"
    and "distinct [XvarWell ix, WFrac ix, GFrac ix, SFrac ix]"
    and "solventSaturationIdx ix \<noteq> Oil ix"
    and "fraction_variables_fit ix m (number_of_wells (wells swd)) (length (wellSolutions well_state))"
  shows
    "(let nw = number_of_wells (wells swd);
          ws' = wellSolutions (updateWellState ix m swd densities cs dwells well_state);
          FS = updatedFractions ix m nw (wellSolutions well_state) (dwells ! w) w;
          F = fst FS; F_solvent = snd FS;
          fw = (if active_water m then ws' ! (WFrac ix * nw + w) else 0);
          fg = (if active_gas m then ws' ! (GFrac ix * nw + w) else 0);
          fs = (if has_solvent m then ws' ! (SFrac ix * nw + w) else 0);
          fo = wellVolumeFraction ix m swd ws' w (Oil ix)
      in fw = F (Water ix) \<and> fg = F (Gas ix) \<and> fs = F_solvent \<and> fo = F (Oil ix)
       \<and> fw + fg + fs + fo = 1)"
proof -
  define nw where "nw = number_of_wells (wells swd)"
  define ws' where "ws' = wellSolutions (updateWellState ix m swd densities cs dwells well_state)"
  obtain F Fs where FS: "updatedFractions ix m nw (wellSolutions well_state) (dwells ! w) w = (F, Fs)"
    by (cases "updatedFractions ix m nw (wellSolutions well_state) (dwells ! w) w")
  have "fractions_ok ix m (updatedFractions ix m nw (wellSolutions well_state) (dwells ! w) w)"
    unfolding updatedFractions_def by (rule normalizedFractions_ok[OF assms(2)])
  then have ok: "fractions_ok ix m (F, Fs)" by (simp only: FS)
  then have sum: "F (Water ix) + F (Gas ix) + Fs + F (Oil ix) = 1"
    and iw: "\<not> active_water m \<longrightarrow> F (Water ix) = 0"
    and ig: "\<not> active_gas m \<longrightarrow> F (Gas ix) = 0"
    and isv: "\<not> has_solvent m \<longrightarrow> Fs = 0"
    by (simp_all add: fractions_ok_def)
  note e = updateWellState_fraction_entries[OF assms(1,3,5) FS[unfolded nw_def], of densities cs,
      folded ws'_def nw_def]
  define fw where "fw = (if active_water m then ws' ! (WFrac ix * nw + w) else 0)"
  define fg where "fg = (if active_gas m then ws' ! (GFrac ix * nw + w) else 0)"
  define fs where "fs = (if has_solvent m then ws' ! (SFrac ix * nw + w) else 0)"
  have fw: "fw = F (Water ix)" using e(1) iw by (simp add: fw_def)
  have fg: "fg = F (Gas ix)" using e(2) ig by (simp add: fg_def)
  have fs: "fs = Fs" using e(3) isv by (simp add: fs_def)
  have "wellVolumeFraction ix m swd ws' w (Oil ix) = 1 - fw - fg - fs"
    using assms(2,4) by (simp add: wellVolumeFraction_def Let_def fw_def fg_def fs_def nw_def)
  also have "\<dots> = F (Oil ix)" using sum by (simp add: fw fg fs)
  finally have fo: "wellVolumeFraction ix m swd ws' w (Oil ix) = F (Oil ix)" .
  show ?thesis
    unfolding Let_def nw_def[symmetric] ws'_def[symmetric] FS fw_def[symmetric] fg_def[symmetric]
      fs_def[symmetric]
    using fw fg fs fo sum by simp
qed


theorem updateWellState_fractions_sum_to_one_witness:
  "(0::nat) < number_of_wells (wells example_swd)
   \<and> distinct [Water ebos_indices, Oil ebos_indices, Gas ebos_indices]
   \<and> distinct [XvarWell ebos_indices, WFrac ebos_indices, GFrac ebos_indices, SFrac ebos_indices]
   \<and> solventSaturationIdx ebos_indices \<noteq> Oil ebos_indices
   \<and> fraction_variables_fit ebos_indices example_model (number_of_wells (wells example_swd))
        (length (wellSolutions example_well_state))
   \<and> wellSolutions (updateWellState ebos_indices example_model example_swd example_densities
        example_controls [[0, 3 / 10, 0], [0, 0, 0]] example_well_state)
        = [15000000, 25000000, 0, 1, 1 / 1100, 0]
   \<and> wellVolumeFraction ebos_indices example_model example_swd
        [15000000, 25000000, 0, 1, 1 / 1100, 0] 0 (Oil ebos_indices)
        = fst (updatedFractions ebos_indices example_model 2 (wellSolutions example_well_state)
                 [0, 3 / 10, 0] 0) (Oil ebos_indices)
   \<and> 0 + 1 / 1100 + 0 + wellVolumeFraction ebos_indices example_model example_swd
        [15000000, 25000000, 0, 1, 1 / 1100, 0] 0 (Oil ebos_indices) = (1::real)"
proof -
  have h1: "(0::nat) < number_of_wells (wells example_swd)"
    by (simp add: example_swd_def example_wells_def)
  have h2: "distinct [Water ebos_indices, Oil ebos_indices, Gas ebos_indices]"
    by (simp add: ebos_indices_def)
  have h3: "distinct [XvarWell ebos_indices, WFrac ebos_indices, GFrac ebos_indices, SFrac ebos_indices]"
    by (simp add: ebos_indices_def)
  have h4: "solventSaturationIdx ebos_indices \<noteq> Oil ebos_indices"
    by (simp add: ebos_indices_def)
  have h5: "fraction_variables_fit ebos_indices example_model (number_of_wells (wells example_swd))
        (length (wellSolutions example_well_state))"
    by (simp add: fraction_variables_fit_def ebos_indices_def example_model_def example_swd_def
        example_wells_def example_well_state_def)
  have ev: "wellSolutions (updateWellState ebos_indices example_model example_swd example_densities
        example_controls [[0, 3 / 10, 0], [0, 0, 0]] example_well_state)
        = [15000000, 25000000, 0, 1, 1 / 1100, 0]"
    by code_simp
  have nw: "number_of_wells (wells example_swd) = 2"
    by (simp add: example_swd_def example_wells_def)
  have flags: "active_water example_model" "active_gas example_model" "\<not> has_solvent example_model"
    by (simp_all add: example_model_def)
  have idx: "WFrac ebos_indices = 1" "GFrac ebos_indices = 2"
    by (simp_all add: ebos_indices_def)
  from updateWellState_fractions_sum_to_one[OF h1 h2 h3 h4 h5, of example_densities example_controls
         "[[0, 3 / 10, 0], [0, 0, 0]]"]
  have "wellVolumeFraction ebos_indices example_model example_swd
        [15000000, 25000000, 0, 1, 1 / 1100, 0] 0 (Oil ebos_indices)
        = fst (updatedFractions ebos_indices example_model 2 (wellSolutions example_well_state)
                 [0, 3 / 10, 0] 0) (Oil ebos_indices)
      \<and> 0 + 1 / 1100 + 0 + wellVolumeFraction ebos_indices example_model example_swd
        [15000000, 25000000, 0, 1, 1 / 1100, 0] 0 (Oil ebos_indices) = (1::real)"
    unfolding Let_def ev nw by (simp add: flags idx)
  with h1 h2 h3 h4 h5 ev show ?thesis by blast
qed


section \<open>Control switching\<close>

subsection \<open>The scan of the constraints\<close>















lemma initFirstVariable_bhp: "bhp (initFirstVariable ix swd ctrl w xw) = bhp xw"
  by (simp add: initFirstVariable_def Let_def split: WellType.splits)

lemma initFractions_bhp: "bhp (initFractions ix m swd ctrl w xw) = bhp xw"
  by (simp add: initFractions_def Let_def split: WellType.splits)

lemma initFirstVariable_thp: "thp (initFirstVariable ix swd ctrl w xw) = thp xw"
  by (simp add: initFirstVariable_def Let_def split: WellType.splits)

lemma initFractions_thp: "thp (initFractions ix m swd ctrl w xw) = thp xw"
  by (simp add: initFractions_def Let_def split: WellType.splits)

lemma initFromTarget_bhp_length:
  "length (bhp (initFromTarget ix m swd densities ctrl w xw)) = length (bhp xw)"
  by (simp add: initFromTarget_def Let_def split: WellControlType.splits WellType.splits)



lemma initFromTarget_thp_length:
  "length (thp (initFromTarget ix m swd densities ctrl w xw)) = length (thp xw)"
  by (simp add: initFromTarget_def Let_def split: WellControlType.splits WellType.splits)



lemma updateWellStateWithTarget_bhp_length:
  "length (bhp (updateWellStateWithTarget ix m swd densities wc current w xw)) = length (bhp xw)"
  by (simp add: updateWellStateWithTarget_def Let_def initFractions_bhp initFirstVariable_bhp
        initFromTarget_bhp_length)



lemma updateWellStateWithTarget_thp_length:
  "length (thp (updateWellStateWithTarget ix m swd densities wc current w xw)) = length (thp xw)"
  by (simp add: updateWellStateWithTarget_def Let_def initFractions_thp initFirstVariable_thp
        initFromTarget_thp_length)





lemma retarget_bhp_length:
  "length (bhp (fold (retarget ix m swd densities cs idx changed) ws xw)) = length (bhp xw)"
  by (induction ws arbitrary: xw) (simp_all add: retarget_def updateWellStateWithTarget_bhp_length)

lemma retarget_thp_length:
  "length (thp (fold (retarget ix m swd densities cs idx changed) ws xw)) = length (thp xw)"
  by (induction ws arbitrary: xw) (simp_all add: retarget_def updateWellStateWithTarget_thp_length)







subsection \<open>\<^verbatim>\<open>updateWellControls\<close> without group control\<close>








section \<open>Cross flow\<close>

lemma all_perforations_cross_flow_iff:
  "all_perforations_cross_flow drawdown wt perfs \<longleftrightarrow>
     (\<forall>perf \<in> set perfs. case wt of INJECTOR \<Rightarrow> \<not> drawdown perf < 0 | PRODUCER \<Rightarrow> \<not> drawdown perf > 0)"
  by (induction perfs) (auto split: WellType.splits)

lemma computeWellFlux_allowed:
  "computeWellFlux ix m swd ms w Tw intQuants mob bhp_w cdp True cq_s =
     (if fs_pressure intQuants (oilPhaseIdx ix) - (bhp_w + cdp) > 0
      then Inr (producing_flux ix m swd Tw intQuants mob (fs_pressure intQuants (oilPhaseIdx ix) - (bhp_w + cdp)) cq_s)
      else injecting_flux ix m swd ms w Tw intQuants mob (fs_pressure intQuants (oilPhaseIdx ix) - (bhp_w + cdp)) cq_s)"
  by (simp add: computeWellFlux_def Let_def)

lemma computeWellFlux_guarded:
  assumes "(wtype (wells swd) ! w = INJECTOR \<and> fs_pressure intQuants (oilPhaseIdx ix) - (bhp_w + cdp) > 0)
         \<or> (wtype (wells swd) ! w = PRODUCER \<and> \<not> fs_pressure intQuants (oilPhaseIdx ix) - (bhp_w + cdp) > 0)"
  shows "computeWellFlux ix m swd ms w Tw intQuants mob bhp_w cdp False cq_s = Inr cq_s"
  using assms by (auto simp: computeWellFlux_def Let_def)

lemma perforation_flux_guarded:
  assumes n: "\<not> allow_cross_flow ix m swd ms sim w"
    and c: "case wtype (wells swd) ! w of
                  INJECTOR \<Rightarrow> perforation_drawdown ix m swd ms sim w perf > 0
                | PRODUCER \<Rightarrow> \<not> perforation_drawdown ix m swd ms sim w perf > 0"
  shows "perforation_flux ix m swd ms sim mob w perf = Inr (replicate (numComponents swd) 0)"
proof -
  have "computeWellFlux ix m swd ms w (WI (wells swd) ! perf) (sim (well_cells (wells swd) ! perf)) mob
       (getBhp ix m swd ms w) (well_perforation_pressure_diffs ms ! perf) False (replicate (numComponents swd) 0)
        = Inr (replicate (numComponents swd) 0)"
    by (rule computeWellFlux_guarded)
       (use c in \<open>auto simp: perforation_drawdown_def Let_def split: WellType.splits\<close>)
  then show ?thesis
    using n by (simp add: perforation_flux_def)
qed

text \<open>
  Claim C10. For a well \<open>w\<close> whose \<^verbatim>\<open>allow_cf\<close> flag is false, \<^verbatim>\<open>allow_cross_flow(w)\<close> is
  true exactly when no perforation of the well flows in the direction of the well type:
  for an injector when no perforation has a negative drawdown, for a producer when none
  has a positive drawdown. When it is true, the call of \<^verbatim>\<open>computeWellFlux\<close> in
  \<^verbatim>\<open>assembleWellEq\<close> takes neither early return for any perforation of the well: the
  fluxes are those of the producing branch for a positive drawdown and those of the
  injecting branch otherwise, as for a well with the flag set.
\<close>

theorem allow_cross_flow_all_perforations:
  assumes "\<not> allow_cf (wells swd) ! w"
  shows "(allow_cross_flow ix m swd ms sim w \<longleftrightarrow>
            (\<forall>perf \<in> set [well_connpos (wells swd) ! w ..< well_connpos (wells swd) ! (w + 1)].
               case wtype (wells swd) ! w of
                 INJECTOR \<Rightarrow> \<not> perforation_drawdown ix m swd ms sim w perf < 0
               | PRODUCER \<Rightarrow> \<not> perforation_drawdown ix m swd ms sim w perf > 0))
       \<and> (allow_cross_flow ix m swd ms sim w \<longrightarrow>
            (\<forall>perf mob. perforation_flux ix m swd ms sim mob w perf =
               (if perforation_drawdown ix m swd ms sim w perf > 0
                then Inr (producing_flux ix m swd (WI (wells swd) ! perf) (sim (well_cells (wells swd) ! perf)) mob
                            (perforation_drawdown ix m swd ms sim w perf) (replicate (numComponents swd) 0))
                else injecting_flux ix m swd ms w (WI (wells swd) ! perf) (sim (well_cells (wells swd) ! perf)) mob
                       (perforation_drawdown ix m swd ms sim w perf) (replicate (numComponents swd) 0))))"
proof (intro conjI impI allI)
  show "allow_cross_flow ix m swd ms sim w \<longleftrightarrow>
            (\<forall>perf \<in> set [well_connpos (wells swd) ! w ..< well_connpos (wells swd) ! (w + 1)].
               case wtype (wells swd) ! w of
                 INJECTOR \<Rightarrow> \<not> perforation_drawdown ix m swd ms sim w perf < 0
               | PRODUCER \<Rightarrow> \<not> perforation_drawdown ix m swd ms sim w perf > 0)"
    using assms by (simp only: allow_cross_flow_def if_False all_perforations_cross_flow_iff)
next
  fix perf mob
  assume a: "allow_cross_flow ix m swd ms sim w"
  show "perforation_flux ix m swd ms sim mob w perf =
               (if perforation_drawdown ix m swd ms sim w perf > 0
                then Inr (producing_flux ix m swd (WI (wells swd) ! perf) (sim (well_cells (wells swd) ! perf)) mob
                            (perforation_drawdown ix m swd ms sim w perf) (replicate (numComponents swd) 0))
                else injecting_flux ix m swd ms w (WI (wells swd) ! perf) (sim (well_cells (wells swd) ! perf)) mob
                       (perforation_drawdown ix m swd ms sim w perf) (replicate (numComponents swd) 0))"
    using a by (simp add: perforation_flux_def computeWellFlux_allowed perforation_drawdown_def Let_def)
qed

theorem allow_cross_flow_all_perforations_witness:
  "allow_cross_flow ebos_indices example_model example_swd example_model_state example_sim 1
   \<and> perforation_flux ebos_indices example_model example_swd example_model_state example_sim [1, 2, 3] 1 1
       = Inr [- 1000000, - 2000000, - 4000000]"
proof -
  have h: "\<not> allow_cf (wells example_swd) ! 1" by code_simp
  note t = allow_cross_flow_all_perforations[OF h, of ebos_indices example_model example_model_state example_sim]
  have r: "\<forall>perf \<in> set [well_connpos (wells example_swd) ! 1 ..< well_connpos (wells example_swd) ! (1 + 1)].
             case wtype (wells example_swd) ! 1 of
               INJECTOR \<Rightarrow> \<not> perforation_drawdown ebos_indices example_model example_swd example_model_state example_sim 1 perf < 0
             | PRODUCER \<Rightarrow> \<not> perforation_drawdown ebos_indices example_model example_swd example_model_state example_sim 1 perf > 0"
    by code_simp
  have a: "allow_cross_flow ebos_indices example_model example_swd example_model_state example_sim 1"
    using t r by blast
  have f: "(if perforation_drawdown ebos_indices example_model example_swd example_model_state example_sim 1 1 > 0
            then Inr (producing_flux ebos_indices example_model example_swd (WI (wells example_swd) ! 1)
                        (example_sim (well_cells (wells example_swd) ! 1)) [1, 2, 3]
                        (perforation_drawdown ebos_indices example_model example_swd example_model_state example_sim 1 1)
                        (replicate (numComponents example_swd) 0))
            else injecting_flux ebos_indices example_model example_swd example_model_state 1 (WI (wells example_swd) ! 1)
                   (example_sim (well_cells (wells example_swd) ! 1)) [1, 2, 3]
                   (perforation_drawdown ebos_indices example_model example_swd example_model_state example_sim 1 1)
                   (replicate (numComponents example_swd) 0))
           = Inr [- 1000000, - 2000000, - 4000000]"
    by code_simp
  from t a have "perforation_flux ebos_indices example_model example_swd example_model_state example_sim [1, 2, 3] 1 1 =
          (if perforation_drawdown ebos_indices example_model example_swd example_model_state example_sim 1 1 > 0
            then Inr (producing_flux ebos_indices example_model example_swd (WI (wells example_swd) ! 1)
                        (example_sim (well_cells (wells example_swd) ! 1)) [1, 2, 3]
                        (perforation_drawdown ebos_indices example_model example_swd example_model_state example_sim 1 1)
                        (replicate (numComponents example_swd) 0))
            else injecting_flux ebos_indices example_model example_swd example_model_state 1 (WI (wells example_swd) ! 1)
                   (example_sim (well_cells (wells example_swd) ! 1)) [1, 2, 3]
                   (perforation_drawdown ebos_indices example_model example_swd example_model_state example_sim 1 1)
                   (replicate (numComponents example_swd) 0))"
    by blast
  with a f show ?thesis by simp
qed

section \<open>Back substitution of the well unknowns\<close>

lemma fold_update_length:
  "length (fold (\<lambda>i y. y[i := f i (y ! i)]) [0..<n] y) = length y"
  by (induction n) simp_all

lemma fold_update_nth:
  "fold (\<lambda>i y. y[i := f i (y ! i)]) [0..<n] y ! k = (if k < n \<and> k < length y then f k (y ! k) else y ! k)"
proof (induction n arbitrary: k)
  case 0
  show ?case by simp
next
  case (Suc n)
  define z where "z = fold (\<lambda>i y. y[i := f i (y ! i)]) [0..<n] y"
  have len: "length z = length y"
    unfolding z_def by (rule fold_update_length)
  have ih: "z ! j = (if j < n \<and> j < length y then f j (y ! j) else y ! j)" for j
    unfolding z_def by (rule Suc.IH)
  have "fold (\<lambda>i y. y[i := f i (y ! i)]) [0..<Suc n] y ! k = z[n := f n (z ! n)] ! k"
    by (simp add: z_def)
  also have "\<dots> = (if k < Suc n \<and> k < length y then f k (y ! k) else y ! k)"
  proof (cases "n < length y")
    case True
    then show ?thesis
      using len ih[of k] ih[of n] by (cases "k = n") (auto simp: nth_list_update)
  next
    case False
    then have "z[n := f n (z ! n)] = z" using len by (intro list_update_beyond) simp
    then show ?thesis using False ih[of k] by auto
  qed
  finally show ?case .
qed

lemma fold_overwrite_nth:
  "fold (\<lambda>i y. y[i := f i]) [0..<n] y ! k = (if k < n \<and> k < length y then f k else y ! k)"
  using fold_update_nth[of "\<lambda>i _. f i" n y k] by simp

lemma fold_overwrite_length:
  "length (fold (\<lambda>i y. y[i := f i]) [0..<n] y) = length y"
  by (induction n) simp_all

lemma block_mmv_nth:
  "block_mmv A v y ! i = (if i < length A \<and> i < length y then y ! i - dot (A ! i) v else y ! i)"
  unfolding block_mmv_def by (rule fold_update_nth)

lemma block_mmv_length: "length (block_mmv A v y) = length y"
  unfolding block_mmv_def by (rule fold_update_length)

lemma row_mmv_length:
  "length (fold (\<lambda>(cell_idx, blk) yw. block_mmv blk (x ! cell_idx) yw) row y) = length y"
  by (induction row arbitrary: y) (auto simp: block_mmv_length)

lemma row_mmv_nth:
  assumes "\<forall>(cell_idx, blk) \<in> set row. length blk = length y" "i < length y"
  shows "fold (\<lambda>(cell_idx, blk) yw. block_mmv blk (x ! cell_idx) yw) row y ! i
           = y ! i - sum_list (map (\<lambda>(cell_idx, blk). dot (blk ! i) (x ! cell_idx)) row)"
  using assms
proof (induction row arbitrary: y)
  case Nil
  show ?case by simp
next
  case (Cons e row)
  obtain j blk where e: "e = (j, blk)" by (cases e)
  have l: "length blk = length y" using Cons.prems e by simp
  have "\<forall>(cell_idx, b) \<in> set row. length b = length (block_mmv blk (x ! j) y)"
    using Cons.prems by (simp add: block_mmv_length)
  moreover have "i < length (block_mmv blk (x ! j) y)"
    using Cons.prems by (simp add: block_mmv_length)
  ultimately have "fold (\<lambda>(cell_idx, blk) yw. block_mmv blk (x ! cell_idx) yw) row (block_mmv blk (x ! j) y) ! i
           = block_mmv blk (x ! j) y ! i - sum_list (map (\<lambda>(cell_idx, blk). dot (blk ! i) (x ! cell_idx)) row)"
    by (rule Cons.IH)
  then show ?case using l Cons.prems(2) by (simp add: e block_mmv_nth)
qed

lemma sparse_mmv_nth:
  "sparse_mmv C x y ! w =
     (if w < length C \<and> w < length y
      then fold (\<lambda>(cell_idx, blk) yw. block_mmv blk (x ! cell_idx) yw) (C ! w) (y ! w)
      else y ! w)"
  unfolding sparse_mmv_def
  by (rule fold_update_nth[where f = "\<lambda>w yw. fold (\<lambda>(cell_idx, blk) yw. block_mmv blk (x ! cell_idx) yw) (C ! w) yw"])

lemma diag_mv_nth:
  "diag_mv A r y ! w = (if w < length A \<and> w < length y then block_mv (A ! w) (r ! w) else y ! w)"
  unfolding diag_mv_def by (rule fold_overwrite_nth)

lemma localInvert_nth:
  "localInvert invert D = Inr invD \<Longrightarrow> length invD = length D \<and> (\<forall>w < length D. invert (D ! w) = Inr (invD ! w))"
proof (induction D arbitrary: invD)
  case Nil
  then show ?case by simp
next
  case (Cons col cols)
  from Cons.prems obtain b bs where b: "invert col = Inr b" and bs: "localInvert invert cols = Inr bs"
    and i: "invD = b # bs"
    by (auto split: sum.splits)
  from Cons.IH[OF bs] have "length bs = length cols" "\<forall>w < length cols. invert (cols ! w) = Inr (bs ! w)"
    by simp_all
  then show ?case using b i by (auto simp: nth_Cons split: nat.splits)
qed

lemma dot_sum: "dot row v = (\<Sum>j<length row. row ! j * v ! j)"
  by (simp add: dot_def interv_sum_list_conv_sum_set_nat atLeast0LessThan)

lemma block_mm_entry:
  assumes "i < length A" "k < length A"
  shows "block_mm A B ! i ! k = (\<Sum>l<length (A ! i). A ! i ! l * B ! l ! k)"
  using assms by (simp add: block_mm_def interv_sum_list_conv_sum_set_nat atLeast0LessThan)

lemma unit_block_entry:
  "i < n \<Longrightarrow> k < n \<Longrightarrow> unit_block n ! i ! k = (if i = k then 1 else 0)"
  by (simp add: unit_block_def)

lemma square_block_row: "square_block n A \<Longrightarrow> i < n \<Longrightarrow> length (A ! i) = n"
  by (auto simp: square_block_def list_all_length)

lemma block_inverse_mv:
  assumes A: "square_block n A" and B: "square_block n B"
    and inv: "block_mm A B = unit_block n"
    and r: "length r = n" and i: "i < n"
  shows "dot (A ! i) (block_mv B r) = r ! i"
proof -
  have lA: "length A = n" and lB: "length B = n" using A B by (simp_all add: square_block_def)
  have rowA: "length (A ! i) = n" using A i by (rule square_block_row)
  have rowB: "\<And>l. l < n \<Longrightarrow> length (B ! l) = n" using B by (rule square_block_row)
  have ent: "(\<Sum>l<n. A ! i ! l * B ! l ! k) = (if i = k then 1 else 0)" if "k < n" for k
    using block_mm_entry[of i A k B] unit_block_entry[of i n k] i that lA rowA inv by simp
  have "dot (A ! i) (block_mv B r) = (\<Sum>l<n. A ! i ! l * (\<Sum>k<n. B ! l ! k * r ! k))"
    using lB rowB by (simp add: dot_sum rowA block_mv_def)
  also have "\<dots> = (\<Sum>l<n. \<Sum>k<n. A ! i ! l * B ! l ! k * r ! k)"
    by (simp add: sum_distrib_left mult.assoc)
  also have "\<dots> = (\<Sum>k<n. \<Sum>l<n. A ! i ! l * B ! l ! k * r ! k)"
    by (rule sum.swap)
  also have "\<dots> = (\<Sum>k<n. (\<Sum>l<n. A ! i ! l * B ! l ! k) * r ! k)"
    by (simp add: sum_distrib_right)
  also have "\<dots> = (\<Sum>k<n. (if i = k then 1 else 0) * r ! k)"
    by (rule sum.cong) (simp_all add: ent)
  also have "\<dots> = r ! i"
    using i by (simp add: if_distrib[of "\<lambda>c. c * _"] sum.delta cong: if_cong)
  finally show ?thesis .
qed

text \<open>
  Claim C6. With local wells, \<^verbatim>\<open>recoverVariable(x, xw)\<close> sets the block of every well \<open>w\<close> to
  \<open>invD\<^sub>w (resWell\<^sub>w - (C x)\<^sub>w)\<close>, for every \<open>x\<close>, where \<open>(C x)\<^sub>w\<close> adds up the products of the
  blocks of row \<open>w\<close> of \<open>C\<close> with the blocks of \<open>x\<close> at their cells. If \<open>invD\<close> is what
  \<^verbatim>\<open>localInvert\<close> made of \<open>D\<close> and the inversion of the block of the well is exact, the
  recovered block satisfies \<open>D\<^sub>w xw\<^sub>w + (C x)\<^sub>w = resWell\<^sub>w\<close>.
\<close>

theorem recoverVariable_back_substitution:
  assumes act: "localWellsActive swd"
    and w: "w < length (invDuneD ms)" "w < length xw" "w < length (duneC ms)" "w < length (resWell ms)"
    and dims: "length (resWell ms ! w) = n" "\<forall>(cell_idx, blk) \<in> set (duneC ms ! w). length blk = n"
      "square_block n (duneD ms ! w)" "square_block n (invDuneD ms ! w)"
    and inv: "localInvert invert (duneD ms) = Inr (invDuneD ms)"
    and exact: "\<forall>B. invert (duneD ms ! w) = Inr B \<longrightarrow> block_mm (duneD ms ! w) B = unit_block n"
  shows "let Cx = (\<lambda>i. sum_list (map (\<lambda>(cell_idx, blk). dot (blk ! i) (x ! cell_idx)) (duneC ms ! w)));
             xw' = recoverVariable swd ms x xw
         in xw' ! w = block_mv (invDuneD ms ! w) (map (\<lambda>i. resWell ms ! w ! i - Cx i) [0..<n])
          \<and> (\<forall>i<n. dot (duneD ms ! w ! i) (xw' ! w) + Cx i = resWell ms ! w ! i)"
proof -
  define Cx where "Cx = (\<lambda>i. sum_list (map (\<lambda>(cell_idx, blk). dot (blk ! i) (x ! cell_idx)) (duneC ms ! w)))"
  define r where "r = map (\<lambda>i. resWell ms ! w ! i - Cx i) [0..<n]"
  define r1 where "r1 = sparse_mmv (duneC ms) x (resWell ms) ! w"
  have r1: "r1 = fold (\<lambda>(cell_idx, blk) yw. block_mmv blk (x ! cell_idx) yw) (duneC ms ! w) (resWell ms ! w)"
    using w by (simp add: r1_def sparse_mmv_nth)
  have lr1: "length r1 = n"
    by (simp add: r1 row_mmv_length dims(1))
  have "r1 ! i = r ! i" if "i < n" for i
  proof -
    have "r1 ! i = resWell ms ! w ! i - Cx i"
      unfolding r1 Cx_def
      by (rule row_mmv_nth) (use dims that in auto)
    then show ?thesis using that by (simp add: r_def)
  qed
  then have req: "r1 = r"
    using lr1 by (intro nth_equalityI) (simp_all add: r_def)
  have xw': "recoverVariable swd ms x xw ! w = block_mv (invDuneD ms ! w) r"
    using act w by (simp add: recoverVariable_def Let_def diag_mv_nth r1_def[symmetric] req)
  from localInvert_nth[OF inv] w have "invert (duneD ms ! w) = Inr (invDuneD ms ! w)"
    by simp
  with exact have mm: "block_mm (duneD ms ! w) (invDuneD ms ! w) = unit_block n" by blast
  have lr: "length r = n" by (simp add: r_def)
  have "dot (duneD ms ! w ! i) (recoverVariable swd ms x xw ! w) + Cx i = resWell ms ! w ! i" if "i < n" for i
  proof -
    have "dot (duneD ms ! w ! i) (block_mv (invDuneD ms ! w) r) = r ! i"
      by (rule block_inverse_mv[OF dims(3) dims(4) mm lr that])
    then show ?thesis using that by (simp add: xw' r_def)
  qed
  then show ?thesis
    unfolding Let_def using xw' by (simp add: Cx_def r_def)
qed

theorem recoverVariable_back_substitution_witness:
  "recoverVariable example_swd example_system example_x [[0, 0, 0], [0, 0, 0]] ! 0 = [0, - (1 / 2), - 3]
   \<and> dot (duneD example_system ! 0 ! 0)
         (recoverVariable example_swd example_system example_x [[0, 0, 0], [0, 0, 0]] ! 0)
       + sum_list (map (\<lambda>(cell_idx, blk). dot (blk ! 0) (example_x ! cell_idx)) (duneC example_system ! 0))
       = resWell example_system ! 0 ! 0
   \<and> dot (duneD example_system ! 0 ! 1)
         (recoverVariable example_swd example_system example_x [[0, 0, 0], [0, 0, 0]] ! 0)
       + sum_list (map (\<lambda>(cell_idx, blk). dot (blk ! 1) (example_x ! cell_idx)) (duneC example_system ! 0))
       = resWell example_system ! 0 ! 1
   \<and> dot (duneD example_system ! 0 ! 2)
         (recoverVariable example_swd example_system example_x [[0, 0, 0], [0, 0, 0]] ! 0)
       + sum_list (map (\<lambda>(cell_idx, blk). dot (blk ! 2) (example_x ! cell_idx)) (duneC example_system ! 0))
       = resWell example_system ! 0 ! 2"
proof -
  have h1: "localWellsActive example_swd" by code_simp
  have h2: "0 < length (invDuneD example_system)" by code_simp
  have h3: "0 < length [[0, 0, 0], [0, 0, 0::real]]" by simp
  have h4: "0 < length (duneC example_system)" by code_simp
  have h5: "0 < length (resWell example_system)" by code_simp
  have h6: "length (resWell example_system ! 0) = 3" by code_simp
  have h7: "\<forall>(cell_idx, blk) \<in> set (duneC example_system ! 0). length blk = 3" by code_simp
  have h8: "square_block 3 (duneD example_system ! 0)" by code_simp
  have h9: "square_block 3 (invDuneD example_system ! 0)" by code_simp
  have h10: "localInvert adjugate_invert (duneD example_system) = Inr (invDuneD example_system)" by code_simp
  have e: "adjugate_invert (duneD example_system ! 0) = Inr [[1 / 2, 0, 0], [0, 1 / 4, 0], [- 1 / 2, 0, 1]]"
    by code_simp
  have mm: "block_mm (duneD example_system ! 0) [[1 / 2, 0, 0], [0, 1 / 4, 0], [- 1 / 2, 0, 1]] = unit_block 3"
    by code_simp
  have h11: "\<forall>B. adjugate_invert (duneD example_system ! 0) = Inr B
               \<longrightarrow> block_mm (duneD example_system ! 0) B = unit_block 3"
    using mm by (auto simp: e)
  have v: "block_mv (invDuneD example_system ! 0)
             (map (\<lambda>i. resWell example_system ! 0 ! i
                       - sum_list (map (\<lambda>(cell_idx, blk). dot (blk ! i) (example_x ! cell_idx))
                                    (duneC example_system ! 0))) [0..<3])
           = [0, - (1 / 2), - 3]"
    by code_simp
  note t = recoverVariable_back_substitution[OF h1 h2 h3 h4 h5 h6 h7 h8 h9 h10 h11, of example_x, unfolded Let_def]
  from t have a: "recoverVariable example_swd example_system example_x [[0, 0, 0], [0, 0, 0]] ! 0 = [0, - (1 / 2), - 3]"
    by (simp only: v)
  from t have b: "\<forall>i<3. dot (duneD example_system ! 0 ! i)
                  (recoverVariable example_swd example_system example_x [[0, 0, 0], [0, 0, 0]] ! 0)
                + sum_list (map (\<lambda>(cell_idx, blk). dot (blk ! i) (example_x ! cell_idx)) (duneC example_system ! 0))
                = resWell example_system ! 0 ! i"
    by (rule conjunct2)
  have b0: "dot (duneD example_system ! 0 ! 0)
         (recoverVariable example_swd example_system example_x [[0, 0, 0], [0, 0, 0]] ! 0)
       + sum_list (map (\<lambda>(cell_idx, blk). dot (blk ! 0) (example_x ! cell_idx)) (duneC example_system ! 0))
       = resWell example_system ! 0 ! 0"
    using b by simp
  have b1: "dot (duneD example_system ! 0 ! 1)
         (recoverVariable example_swd example_system example_x [[0, 0, 0], [0, 0, 0]] ! 0)
       + sum_list (map (\<lambda>(cell_idx, blk). dot (blk ! 1) (example_x ! cell_idx)) (duneC example_system ! 0))
       = resWell example_system ! 0 ! 1"
    using b by simp
  have b2: "dot (duneD example_system ! 0 ! 2)
         (recoverVariable example_swd example_system example_x [[0, 0, 0], [0, 0, 0]] ! 0)
       + sum_list (map (\<lambda>(cell_idx, blk). dot (blk ! 2) (example_x ! cell_idx)) (duneC example_system ! 0))
       = resWell example_system ! 0 ! 2"
    using b by simp
  from a b0 b1 b2 show ?thesis by (intro conjI)
qed

section \<open>Properties of \<^verbatim>\<open>stepImpl\<close>\<close>

subsection \<open>Auxiliary facts\<close>







subsection \<open>Failure of a sub-step\<close>



end
